(* ===== verification/Prelude.thy ===== *)
theory Prelude
  imports Complex_Main "HOL-Library.Multiset"
begin

text \<open>
  Shared vocabulary of the Sky Fighter development: the collections of facts the
  component theories feed to \<open>simp\<close> and \<open>auto\<close>, the type names of the model, and the
  generic lemmas on clamping, sliding windows and list extrema that the controller, the
  calibration statistics and the motion mapping all use.  Python floats are modelled as
  \<open>real\<close> throughout (rounding of IEEE doubles is abstracted away, see the root header);
  Python ints as \<open>int\<close>.
\<close>

named_theorems model_defs "definitions unfolded when a model function is evaluated"
named_theorems range_facts "bounds on the values a model function produces"

type_synonym seconds = real
type_synonym tilt = real

subsection \<open>Clamping, as \<open>max(lo, min(hi, x))\<close> in the source\<close>

definition py_clamp :: "real \<Rightarrow> real \<Rightarrow> real \<Rightarrow> real" where
  "py_clamp lo hi x = max lo (min hi x)"

declare py_clamp_def [model_defs]

lemma py_clamp_range [range_facts]:
  "lo \<le> hi \<Longrightarrow> lo \<le> py_clamp lo hi x \<and> py_clamp lo hi x \<le> hi"
  by (simp add: py_clamp_def)

lemma py_clamp_id [simp]:
  "lo \<le> x \<Longrightarrow> x \<le> hi \<Longrightarrow> py_clamp lo hi x = x"
  by (simp add: py_clamp_def)

lemma py_clamp_hi [simp]:
  "lo \<le> hi \<Longrightarrow> hi \<le> x \<Longrightarrow> py_clamp lo hi x = hi"
  by (simp add: py_clamp_def)

lemma py_clamp_lo [simp]:
  "lo \<le> hi \<Longrightarrow> x \<le> lo \<Longrightarrow> py_clamp lo hi x = lo"
  by (simp add: py_clamp_def)

lemma py_clamp_mono:
  "lo \<le> hi \<Longrightarrow> x \<le> y \<Longrightarrow> py_clamp lo hi x \<le> py_clamp lo hi y"
  by (simp add: py_clamp_def)

lemma py_clamp_sym_abs [range_facts]:
  "0 \<le> c \<Longrightarrow> \<bar>py_clamp (- c) c x\<bar> \<le> c"
  by (simp add: py_clamp_def)

lemma py_clamp_abs_ge:
  "c \<le> hi \<Longrightarrow> c \<le> \<bar>x\<bar> \<Longrightarrow> c \<le> \<bar>py_clamp (- hi) hi x\<bar>"
  unfolding py_clamp_def by (auto simp: abs_if max_def min_def)

subsection \<open>Sliding windows: the last \<open>n\<close> elements of a list\<close>

definition last_n :: "nat \<Rightarrow> 'a list \<Rightarrow> 'a list" where
  "last_n n xs = drop (length xs - n) xs"

lemma length_last_n [simp]: "length (last_n n xs) = min n (length xs)"
  by (simp add: last_n_def)

lemma last_n_snoc:
  "last_n n (xs @ [x]) =
     (if length (last_n n xs) < n then last_n n xs @ [x] else tl (last_n n xs @ [x]))"
proof (cases "length xs < n")
  case True
  then show ?thesis by (simp add: last_n_def)
next
  case False
  let ?k = "length xs - n"
  have k: "length (xs @ [x]) - n = Suc ?k" using False by simp
  have "drop (Suc ?k) ys = tl (drop ?k ys)" for ys :: "'a list"
    by (simp add: drop_Suc tl_drop)
  then have "drop (Suc ?k) (xs @ [x]) = tl (drop ?k (xs @ [x]))" .
  also have "drop ?k (xs @ [x]) = drop ?k xs @ [x]"
    by simp
  finally show ?thesis using False k by (simp add: last_n_def)
qed

lemma last_n_Nil [simp]: "last_n n [] = []"
  by (simp add: last_n_def)

subsection \<open>Extrema and means of non-empty real lists\<close>

lemma Max_set_ge: "x \<in> set xs \<Longrightarrow> x \<le> Max (set xs)"
  by simp

lemma Min_set_le: "x \<in> set xs \<Longrightarrow> Min (set xs) \<le> x"
  by simp

lemma sum_list_bounds:
  fixes xs :: "real list"
  assumes "\<forall>x\<in>set xs. lo \<le> x \<and> x \<le> hi"
  shows "real (length xs) * lo \<le> sum_list xs \<and> sum_list xs \<le> real (length xs) * hi"
  using assms
proof (induction xs)
  case Nil
  then show ?case by simp
next
  case (Cons x xs)
  then show ?case by (simp add: algebra_simps)
qed

lemma abs_dev_le_extremes:
  fixes v c :: real
  assumes "lo \<le> v" and "v \<le> hi"
  shows "\<bar>v - c\<bar> \<le> max \<bar>hi - c\<bar> \<bar>lo - c\<bar>"
  using assms by linarith

lemma Max_abs_dev:
  fixes S :: "real set"
  assumes "finite S" and "S \<noteq> {}"
  shows "Max ((\<lambda>v. \<bar>v - c\<bar>) ` S) = max \<bar>Max S - c\<bar> \<bar>Min S - c\<bar>"
proof (rule Max_eqI)
  show "finite ((\<lambda>v. \<bar>v - c\<bar>) ` S)" using assms(1) by simp
next
  fix y assume "y \<in> (\<lambda>v. \<bar>v - c\<bar>) ` S"
  then obtain v where v: "v \<in> S" "y = \<bar>v - c\<bar>" by blast
  have "Min S \<le> v" "v \<le> Max S" using v(1) assms by simp_all
  then have "\<bar>v - c\<bar> \<le> max \<bar>Max S - c\<bar> \<bar>Min S - c\<bar>" by (rule abs_dev_le_extremes)
  with v(2) show "y \<le> max \<bar>Max S - c\<bar> \<bar>Min S - c\<bar>" by simp
next
  have "Max S \<in> S" "Min S \<in> S" using assms by simp_all
  then show "max \<bar>Max S - c\<bar> \<bar>Min S - c\<bar> \<in> (\<lambda>v. \<bar>v - c\<bar>) ` S"
    by (simp add: max_def)
qed

lemma Max_image_Un_lists:
  fixes f :: "real \<Rightarrow> real"
  assumes "r \<noteq> []" and "l \<noteq> []"
  shows "Max (f ` (set r \<union> set l)) = max (Max (f ` set r)) (Max (f ` set l))"
  unfolding image_Un by (rule Max_Un) (use assms in simp_all)

lemma Max_abs_dev_list:
  fixes c :: real
  assumes "r \<noteq> []"
  shows "Max ((\<lambda>v. \<bar>v - c\<bar>) ` set r) = max \<bar>Max (set r) - c\<bar> \<bar>Min (set r) - c\<bar>"
  by (rule Max_abs_dev) (use assms in simp_all)

lemma Max_set_four:
  fixes a b d e :: real
  shows "Max (set [a, b, d, e]) = max (max a b) (max d e)"
  by (simp add: max.assoc)

lemma Max_four_dev:
  fixes c :: real
  assumes "r \<noteq> []" and "l \<noteq> []"
  shows "Max (set [\<bar>Max (set r) - c\<bar>, \<bar>Min (set r) - c\<bar>, \<bar>Max (set l) - c\<bar>, \<bar>Min (set l) - c\<bar>]) =
         Max ((\<lambda>v. \<bar>v - c\<bar>) ` (set r \<union> set l))"
  by (simp only: Max_image_Un_lists [OF assms] Max_abs_dev_list [OF assms(1)]
      Max_abs_dev_list [OF assms(2)] Max_set_four)

text \<open>C's and Python's halving of a pixel size, bounded on both sides.\<close>

lemma int_half: "2 * ((w::int) div 2) \<le> w \<and> w \<le> 2 * (w div 2) + 1"
  using pos_mod_sign [of 2 w] pos_mod_bound [of 2 w] div_mult_mod_eq [of w 2] by linarith

end
