(* ===== verification/Py_Values.thy ===== *)
theory Py_Values
  imports Prelude
begin

text \<open>
  The values the IoTtalk client hands to the program (\<open>DAN.pull\<close> decodes a JSON
  payload into Python objects) and the Python builtin \<open>float()\<close> applied to them,
  with the exceptions it raises as values of \<open>py_error\<close>.  Lists and tuples are one
  constructor, because every test of the source is \<open>isinstance(x, (list, tuple))\<close>.
  Strings are byte strings (UTF-8); equality of UTF-8 encodings is equality of the
  Python code-point strings, which is all the source compares.
\<close>

datatype py_error = ValueError | TypeError | IndexError | OverflowError | KeyError | StatisticsError

datatype pyval =
    PNone
  | PBool bool
  | PInt int
  | PFloat real
  | PStr string
  | PList "pyval list"
  | PDict "(string \<times> pyval) list"

definition is_seq :: "pyval \<Rightarrow> bool" where
  "is_seq v = (case v of PList _ \<Rightarrow> True | _ \<Rightarrow> False)"

subsection \<open>\<open>float()\<close> on strings: finite decimal literals\<close>

text \<open>
  Python's \<open>float(s)\<close> strips surrounding whitespace and reads an optional sign, a
  decimal mantissa with at least one digit (\<open>1\<close>, \<open>1.\<close>, \<open>.5\<close>, \<open>1.5\<close>) and an
  optional exponent \<open>e[+-]digits\<close>; a single \<open>_\<close> may separate two digits
  (\<open>1_000.5\<close>, PEP 515).  Everything else raises \<open>ValueError\<close>.  The spellings
  \<open>inf\<close>, \<open>infinity\<close> and \<open>nan\<close> are accepted by CPython but denote no real
  number; the real-valued model reads them as \<open>ValueError\<close> (see the root header).
\<close>

definition is_ws :: "char \<Rightarrow> bool" where
  "is_ws c = (c \<in> set [CHR '' '', CHR 0x09, CHR 0x0A, CHR 0x0B, CHR 0x0C, CHR 0x0D])"

definition is_digit :: "char \<Rightarrow> bool" where
  "is_digit c = (48 \<le> (of_char c :: nat) \<and> (of_char c :: nat) \<le> 57)"

definition strip_ws :: "string \<Rightarrow> string" where
  "strip_ws s = rev (dropWhile is_ws (rev (dropWhile is_ws s)))"

definition digits_val :: "string \<Rightarrow> nat" where
  "digits_val ds = foldl (\<lambda>n c. 10 * n + (of_char c - 48)) 0 ds"

definition split_sign :: "string \<Rightarrow> bool \<times> string" where
  "split_sign s = (case s of
       c # r \<Rightarrow> (if c = CHR ''-'' then (True, r) else if c = CHR ''+'' then (False, r) else (False, s))
     | [] \<Rightarrow> (False, []))"

definition parse_exponent :: "string \<Rightarrow> int option" where
  "parse_exponent s = (case s of
       [] \<Rightarrow> Some 0
     | c # r \<Rightarrow>
         (if c = CHR ''e'' \<or> c = CHR ''E'' then
            (let (neg, ds) = split_sign r in
             if ds \<noteq> [] \<and> list_all is_digit ds
             then Some (if neg then - int (digits_val ds) else int (digits_val ds))
             else None)
          else None))"

definition scale10 :: "nat \<Rightarrow> int \<Rightarrow> real" where
  "scale10 m k = (if 0 \<le> k then real m * 10 ^ nat k else real m / 10 ^ nat (- k))"

text \<open>Every \<open>_\<close> stands between two digits.\<close>

fun underscores_ok :: "char option \<Rightarrow> string \<Rightarrow> bool" where
  "underscores_ok prev [] = True"
| "underscores_ok prev (c # r) =
     ((c = CHR ''_'' \<longrightarrow> (case prev of Some p \<Rightarrow> is_digit p | None \<Rightarrow> False) \<and>
                          (case r of d # _ \<Rightarrow> is_digit d | [] \<Rightarrow> False))
      \<and> underscores_ok (Some c) r)"

definition parse_decimal :: "string \<Rightarrow> real option" where
  "parse_decimal t =
     (let (neg, r1) = split_sign t;
          ip = takeWhile is_digit r1;
          r2 = dropWhile is_digit r1;
          (fp, r3) = (case r2 of
                        c # r \<Rightarrow> (if c = CHR ''.'' then (takeWhile is_digit r, dropWhile is_digit r)
                                 else ([], r2))
                      | [] \<Rightarrow> ([], []))
      in if ip = [] \<and> fp = [] then None
         else (case parse_exponent r3 of
                 None \<Rightarrow> None
               | Some e \<Rightarrow>
                   (let v = scale10 (digits_val (ip @ fp)) (e - int (length fp))
                    in Some (if neg then - v else v))))"

definition parse_float :: "string \<Rightarrow> real option" where
  "parse_float s =
     (let t = strip_ws s in
      if underscores_ok None t then parse_decimal (filter (\<lambda>c. c \<noteq> CHR ''_'') t) else None)"

subsection \<open>\<open>float()\<close> on every value\<close>

text \<open>
  An \<open>int\<close> converts to the nearest double; CPython raises \<open>OverflowError\<close> when that
  rounds beyond the largest finite double, i.e. from \<open>2^1024 - 2^970\<close> on (the midpoint
  between \<open>DBL_MAX\<close> and \<open>2^1024\<close>, which rounds up).  \<open>True\<close> and \<open>False\<close> are
  \<open>1.0\<close> and \<open>0.0\<close>.  \<open>None\<close>, lists and dicts raise \<open>TypeError\<close>.
\<close>

definition float_int_limit :: int where
  "float_int_limit = 2 ^ 1024 - 2 ^ 970"

fun py_float :: "pyval \<Rightarrow> py_error + real" where
  "py_float (PFloat r) = Inr r"
| "py_float (PInt i) =
     (if float_int_limit \<le> \<bar>i\<bar> then Inl OverflowError else Inr (real_of_int i))"
| "py_float (PBool b) = Inr (if b then 1 else 0)"
| "py_float (PStr s) = (case parse_float s of None \<Rightarrow> Inl ValueError | Some r \<Rightarrow> Inr r)"
| "py_float PNone = Inl TypeError"
| "py_float (PList _) = Inl TypeError"
| "py_float (PDict _) = Inl TypeError"

text \<open>
  \<open>try: x = float(v) except (E1, E2, ...): pass\<close>: a caught exception leaves the
  variable at \<open>None\<close>; any other exception propagates.
\<close>

definition try_float :: "py_error list \<Rightarrow> pyval \<Rightarrow> py_error + real option" where
  "try_float caught v =
     (case py_float v of
        Inr r \<Rightarrow> Inr (Some r)
      | Inl e \<Rightarrow> (if e \<in> set caught then Inr None else Inl e))"

text \<open>
  The f-string conversion \<open>{x:.kf}\<close> prints \<open>x\<close> rounded to \<open>k\<close> decimals, ties to
  even; \<open>fmt_fixed k x\<close> is the number the printed text denotes.
\<close>

definition round_half_even :: "real \<Rightarrow> int" where
  "round_half_even x =
     (let f = \<lfloor>x\<rfloor>; d = x - of_int f in
      if d < 1 / 2 then f else if 1 / 2 < d then f + 1 else if even f then f else f + 1)"

definition fmt_fixed :: "nat \<Rightarrow> real \<Rightarrow> real" where
  "fmt_fixed k x = real_of_int (round_half_even (x * 10 ^ k)) / 10 ^ k"

lemmas py_value_defs [model_defs] =
  is_seq_def is_ws_def is_digit_def strip_ws_def digits_val_def split_sign_def
  parse_exponent_def scale10_def parse_decimal_def parse_float_def try_float_def
  round_half_even_def fmt_fixed_def

lemma round_half_even_err: "\<bar>real_of_int (round_half_even x) - x\<bar> \<le> 1 / 2"
  unfolding round_half_even_def Let_def
  using of_int_floor_le [of x] real_of_int_floor_add_one_gt [of x]
  by (auto split: if_splits)

lemma fmt_fixed_err: "\<bar>fmt_fixed k x - x\<bar> \<le> 1 / (2 * 10 ^ k)"
proof -
  have p: "(0::real) < 10 ^ k" by simp
  have "fmt_fixed k x - x = (real_of_int (round_half_even (x * 10 ^ k)) - x * 10 ^ k) / 10 ^ k"
    using p by (simp add: fmt_fixed_def diff_divide_distrib)
  then have "\<bar>fmt_fixed k x - x\<bar> = \<bar>real_of_int (round_half_even (x * 10 ^ k)) - x * 10 ^ k\<bar> / 10 ^ k"
    by simp
  also have "\<dots> \<le> (1 / 2) / 10 ^ k"
    using round_half_even_err p by (intro divide_right_mono) simp_all
  finally show ?thesis by simp
qed

lemma py_float_error_kinds:
  "py_float v = Inl e \<Longrightarrow> e \<in> {ValueError, TypeError, OverflowError}"
  by (cases v) (auto split: if_splits option.splits)

lemma py_float_overflow_int:
  "py_float v = Inl OverflowError \<longleftrightarrow> (\<exists>i. v = PInt i \<and> float_int_limit \<le> \<bar>i\<bar>)"
  by (cases v) (auto split: if_splits option.splits)

lemma try_float_caught:
  "set [ValueError, TypeError] \<subseteq> set caught \<Longrightarrow> try_float caught v = Inl e \<Longrightarrow> e = OverflowError"
  using py_float_error_kinds [of v e]
  by (auto simp: try_float_def split: sum.splits if_splits)

lemma try_float_VT_error:
  "try_float [ValueError, TypeError] v = Inl e \<Longrightarrow> e = OverflowError"
  by (rule try_float_caught) simp_all

lemma try_float_VTI_error:
  "try_float [ValueError, TypeError, IndexError] v = Inl e \<Longrightarrow> e = OverflowError"
  by (rule try_float_caught) simp_all

lemma try_float_Some:
  "try_float caught v = Inr (Some r) \<longleftrightarrow> py_float v = Inr r"
  by (auto simp: try_float_def split: sum.splits)

lemma py_float_small_int [simp]:
  "\<bar>i\<bar> < float_int_limit \<Longrightarrow> py_float (PInt i) = Inr (real_of_int i)"
  by simp

lemma float_int_limit_pos: "0 < float_int_limit"
  by (simp add: float_int_limit_def)

end
