(* ===== verification/Sample_Normalizer.thy ===== *)
theory Sample_Normalizer
  imports Py_Values
begin

text \<open>
  The two places where the program turns a raw IoTtalk sample into one orientation
  scalar.  The live controller (\<open>iottalk_listener\<close>, Game.py lines 36-60) reads the
  third component of a nested triple; the calibration tool (test_tilt_data.py lines
  146-229) unwraps one level of nesting, reads the three gyroscope axes with a fallback
  to the first one, and maps direction labels through a fixed lexicon.  The spec's
  contract for the normalizer (spec section 4.1) is stated as \<open>spec_normalize\<close>; the
  lemmas relate each implementation to it.
\<close>

subsection \<open>The direction lexicon (test_tilt_data.py lines 196-204)\<close>

definition lbl_flat :: string where
  "lbl_flat = [CHR 0xE5, CHR 0xB9, CHR 0xB3, CHR 0xE8, CHR 0xBA, CHR 0xBA]"
definition lbl_sideways :: string where
  "lbl_sideways = [CHR 0xE6, CHR 0xA9, CHR 0xAB, CHR 0xE6, CHR 0x93, CHR 0xBA]"
definition lbl_left :: string where
  "lbl_left = [CHR 0xE5, CHR 0xB7, CHR 0xA6, CHR 0xE5, CHR 0x82, CHR 0xBE]"
definition lbl_right :: string where
  "lbl_right = [CHR 0xE5, CHR 0x8F, CHR 0xB3, CHR 0xE5, CHR 0x82, CHR 0xBE]"
definition lbl_upright :: string where
  "lbl_upright = [CHR 0xE7, CHR 0x9B, CHR 0xB4, CHR 0xE7, CHR 0xAB, CHR 0x8B]"
definition lbl_inverted :: string where
  "lbl_inverted = [CHR 0xE5, CHR 0x80, CHR 0x92, CHR 0xE7, CHR 0xAB, CHR 0x8B]"

definition direction_map :: "(string \<times> real) list" where
  "direction_map =
     [(lbl_flat, 0), (lbl_sideways, 0), (lbl_left, -5), (lbl_right, 5),
      (lbl_upright, 0), (lbl_inverted, 0)]"

text \<open>\<open>direction_map.get(val, 0.0)\<close>: an unknown label reads as \<open>0.0\<close>.\<close>

definition lexicon_get :: "string \<Rightarrow> real" where
  "lexicon_get s = (case map_of direction_map s of Some r \<Rightarrow> r | None \<Rightarrow> 0)"

lemmas label_defs [model_defs] =
  lbl_flat_def lbl_sideways_def lbl_left_def lbl_right_def lbl_upright_def lbl_inverted_def
  direction_map_def lexicon_get_def

subsection \<open>The live controller's extraction (Game.py lines 36-60)\<close>

text \<open>
  \<open>val = data[0]\<close>; a list of three or more gives \<open>float(val[2])\<close> (catching
  \<open>ValueError\<close>, \<open>TypeError\<close>, \<open>IndexError\<close>), a shorter non-empty list
  \<open>float(val[0])\<close>, anything else \<open>float(val)\<close> (catching \<open>ValueError\<close>,
  \<open>TypeError\<close>).  Data that is not a non-empty list leaves \<open>gamma_value = None\<close>.
  \<open>Inl\<close> is an exception that escapes to the loop's outer handler.
\<close>

definition listener_gamma :: "pyval \<Rightarrow> py_error + real option" where
  "listener_gamma data =
     (case data of
        PList (val # _) \<Rightarrow>
          (case val of
             PList vs \<Rightarrow>
               (if 3 \<le> length vs then try_float [ValueError, TypeError, IndexError] (vs ! 2)
                else if 1 \<le> length vs then try_float [ValueError, TypeError] (vs ! 0)
                else try_float [ValueError, TypeError] val)
           | _ \<Rightarrow> try_float [ValueError, TypeError] val)
      | _ \<Rightarrow> Inr None)"

subsection \<open>The calibration tool's extraction (test_tilt_data.py lines 146-229)\<close>

text \<open>
  \<open>x[0] if len(x) > 0 else 0\<close> applied to a list, identity otherwise (lines 161-162,
  166-167, 171-172, 182-183, 189-190).
\<close>

definition unwrap_first :: "pyval \<Rightarrow> pyval" where
  "unwrap_first v = (case v of PList (x # _) \<Rightarrow> x | PList [] \<Rightarrow> PInt 0 | _ \<Rightarrow> v)"

text \<open>
  A parsed sample: the control value \<open>raw_value\<close>, the three axes as far as they were
  read, and the data after the one-level unwrapping (from which \<open>raw_data\<close> and
  \<open>direction_str\<close> are taken, lines 237-250).
\<close>

datatype parsed =
  Parsed (ps_value: real) (ps_alpha: "real option") (ps_beta: "real option")
    (ps_gamma: "real option") (ps_data: pyval)

text \<open>
  The \<open>except (ValueError, TypeError)\<close> handler of lines 177-186: retry with the first
  axis only; a second failure \<open>continue\<close>s (the sample is dropped, \<open>Inr None\<close>).
  Any other exception (\<open>OverflowError\<close>) leaves the inner \<open>try\<close> for the loop's
  outer handler.
\<close>

definition axes_fallback ::
  "pyval list \<Rightarrow> real option \<Rightarrow> real option \<Rightarrow> py_error \<Rightarrow> py_error + parsed option" where
  "axes_fallback xs a b e =
     (if e \<in> {ValueError, TypeError} then
        (case try_float [ValueError, TypeError] (unwrap_first (xs ! 0)) of
           Inl e' \<Rightarrow> Inl e'
         | Inr None \<Rightarrow> Inr None
         | Inr (Some r) \<Rightarrow> Inr (Some (Parsed r a b None (PList xs))))
      else Inl e)"

definition parse_triple :: "pyval list \<Rightarrow> py_error + parsed option" where
  "parse_triple xs =
     (case py_float (unwrap_first (xs ! 0)) of
        Inl e \<Rightarrow> axes_fallback xs None None e
      | Inr a \<Rightarrow>
          (case py_float (unwrap_first (xs ! 1)) of
             Inl e \<Rightarrow> axes_fallback xs (Some a) None e
           | Inr b \<Rightarrow>
               (case py_float (unwrap_first (xs ! 2)) of
                  Inl e \<Rightarrow> axes_fallback xs (Some a) (Some b) e
                | Inr g \<Rightarrow> Inr (Some (Parsed g (Some a) (Some b) (Some g) (PList xs))))))"

text \<open>
  Lines 187-215: a single element, unwrapped once; a string goes through the lexicon,
  anything else through \<open>float()\<close>, whose \<open>ValueError\<close> or \<open>TypeError\<close> yields
  \<open>0.0\<close>.
\<close>

definition parse_single :: "pyval list \<Rightarrow> py_error + parsed option" where
  "parse_single xs =
     (let val = unwrap_first (xs ! 0) in
      case val of
        PStr s \<Rightarrow> Inr (Some (Parsed (lexicon_get s) None None None (PList xs)))
      | _ \<Rightarrow>
          (case try_float [ValueError, TypeError] val of
             Inl e \<Rightarrow> Inl e
           | Inr None \<Rightarrow> Inr (Some (Parsed 0 None None None (PList xs)))
           | Inr (Some r) \<Rightarrow> Inr (Some (Parsed r None None None (PList xs)))))"

text \<open>Lines 149-151: a list whose first element is a list is replaced by that element.\<close>

definition unnest :: "pyval list \<Rightarrow> pyval list" where
  "unnest xs = (case xs of PList ys # _ \<Rightarrow> ys | _ \<Rightarrow> xs)"

definition calib_parse :: "pyval \<Rightarrow> py_error + parsed option" where
  "calib_parse data =
     (case data of
        PList xs0 \<Rightarrow>
          (let xs = unnest xs0 in
           if 3 \<le> length xs then parse_triple xs
           else if length xs = 1 then parse_single xs
           else Inr None)
      | _ \<Rightarrow>
          (case try_float [ValueError, TypeError] data of
             Inl e \<Rightarrow> Inl e
           | Inr None \<Rightarrow> Inr None
           | Inr (Some r) \<Rightarrow> Inr (Some (Parsed r None None None data))))"

text \<open>Lines 237-240 and 246: the direction label and the raw data kept with a point.\<close>

definition direction_of :: "pyval \<Rightarrow> string option" where
  "direction_of d = (case d of PList (PStr s # _) \<Rightarrow> Some s | _ \<Rightarrow> None)"

definition raw_data_of :: "pyval \<Rightarrow> pyval" where
  "raw_data_of d = (case d of PList xs \<Rightarrow> d | _ \<Rightarrow> PList [d])"

lemmas normalizer_defs [model_defs] =
  listener_gamma_def unwrap_first_def axes_fallback_def parse_triple_def parse_single_def
  unnest_def calib_parse_def direction_of_def raw_data_of_def

subsection \<open>The spec's contract (spec section 4.1)\<close>

text \<open>
  Unusable is \<open>None\<close>.  One level of nesting is removed; three or more components give
  the third, each component being a number or a one-element list of one, all three
  convertible; a single element is a known label or a number; a bare scalar converts.
\<close>

definition spec_float :: "pyval \<Rightarrow> real option" where
  "spec_float v = (case py_float v of Inr r \<Rightarrow> Some r | Inl _ \<Rightarrow> None)"

definition spec_axis :: "pyval \<Rightarrow> real option" where
  "spec_axis v = (case v of PList [x] \<Rightarrow> spec_float x | _ \<Rightarrow> spec_float v)"

definition spec_normalize :: "pyval \<Rightarrow> real option" where
  "spec_normalize raw =
     (case raw of
        PNone \<Rightarrow> None
      | PList xs0 \<Rightarrow>
          (let xs = unnest xs0 in
           if 3 \<le> length xs then
             (case (spec_axis (xs ! 0), spec_axis (xs ! 1), spec_axis (xs ! 2)) of
                (Some _, Some _, Some g) \<Rightarrow> Some g
              | _ \<Rightarrow> None)
           else if length xs = 1 then
             (case xs ! 0 of PStr s \<Rightarrow> map_of direction_map s | v \<Rightarrow> spec_float v)
           else None)
      | v \<Rightarrow> spec_float v)"

lemmas spec_normalizer_defs = spec_float_def spec_axis_def spec_normalize_def

subsection \<open>Facts shared by the normalizer properties\<close>

lemma raw_data_of_seq: "is_seq (raw_data_of d)"
  by (cases d) (simp_all add: raw_data_of_def is_seq_def)

lemma spec_float_Some_iff: "spec_float v = Some r \<longleftrightarrow> py_float v = Inr r"
  by (auto simp: spec_float_def split: sum.splits)

lemma spec_float_not_seq: "spec_float v = Some r \<Longrightarrow> unwrap_first v = v"
  by (cases v) (auto simp: spec_float_def unwrap_first_def split: if_splits option.splits)

lemma spec_axis_unwrap: "spec_axis v = Some r \<Longrightarrow> py_float (unwrap_first v) = Inr r"
  by (cases v rule: pyval.exhaust)
     (auto simp: spec_axis_def spec_float_Some_iff unwrap_first_def
           split: list.splits if_splits option.splits)

lemma axes_fallback_error:
  "e \<in> {ValueError, TypeError, OverflowError} \<Longrightarrow> axes_fallback xs a b e = Inl e' \<Longrightarrow>
   e' = OverflowError"
  using try_float_caught [of "[ValueError, TypeError]"]
  by (auto simp: axes_fallback_def split: sum.splits option.splits if_splits)

lemma parse_triple_error: "parse_triple xs = Inl e \<Longrightarrow> e = OverflowError"
  unfolding parse_triple_def
  by (auto split: sum.splits) (metis axes_fallback_error py_float_error_kinds)+

lemma parse_single_error: "parse_single xs = Inl e \<Longrightarrow> e = OverflowError"
  using try_float_VT_error
  by (auto simp: parse_single_def Let_def split: pyval.splits sum.splits option.splits)

lemma parse_triple_axes:
  assumes "py_float (unwrap_first (xs ! 0)) = Inr a" "py_float (unwrap_first (xs ! 1)) = Inr b"
    "py_float (unwrap_first (xs ! 2)) = Inr g"
  shows "parse_triple xs = Inr (Some (Parsed g (Some a) (Some b) (Some g) (PList xs)))"
  using assms by (simp add: parse_triple_def)

lemma parse_single_spec:
  assumes "(case v of PStr s \<Rightarrow> map_of direction_map s | v \<Rightarrow> spec_float v) = Some r"
  shows "\<exists>p. parse_single (v # vs) = Inr (Some p) \<and> ps_value p = r"
proof (cases "\<exists>s. v = PStr s")
  case True
  with assms show ?thesis
    by (auto simp: parse_single_def unwrap_first_def lexicon_get_def)
next
  case False
  with assms have f: "spec_float v = Some r" by (cases v) auto
  then have u: "unwrap_first v = v" by (rule spec_float_not_seq)
  from f have "try_float [ValueError, TypeError] v = Inr (Some r)"
    by (simp add: try_float_Some spec_float_Some_iff)
  with False u show ?thesis
    by (cases v) (auto simp: parse_single_def)
qed

subsection \<open>Properties of the two extractions\<close>

text \<open>
  Claim C18 (refinement): wherever the spec's normalizer yields a value, the calibration
  tool's extraction records a sample with exactly that value.
\<close>

theorem calib_parse_refines_spec:
  assumes "spec_normalize v = Some r"
  shows "\<exists>p. calib_parse v = Inr (Some p) \<and> ps_value p = r"
proof (cases v)
  case (PList xs0)
  define xs where "xs = unnest xs0"
  have code: "calib_parse v = (if 3 \<le> length xs then parse_triple xs
                 else if length xs = 1 then parse_single xs else Inr None)"
    by (simp add: calib_parse_def PList xs_def Let_def)
  have spec: "spec_normalize v = (if 3 \<le> length xs then
             (case (spec_axis (xs ! 0), spec_axis (xs ! 1), spec_axis (xs ! 2)) of
                (Some _, Some _, Some g) \<Rightarrow> Some g | _ \<Rightarrow> None)
           else if length xs = 1 then
             (case xs ! 0 of PStr s \<Rightarrow> map_of direction_map s | v \<Rightarrow> spec_float v)
           else None)"
    by (simp add: spec_normalize_def PList xs_def Let_def)
  consider (three) "3 \<le> length xs" | (one) "length xs = 1" | (other) "\<not> 3 \<le> length xs" "length xs \<noteq> 1"
    by blast
  then show ?thesis
  proof cases
    case three
    with assms spec obtain a b where
      "spec_axis (xs ! 0) = Some a" "spec_axis (xs ! 1) = Some b" "spec_axis (xs ! 2) = Some r"
      by (auto split: option.splits)
    then have "parse_triple xs = Inr (Some (Parsed r (Some a) (Some b) (Some r) (PList xs)))"
      by (intro parse_triple_axes spec_axis_unwrap)
    with three code show ?thesis by simp
  next
    case one
    then obtain x where xs: "xs = [x]" by (cases xs) auto
    with assms spec have "(case x of PStr s \<Rightarrow> map_of direction_map s | v \<Rightarrow> spec_float v) = Some r"
      by simp
    then obtain p where "parse_single (x # []) = Inr (Some p) \<and> ps_value p = r"
      using parse_single_spec by blast
    with one code xs show ?thesis by simp
  next
    case other
    with assms spec show ?thesis by simp
  qed
next
  case PNone
  with assms show ?thesis by (simp add: spec_normalize_def)
qed (use assms in \<open>auto simp: spec_normalize_def calib_parse_def spec_float_Some_iff try_float_def\<close>)

theorem calib_parse_refines_spec_witness:
  "spec_normalize (PList [PStr lbl_right]) = Some 5 \<and>
   (\<exists>p. calib_parse (PList [PStr lbl_right]) = Inr (Some p) \<and> ps_value p = 5)"
  using calib_parse_refines_spec [of "PList [PStr lbl_right]" 5]
  by (simp add: model_defs spec_normalizer_defs)

text \<open>
  Claim C19 (equivalence): one level of list nesting is transparent to the calibration
  tool's extraction when the inner list does not itself start with a list.
\<close>

theorem calib_parse_one_level:
  assumes "\<not> is_seq (hd xs)"
  shows "calib_parse (PList (PList xs # rest)) = calib_parse (PList xs)"
proof -
  have "unnest xs = xs" using assms by (cases xs) (auto simp: unnest_def is_seq_def split: pyval.splits)
  then show ?thesis by (simp add: calib_parse_def unnest_def Let_def)
qed

theorem calib_parse_one_level_witness:
  "\<not> is_seq (hd [PFloat 1, PFloat 2, PFloat 3]) \<and>
   calib_parse (PList [PList [PFloat 1, PFloat 2, PFloat 3]]) = calib_parse (PList [PFloat 1, PFloat 2, PFloat 3]) \<and>
   calib_parse (PList [PFloat 1, PFloat 2, PFloat 3]) = Inr (Some (Parsed 3 (Some 1) (Some 2) (Some 3) (PList [PFloat 1, PFloat 2, PFloat 3])))"
  using calib_parse_one_level [of "[PFloat 1, PFloat 2, PFloat 3]" "[]"]
  by (simp add: model_defs)

text \<open>
  Claim C20 (error): the only exception either extraction lets escape to the polling
  loop's outer handler is \<open>OverflowError\<close> (a JSON integer too large for a double);
  every \<open>ValueError\<close>, \<open>TypeError\<close> and \<open>IndexError\<close> is handled inside.
\<close>

theorem extraction_errors:
  "(listener_gamma v = Inl e \<longrightarrow> e = OverflowError) \<and> (calib_parse v = Inl e \<longrightarrow> e = OverflowError)"
proof (intro conjI impI)
  assume "listener_gamma v = Inl e"
  then show "e = OverflowError"
    by (auto simp: listener_gamma_def dest: try_float_VT_error try_float_VTI_error split: pyval.splits list.splits if_splits)
next
  assume "calib_parse v = Inl e"
  then show "e = OverflowError"
    by (auto simp: calib_parse_def Let_def dest: try_float_VT_error parse_triple_error parse_single_error
             split: pyval.splits if_splits sum.splits option.splits)
qed

theorem extraction_errors_witness:
  "listener_gamma (PList [PList [PInt 0, PInt 0, PInt float_int_limit]]) = Inl OverflowError \<and>
   calib_parse (PList [PList [PInt 0, PInt 0, PInt float_int_limit]]) = Inl OverflowError"
  using extraction_errors [of "PList [PList [PInt 0, PInt 0, PInt float_int_limit]]" OverflowError]
  by (simp add: model_defs float_int_limit_pos)

text \<open>
  Claim C35 (divergence): an unknown direction label is recorded by the calibration tool as
  the value 0.0, where the spec calls the sample unusable.
\<close>

theorem unknown_label_reads_zero:
  assumes "map_of direction_map s = None"
  shows "calib_parse (PList [PStr s]) = Inr (Some (Parsed 0 None None None (PList [PStr s])))
         \<and> spec_normalize (PList [PStr s]) = None"
  using assms by (simp add: calib_parse_def parse_single_def unwrap_first_def unnest_def lexicon_get_def
                     spec_normalize_def)

theorem unknown_label_reads_zero_witness:
  "map_of direction_map ''up'' = None \<and>
   calib_parse (PList [PStr ''up'']) = Inr (Some (Parsed 0 None None None (PList [PStr ''up''])))"
  using unknown_label_reads_zero [of "''up''"] by (simp add: label_defs)

text \<open>
  Claim C36 (divergence): the live controller reads the first component of a flat triple but
  the third of a nested one, whereas the spec reads the third in both cases.
\<close>

theorem listener_flat_triple_reads_first:
  "listener_gamma (PList [PFloat a, PFloat b, PFloat c]) = Inr (Some a) \<and>
   listener_gamma (PList [PList [PFloat a, PFloat b, PFloat c]]) = Inr (Some c) \<and>
   spec_normalize (PList [PFloat a, PFloat b, PFloat c]) = Some c"
  by (simp add: listener_gamma_def try_float_def spec_normalizer_defs unnest_def)

text \<open>
  An empty sample, or a flat two-element sample, is dropped by the
  calibration tool.
\<close>

theorem calib_parse_bad_lengths:
  assumes "xs = [] \<or> (length xs = 2 \<and> \<not> is_seq (hd xs))"
  shows "calib_parse (PList xs) = Inr None"
  using assms by (cases xs) (auto simp: calib_parse_def unnest_def is_seq_def Let_def split: pyval.splits)

lemma calib_parse_two_dropped:
  "calib_parse (PList [PFloat 1, PFloat 2]) = Inr None"
  using calib_parse_bad_lengths [of "[PFloat 1, PFloat 2]"] by (simp add: is_seq_def)

text \<open>
  Claim C37 (divergence): the live controller treats every sample that is not a list (a bare
  number included) as unusable, where the spec converts a bare scalar.
\<close>

theorem listener_scalar_unusable:
  "\<not> is_seq v \<Longrightarrow> listener_gamma v = Inr None"
  by (cases v) (auto simp: listener_gamma_def is_seq_def)

theorem listener_scalar_unusable_witness:
  "listener_gamma (PFloat 1) = Inr None"
  using listener_scalar_unusable [of "PFloat 1"] by (simp add: is_seq_def)

text \<open>
  A bare direction label is dropped by the calibration tool; only a
  label wrapped in a one-element list goes through the lexicon.
\<close>

theorem bare_label_dropped:
  "calib_parse (PStr lbl_left) = Inr None \<and>
   calib_parse (PList [PStr lbl_left]) = Inr (Some (Parsed (-5) None None None (PList [PStr lbl_left])))"
  by (simp add: model_defs)

text \<open>
  Claim C38 (divergence): the calibration tool's reading of an unnested gyroscope triple,
  on every outcome of the three conversions: a first axis that does not convert drops the
  sample; once it converts, a later axis that raises \<open>ValueError\<close> or \<open>TypeError\<close> makes
  the first axis the sample's value (keeping the axes read so far); \<open>OverflowError\<close>
  escapes; only three converted axes give the third.  The spec calls the sample unusable
  as soon as one axis does not convert.
\<close>

theorem triple_failure_falls_back:
  assumes "3 \<le> length xs" "\<not> is_seq (hd xs)"
  shows "calib_parse (PList xs) =
           (case (py_float (unwrap_first (xs ! 0)), py_float (unwrap_first (xs ! 1)),
                  py_float (unwrap_first (xs ! 2))) of
              (Inl e, _, _) \<Rightarrow> (if e = OverflowError then Inl e else Inr None)
            | (Inr a, Inl e, _) \<Rightarrow>
                (if e = OverflowError then Inl e else Inr (Some (Parsed a (Some a) None None (PList xs))))
            | (Inr a, Inr b, Inl e) \<Rightarrow>
                (if e = OverflowError then Inl e else Inr (Some (Parsed a (Some a) (Some b) None (PList xs))))
            | (Inr a, Inr b, Inr g) \<Rightarrow> Inr (Some (Parsed g (Some a) (Some b) (Some g) (PList xs))))
         \<and> ((\<exists>i<3. isl (py_float (unwrap_first (xs ! i)))) \<longrightarrow> spec_normalize (PList xs) = None)"
proof -
  have u: "unnest xs = xs"
    using assms by (cases xs) (auto simp: unnest_def is_seq_def split: pyval.splits list.splits)
  have cp: "calib_parse (PList xs) = parse_triple xs"
    using assms(1) by (simp add: calib_parse_def u)
  have ax: "spec_axis v = None" if "isl (py_float (unwrap_first v))" for v
  proof (cases "spec_axis v")
    case (Some r)
    then have "py_float (unwrap_first v) = Inr r" by (rule spec_axis_unwrap)
    with that show ?thesis by simp
  qed
  have sp: "(\<exists>i<3. isl (py_float (unwrap_first (xs ! i)))) \<longrightarrow> spec_normalize (PList xs) = None"
  proof
    assume "\<exists>i<3. isl (py_float (unwrap_first (xs ! i)))"
    then obtain i where "i < 3" "spec_axis (xs ! i) = None" using ax by blast
    then have "i = 0 \<or> i = 1 \<or> i = 2" "spec_axis (xs ! i) = None" by auto
    then show "spec_normalize (PList xs) = None"
      using assms(1) by (auto simp: spec_normalize_def u split: option.splits)
  qed
  have k: "\<And>i e. py_float (unwrap_first (xs ! i)) = Inl e \<Longrightarrow> e \<in> {ValueError, TypeError, OverflowError}"
    by (rule py_float_error_kinds)
  have "parse_triple xs =
           (case (py_float (unwrap_first (xs ! 0)), py_float (unwrap_first (xs ! 1)),
                  py_float (unwrap_first (xs ! 2))) of
              (Inl e, _, _) \<Rightarrow> (if e = OverflowError then Inl e else Inr None)
            | (Inr a, Inl e, _) \<Rightarrow>
                (if e = OverflowError then Inl e else Inr (Some (Parsed a (Some a) None None (PList xs))))
            | (Inr a, Inr b, Inl e) \<Rightarrow>
                (if e = OverflowError then Inl e else Inr (Some (Parsed a (Some a) (Some b) None (PList xs))))
            | (Inr a, Inr b, Inr g) \<Rightarrow> Inr (Some (Parsed g (Some a) (Some b) (Some g) (PList xs))))"
    using k [of 0] k [of 1] k [of 2]
    by (auto simp: parse_triple_def axes_fallback_def try_float_def split: sum.splits)
  with cp sp show ?thesis by simp
qed

theorem triple_failure_falls_back_witness:
  "calib_parse (PList [PStr ''x'', PFloat 2, PFloat 3]) = Inr None \<and>
   calib_parse (PList [PFloat 1, PStr ''x'', PFloat 3]) =
     Inr (Some (Parsed 1 (Some 1) None None (PList [PFloat 1, PStr ''x'', PFloat 3])))
   \<and> spec_normalize (PList [PFloat 1, PStr ''x'', PFloat 3]) = None"
proof -
  have "\<exists>i<3. isl (py_float (unwrap_first ([PFloat 1, PStr ''x'', PFloat 3] ! i)))"
    by (rule exI [of _ 1]) (simp add: model_defs)
  then show ?thesis
    using triple_failure_falls_back [of "[PStr ''x'', PFloat 2, PFloat 3]"]
      triple_failure_falls_back [of "[PFloat 1, PStr ''x'', PFloat 3]"]
    by (simp add: is_seq_def model_defs)
qed

end
