(* ===== verification/Calibration_Stats.thy ===== *)
theory Calibration_Stats
  imports Sample_Normalizer
begin

text \<open>
  The recorded data of the calibration script and the statistics it prints.  A recorded
  sample is the dict \<open>data_point\<close> of test_tilt_data.py lines 242-251; the statistics
  are those of \<open>print_statistics\<close> (lines 65-79), computed with Python's
  \<open>statistics\<close> module: \<open>mean\<close>, \<open>median\<close> (the middle of the sorted data, or the
  mean of the two middle values) and the sample standard deviation \<open>stdev\<close>, printed
  only for two or more values (the guard of line 77).  An empty list prints nothing
  (\<open>None\<close>).  The field \<open>st_stdev\<close> is the outcome of lines 77-78: \<open>None\<close> when
  the guard skips the line, otherwise what \<open>statistics.stdev\<close> returns or raises.
\<close>

record data_point =
  pt_time :: real
  pt_value :: real
  pt_phase :: string
  pt_raw :: pyval
  pt_alpha :: "real option"
  pt_beta :: "real option"
  pt_gamma :: "real option"
  pt_direction :: "string option"

definition py_mean :: "real list \<Rightarrow> real" where
  "py_mean xs = sum_list xs / real (length xs)"

definition py_median :: "real list \<Rightarrow> real" where
  "py_median xs =
     (let s = sort xs; n = length s in
      if odd n then s ! (n div 2) else (s ! (n div 2 - 1) + s ! (n div 2)) / 2)"

text \<open>
  \<open>statistics.stdev\<close> raises \<open>StatisticsError\<close> on fewer than two data points.
\<close>

definition py_stdev :: "real list \<Rightarrow> py_error + real" where
  "py_stdev xs =
     (if length xs < 2 then Inl StatisticsError
      else (let m = py_mean xs in Inr (sqrt (sum_list (map (\<lambda>x. (x - m)\<^sup>2) xs) / real (length xs - 1)))))"

record phase_stats =
  st_count :: nat
  st_min :: real
  st_max :: real
  st_mean :: real
  st_median :: real
  st_stdev :: "(py_error + real) option"
  st_range :: real

definition value_stats :: "real list \<Rightarrow> phase_stats option" where
  "value_stats values =
     (if values = [] then None
      else Some \<lparr>st_count = length values, st_min = Min (set values), st_max = Max (set values),
                 st_mean = py_mean values, st_median = py_median values,
                 st_stdev = (if 1 < length values then Some (py_stdev values) else None),
                 st_range = Max (set values) - Min (set values)\<rparr>)"

definition print_statistics :: "data_point list \<Rightarrow> phase_stats option" where
  "print_statistics data_list = value_stats (map pt_value data_list)"

lemmas stats_defs [model_defs] = py_mean_def py_median_def py_stdev_def value_stats_def
  print_statistics_def

subsection \<open>Facts about the statistics\<close>

lemma py_mean_bounds:
  assumes "xs \<noteq> []"
  shows "Min (set xs) \<le> py_mean xs \<and> py_mean xs \<le> Max (set xs)"
proof -
  have "\<forall>x\<in>set xs. Min (set xs) \<le> x \<and> x \<le> Max (set xs)" by simp
  then have b: "real (length xs) * Min (set xs) \<le> sum_list xs \<and>
                sum_list xs \<le> real (length xs) * Max (set xs)"
    by (rule sum_list_bounds)
  have n: "0 < real (length xs)" using assms by simp
  from b n show ?thesis
    by (simp add: py_mean_def pos_le_divide_eq pos_divide_le_eq mult.commute)
qed

lemma sorted_nth_bounds:
  assumes "i < length xs"
  shows "Min (set xs) \<le> sort xs ! i \<and> sort xs ! i \<le> Max (set xs)"
proof -
  have "sort xs ! i \<in> set (sort xs)" by (rule nth_mem) (simp add: assms)
  then have "sort xs ! i \<in> set xs" by simp
  then show ?thesis by simp
qed

lemma py_median_bounds:
  assumes "xs \<noteq> []"
  shows "Min (set xs) \<le> py_median xs \<and> py_median xs \<le> Max (set xs)"
proof -
  let ?n = "length xs"
  have n: "0 < ?n" using assms by simp
  show ?thesis
  proof (cases "odd ?n")
    case True
    with n show ?thesis by (simp add: py_median_def sorted_nth_bounds)
  next
    case False
    then have "?n \<noteq> 1" by auto
    with n have "2 \<le> ?n" by linarith
    then have "?n div 2 - 1 < ?n" "?n div 2 < ?n" by auto
    then have "Min (set xs) \<le> sort xs ! (?n div 2 - 1)" "sort xs ! (?n div 2 - 1) \<le> Max (set xs)"
      "Min (set xs) \<le> sort xs ! (?n div 2)" "sort xs ! (?n div 2) \<le> Max (set xs)"
      using sorted_nth_bounds by blast+
    with False show ?thesis by (simp add: py_median_def Let_def)
  qed
qed

lemma sort_mset_eq:
  assumes "mset xs = mset ys"
  shows "sort xs = sort ys"
proof (rule properties_for_sort)
  show "mset (sort ys) = mset xs" using assms by simp
  show "sorted (sort ys)" by (rule sorted_sort)
qed

lemma py_median_mset: "mset xs = mset ys \<Longrightarrow> py_median xs = py_median ys"
  unfolding py_median_def by (drule sort_mset_eq) simp

lemma sum_list_mset_eq: "mset xs = mset ys \<Longrightarrow> sum_list xs = (sum_list ys :: real)"
  by (metis sum_mset_sum_list)

lemma py_mean_mset: "mset xs = mset ys \<Longrightarrow> py_mean xs = py_mean ys"
  unfolding py_mean_def by (metis sum_list_mset_eq size_mset)

lemma py_stdev_mset:
  assumes "mset xs = mset ys"
  shows "py_stdev xs = py_stdev ys"
proof -
  have m: "py_mean xs = py_mean ys" using assms by (rule py_mean_mset)
  have "mset (map f xs) = mset (map f ys)" for f :: "real \<Rightarrow> real" using assms by simp
  then have "sum_list (map f xs) = sum_list (map f ys)" for f :: "real \<Rightarrow> real"
    by (rule sum_list_mset_eq)
  moreover have "length xs = length ys" using assms by (metis size_mset)
  ultimately show ?thesis by (simp add: py_stdev_def m)
qed

lemma py_stdev_nonneg: "py_stdev xs = Inr sd \<Longrightarrow> 0 \<le> sd"
proof -
  have "0 \<le> sum_list (map (\<lambda>x. (x - py_mean xs)\<^sup>2) xs)" by (rule sum_list_nonneg) auto
  then have "0 \<le> sum_list (map (\<lambda>x. (x - py_mean xs)\<^sup>2) xs) / real (length xs - 1)" by simp
  then show "py_stdev xs = Inr sd \<Longrightarrow> 0 \<le> sd" by (auto simp: py_stdev_def Let_def split: if_splits)
qed

lemma py_stdev_defined: "2 \<le> length xs \<Longrightarrow> \<exists>sd. py_stdev xs = Inr sd \<and> 0 \<le> sd"
  using py_stdev_nonneg [of xs] by (simp add: py_stdev_def Let_def)

subsection \<open>Properties of the statistics\<close>

text \<open>
  Claim C27 (bounds): the statistics printed for a phase are consistent: one line per recorded value is counted, the mean and the median lie between the minimum and the maximum, the range is non-negative, and the standard deviation line is printed exactly when there are two or more values, never raises there, and is non-negative.
\<close>

theorem print_statistics_bounds:
  assumes "print_statistics d = Some st"
  shows "st_count st = length d \<and>
         st_min st \<le> st_mean st \<and> st_mean st \<le> st_max st \<and>
         st_min st \<le> st_median st \<and> st_median st \<le> st_max st \<and> 0 \<le> st_range st \<and>
         (st_stdev st \<noteq> None \<longleftrightarrow> 2 \<le> st_count st) \<and>
         (\<forall>r. st_stdev st = Some r \<longrightarrow> (\<exists>sd. r = Inr sd \<and> 0 \<le> sd))"
proof -
  let ?x = "map pt_value d"
  have ne: "?x \<noteq> []" using assms by (auto simp: print_statistics_def value_stats_def split: if_splits)
  have st: "st = \<lparr>st_count = length ?x, st_min = Min (set ?x), st_max = Max (set ?x),
                 st_mean = py_mean ?x, st_median = py_median ?x,
                 st_stdev = (if 1 < length ?x then Some (py_stdev ?x) else None),
                 st_range = Max (set ?x) - Min (set ?x)\<rparr>"
    using assms ne by (simp add: print_statistics_def value_stats_def)
  have "Min (set ?x) \<le> Max (set ?x)" using ne by simp
  moreover have "1 < length ?x \<Longrightarrow> \<exists>sd. py_stdev ?x = Inr sd \<and> 0 \<le> sd"
    by (rule py_stdev_defined) simp
  ultimately show ?thesis using st py_mean_bounds [OF ne] py_median_bounds [OF ne] by auto
qed

theorem print_statistics_bounds_witness:
  "print_statistics [\<lparr>pt_time = 0, pt_value = 1, pt_phase = [], pt_raw = PList [], pt_alpha = None, pt_beta = None, pt_gamma = None, pt_direction = None\<rparr>]
     = Some \<lparr>st_count = 1, st_min = 1, st_max = 1, st_mean = 1, st_median = 1, st_stdev = None, st_range = 0\<rparr>"
  using print_statistics_bounds [of "[\<lparr>pt_time = 0, pt_value = 1, pt_phase = [], pt_raw = PList [], pt_alpha = None, pt_beta = None, pt_gamma = None, pt_direction = None\<rparr>]"]
  by (simp add: model_defs)

text \<open>
  The printed statistics depend only on the multiset of recorded values, not on the order in which the samples arrived.
\<close>

theorem print_statistics_perm:
  assumes "mset (map pt_value d1) = mset (map pt_value d2)"
  shows "print_statistics d1 = print_statistics d2"
proof -
  let ?x = "map pt_value d1" and ?y = "map pt_value d2"
  have "set ?x = set ?y" using assms by (metis set_mset_mset)
  moreover have "length ?x = length ?y" using assms by (metis size_mset)
  moreover then have "(d1 = []) = (d2 = [])" by auto
  moreover have "py_mean ?x = py_mean ?y" using assms by (rule py_mean_mset)
  moreover have "py_median ?x = py_median ?y" using assms by (rule py_median_mset)
  moreover have "py_stdev ?x = py_stdev ?y" using assms by (rule py_stdev_mset)
  ultimately show ?thesis by (simp add: print_statistics_def value_stats_def)
qed

theorem print_statistics_perm_witness:
  "print_statistics [\<lparr>pt_time = 0, pt_value = 1, pt_phase = [], pt_raw = PList [], pt_alpha = None, pt_beta = None, pt_gamma = None, pt_direction = None\<rparr>,
                     \<lparr>pt_time = 1, pt_value = 2, pt_phase = [], pt_raw = PList [], pt_alpha = None, pt_beta = None, pt_gamma = None, pt_direction = None\<rparr>]
   = print_statistics [\<lparr>pt_time = 1, pt_value = 2, pt_phase = [], pt_raw = PList [], pt_alpha = None, pt_beta = None, pt_gamma = None, pt_direction = None\<rparr>,
                     \<lparr>pt_time = 0, pt_value = 1, pt_phase = [], pt_raw = PList [], pt_alpha = None, pt_beta = None, pt_gamma = None, pt_direction = None\<rparr>]"
  by (rule print_statistics_perm) simp

end
