(* ===== verification/Tilt_Controller.thy ===== *)
theory Tilt_Controller
  imports Sample_Normalizer
begin

text \<open>
  The live controller: the background thread \<open>iottalk_listener\<close> of Game.py (lines
  23-97), the single writer of the global \<open>current_tilt\<close> (line 20).  Each iteration
  of its \<open>while True\<close> loop pulls one sample, extracts the gyroscope value with
  \<open>listener_gamma\<close>, and turns it into the control value: offset from the baseline,
  dead zone, scaling and clamping to \<open>[-10, 10]\<close>.  The three constants of lines 75,
  81 and 88 are gathered in a \<open>tilt_config\<close> record so that the calibration tool's
  suggestions (theory \<open>Calibration_Analysis\<close>) can be plugged in.  The loop is the
  step function \<open>listener_step\<close> over the outcomes of \<open>DAN.pull\<close>, and any finite
  prefix of the infinite loop is \<open>listener_run\<close>.
\<close>

record tilt_config =
  baseline :: real
  dead_zone :: real
  scale_factor :: real

definition game_config :: tilt_config where
  "game_config = \<lparr>baseline = -0.88, dead_zone = 1.3, scale_factor = 0.77\<rparr>"

text \<open>Lines 78-91: offset, dead zone, scaling and \<open>max(-10, min(10, x))\<close>.\<close>

definition tilt_of_gamma :: "tilt_config \<Rightarrow> real \<Rightarrow> tilt" where
  "tilt_of_gamma cfg g =
     (let offset = g - baseline cfg in
      if \<bar>offset\<bar> < dead_zone cfg then 0
      else py_clamp (-10) 10 (offset * scale_factor cfg))"

text \<open>
  What one call of \<open>DAN.pull('Dummy_Control')\<close> does: it returns a value (\<open>None\<close>
  when nothing new arrived) or raises (a transport fault).  \<open>DAN\<close> is not part of the
  repository; this interface is modelled from the spec (section 6).
\<close>

datatype pull_result = Pulled pyval | Pull_Raises

record listener_state =
  current_tilt :: tilt
  slept :: seconds

definition listener_init :: listener_state where
  "listener_init = \<lparr>current_tilt = 0, slept = 0\<rparr>"

text \<open>
  One iteration of the loop (lines 33-97).  A pull that returns \<open>None\<close> skips the whole
  body and sleeps 0.02 s; an exception (raised by the pull, or an \<open>OverflowError\<close>
  escaping the extraction) is printed and followed by \<open>time.sleep(1)\<close>; otherwise the
  extracted value sets \<open>current_tilt\<close>, \<open>0.0\<close> when there is none.
\<close>

fun listener_step :: "listener_state \<Rightarrow> pull_result \<Rightarrow> listener_state" where
  "listener_step s Pull_Raises = s\<lparr>slept := slept s + 1\<rparr>"
| "listener_step s (Pulled PNone) = s\<lparr>slept := slept s + 0.02\<rparr>"
| "listener_step s (Pulled data) =
     (case listener_gamma data of
        Inl _ \<Rightarrow> s\<lparr>slept := slept s + 1\<rparr>
      | Inr None \<Rightarrow> s\<lparr>current_tilt := 0, slept := slept s + 0.02\<rparr>
      | Inr (Some g) \<Rightarrow>
          s\<lparr>current_tilt := tilt_of_gamma game_config g, slept := slept s + 0.02\<rparr>)"

text \<open>
  The assignments to the global \<open>current_tilt\<close> one iteration makes, in order.  Outside
  the dead zone there are two: line 89 stores the unclamped \<open>offset * scale_factor\<close>,
  line 91 reads it back and stores the clamped value; another thread can observe the
  value in between.  \<open>listener_step\<close> is the iteration as a whole, its
  \<open>current_tilt\<close> being the last of these writes.
\<close>

definition tilt_writes :: "tilt_config \<Rightarrow> real \<Rightarrow> tilt list" where
  "tilt_writes cfg g =
     (let offset = g - baseline cfg in
      if \<bar>offset\<bar> < dead_zone cfg then [0]
      else [offset * scale_factor cfg, py_clamp (-10) 10 (offset * scale_factor cfg)])"

fun listener_writes :: "pull_result \<Rightarrow> tilt list" where
  "listener_writes Pull_Raises = []"
| "listener_writes (Pulled PNone) = []"
| "listener_writes (Pulled data) =
     (case listener_gamma data of
        Inl _ \<Rightarrow> []
      | Inr None \<Rightarrow> [0]
      | Inr (Some g) \<Rightarrow> tilt_writes game_config g)"

definition listener_run :: "listener_state \<Rightarrow> pull_result list \<Rightarrow> listener_state" where
  "listener_run s rs = foldl listener_step s rs"

lemmas controller_defs [model_defs] = game_config_def tilt_of_gamma_def listener_init_def
  tilt_writes_def listener_run_def

subsection \<open>Facts about the control law\<close>

lemma tilt_of_gamma_bounded [range_facts]: "\<bar>tilt_of_gamma cfg g\<bar> \<le> 10"
  by (simp add: tilt_of_gamma_def Let_def py_clamp_sym_abs [of 10, simplified])

lemma tilt_of_gamma_dead_zone:
  "\<bar>g - baseline cfg\<bar> < dead_zone cfg \<Longrightarrow> tilt_of_gamma cfg g = 0"
  by (simp add: tilt_of_gamma_def)

lemma tilt_of_gamma_outside:
  "dead_zone cfg \<le> \<bar>g - baseline cfg\<bar> \<Longrightarrow>
   tilt_of_gamma cfg g = py_clamp (-10) 10 ((g - baseline cfg) * scale_factor cfg)"
  by (simp add: tilt_of_gamma_def)

lemma listener_step_tilt_cases:
  "current_tilt (listener_step s r) = current_tilt s \<or> current_tilt (listener_step s r) = 0 \<or>
   (\<exists>g. current_tilt (listener_step s r) = tilt_of_gamma game_config g)"
  by (cases "(s, r)" rule: listener_step.cases) (auto split: sum.splits option.splits)

lemma listener_step_slept: "slept (listener_step s r) \<in> {slept s + 0.02, slept s + 1}"
  by (cases "(s, r)" rule: listener_step.cases) (auto split: sum.splits option.splits)

lemma listener_step_bounded:
  "\<bar>current_tilt s\<bar> \<le> 10 \<Longrightarrow> \<bar>current_tilt (listener_step s r)\<bar> \<le> 10"
  using listener_step_tilt_cases [of s r] tilt_of_gamma_bounded by auto

lemma tilt_writes_last:
  "tilt_writes cfg g \<noteq> [] \<and> last (tilt_writes cfg g) = tilt_of_gamma cfg g"
  by (simp add: tilt_writes_def tilt_of_gamma_def Let_def)

lemma tilt_writes_shape:
  "tilt_writes cfg g = [0] \<or> (\<exists>x. tilt_writes cfg g = [x, py_clamp (-10) 10 x])"
  by (simp add: tilt_writes_def Let_def)

lemma listener_writes_shape:
  "listener_writes r = [] \<or> listener_writes r = [0] \<or> (\<exists>x. listener_writes r = [x, py_clamp (-10) 10 x])"
  by (cases r rule: listener_writes.cases)
     (use tilt_writes_shape in \<open>auto split: sum.splits option.splits\<close>)

lemma listener_step_writes:
  "current_tilt (listener_step l r) = last (current_tilt l # listener_writes r) \<and>
   listener_state.more (listener_step l r) = listener_state.more l"
  by (cases "(l, r)" rule: listener_step.cases) (auto simp: tilt_writes_last split: sum.splits option.splits)

lemma listener_run_Cons [simp]:
  "listener_run s (r # rs) = listener_run (listener_step s r) rs"
  by (simp add: listener_run_def)

lemma listener_run_Nil [simp]: "listener_run s [] = s"
  by (simp add: listener_run_def)

lemma tilt_of_gamma_nonneg:
  assumes "0 \<le> scale_factor cfg" "0 \<le> g - baseline cfg"
  shows "0 \<le> tilt_of_gamma cfg g"
proof -
  have "0 \<le> (g - baseline cfg) * scale_factor cfg"
    using assms(2,1) by (rule mult_nonneg_nonneg)
  then show ?thesis by (simp add: tilt_of_gamma_def Let_def py_clamp_def)
qed

lemma tilt_of_gamma_nonpos:
  assumes "0 \<le> scale_factor cfg" "g - baseline cfg \<le> 0"
  shows "tilt_of_gamma cfg g \<le> 0"
proof -
  have "(g - baseline cfg) * scale_factor cfg \<le> 0"
    using assms(2,1) by (rule mult_nonpos_nonneg)
  then show ?thesis by (simp add: tilt_of_gamma_def Let_def py_clamp_def)
qed

subsection \<open>Properties of the controller\<close>

text \<open>
  Claim C1 (invariant): every iteration of the listener loop, on any pulled data, faults included, keeps \<open>current_tilt\<close> within \<open>[-10, 10]\<close>; hence so does every finite prefix of the loop.
\<close>

theorem listener_run_bounded:
  assumes "\<bar>current_tilt s\<bar> \<le> 10"
  shows "\<bar>current_tilt (listener_run s rs)\<bar> \<le> 10"
  using assms
proof (induction rs arbitrary: s)
  case Nil
  then show ?case by simp
next
  case (Cons r rs)
  have "\<bar>current_tilt (listener_step s r)\<bar> \<le> 10"
    using Cons.prems by (rule listener_step_bounded)
  then show ?case by (simp add: Cons.IH)
qed

theorem listener_run_bounded_witness:
  "\<bar>current_tilt listener_init\<bar> \<le> 10 \<and>
   current_tilt (listener_run listener_init [Pulled (PList [PList [PInt 0, PInt 0, PInt 100]])]) = 10"
  using listener_run_bounded [of listener_init "[Pulled (PList [PList [PInt 0, PInt 0, PInt 100]])]"]
  by (simp add: model_defs float_int_limit_def)

text \<open>
  Claim C5 (bounds): when the scaled offset has magnitude at least 10, the control value is exactly 10 or -10.
\<close>

theorem tilt_saturates:
  assumes "10 \<le> \<bar>(g - baseline game_config) * scale_factor game_config\<bar>"
  shows "tilt_of_gamma game_config g = 10 \<or> tilt_of_gamma game_config g = -10"
proof -
  let ?o = "g - baseline game_config"
  have sf: "scale_factor game_config = 0.77" "dead_zone game_config = 1.3"
    by (simp_all add: game_config_def)
  have "10 \<le> \<bar>?o\<bar> * (77 / 100)" using assms sf(1) by (simp only: abs_mult) simp
  then have "dead_zone game_config \<le> \<bar>?o\<bar>" using sf(2) by simp
  then have "tilt_of_gamma game_config g = py_clamp (-10) 10 (?o * scale_factor game_config)"
    by (rule tilt_of_gamma_outside)
  with assms show ?thesis by (auto simp: py_clamp_def abs_if split: if_splits)
qed

theorem tilt_saturates_witness:
  "10 \<le> \<bar>(20 - baseline game_config) * scale_factor game_config\<bar> \<and> tilt_of_gamma game_config 20 = 10"
  using tilt_saturates [of 20] by (simp add: model_defs)

text \<open>
  Claim C6 (functional): for any configuration with non-negative dead zone and scale factor, the control value is monotone in the gyroscope value.
\<close>

theorem tilt_of_gamma_mono:
  assumes "0 \<le> dead_zone cfg" "0 \<le> scale_factor cfg" "g1 \<le> g2"
  shows "tilt_of_gamma cfg g1 \<le> tilt_of_gamma cfg g2"
proof -
  let ?o1 = "g1 - baseline cfg" and ?o2 = "g2 - baseline cfg"
  consider (z1) "\<bar>?o1\<bar> < dead_zone cfg" | (z2) "\<bar>?o2\<bar> < dead_zone cfg"
    | (out) "dead_zone cfg \<le> \<bar>?o1\<bar>" "dead_zone cfg \<le> \<bar>?o2\<bar>"
    by linarith
  then show ?thesis
  proof cases
    case z1
    with assms have "0 \<le> ?o2 \<or> \<bar>?o2\<bar> < dead_zone cfg" by linarith
    with z1 assms(2) show ?thesis
      by (auto simp: tilt_of_gamma_dead_zone intro: tilt_of_gamma_nonneg)
  next
    case z2
    with assms have "?o1 \<le> 0 \<or> \<bar>?o1\<bar> < dead_zone cfg" by linarith
    with z2 assms(2) show ?thesis
      by (auto simp: tilt_of_gamma_dead_zone intro: tilt_of_gamma_nonpos)
  next
    case out
    have "?o1 * scale_factor cfg \<le> ?o2 * scale_factor cfg"
      using assms by (simp add: mult_right_mono)
    with out show ?thesis
      by (simp add: tilt_of_gamma_outside py_clamp_mono)
  qed
qed

theorem tilt_of_gamma_mono_witness:
  "tilt_of_gamma game_config 0 \<le> tilt_of_gamma game_config 1"
  using tilt_of_gamma_mono [of game_config 0 1] by (simp add: game_config_def)

text \<open>
  Claim C7 (divergence): when the pull returns \<open>None\<close> the loop leaves \<open>current_tilt\<close> unchanged; the spec requires it to be reset to 0.0 on loss of signal.
\<close>

theorem no_sample_keeps_stale_tilt:
  "current_tilt (listener_step s (Pulled PNone)) = current_tilt s"
  by simp

text \<open>
  Claim C8 (safety): a sample from which no gyroscope value can be extracted resets \<open>current_tilt\<close> to exactly 0.0, whatever it was before.
\<close>

theorem unusable_sample_zeroes_tilt:
  assumes "data \<noteq> PNone" "listener_gamma data = Inr None"
  shows "current_tilt (listener_step s (Pulled data)) = 0"
  using assms by (cases data) auto

theorem unusable_sample_zeroes_tilt_witness:
  "current_tilt (listener_step \<lparr>current_tilt = 7, slept = 0\<rparr> (Pulled (PList [PStr lbl_flat]))) = 0"
  using unusable_sample_zeroes_tilt [of "PList [PStr lbl_flat]" "\<lparr>current_tilt = 7, slept = 0\<rparr>"]
  by (simp add: model_defs)

text \<open>
  Claim C9 (error): a nested triple whose third component is an integer too large for a double raises \<open>OverflowError\<close> past the inner handlers: the loop backs off for one second and \<open>current_tilt\<close> keeps its stale value instead of being reset.
\<close>

theorem overflow_sample_keeps_tilt:
  assumes "float_int_limit \<le> \<bar>i\<bar>"
  shows "listener_step s (Pulled (PList [PList [a, b, PInt i]])) = s\<lparr>slept := slept s + 1\<rparr>"
  using assms by (simp add: listener_gamma_def try_float_def)

theorem overflow_sample_keeps_tilt_witness:
  "listener_step \<lparr>current_tilt = 7, slept = 0\<rparr> (Pulled (PList [PList [PInt 0, PInt 0, PInt float_int_limit]]))
     = \<lparr>current_tilt = 7, slept = 1\<rparr>"
  using overflow_sample_keeps_tilt [of float_int_limit "\<lparr>current_tilt = 7, slept = 0\<rparr>" "PInt 0" "PInt 0"]
  by (simp add: float_int_limit_pos)

text \<open>
  With the constants of Game.py a control value is either 0 or at least 1.001 in magnitude: the dead zone leaves a gap around zero.
\<close>

theorem game_tilt_gap:
  "tilt_of_gamma game_config g = 0 \<or> 1.001 \<le> \<bar>tilt_of_gamma game_config g\<bar>"
proof (cases "\<bar>g - baseline game_config\<bar> < dead_zone game_config")
  case True
  then show ?thesis by (simp add: tilt_of_gamma_dead_zone)
next
  case False
  then have "1.001 \<le> \<bar>g - baseline game_config\<bar> * \<bar>scale_factor game_config\<bar>"
    by (simp add: game_config_def)
  then have "1.001 \<le> \<bar>(g - baseline game_config) * scale_factor game_config\<bar>"
    by (simp only: abs_mult)
  then have "1.001 \<le> \<bar>py_clamp (- 10) 10 ((g - baseline game_config) * scale_factor game_config)\<bar>"
    by (rule py_clamp_abs_ge [rotated]) simp
  with False show ?thesis
    by (simp add: tilt_of_gamma_outside)
qed

end
