(* ===== verification/Calibration_Session.thy ===== *)
theory Calibration_Session
  imports Calibration_Stats Tilt_Controller
begin

text \<open>
  The main loop of test_tilt_data.py (lines 81-313) as a state machine.  The state is
  the script's module-level variables (lines 56-63 and 90-99); an event is one iteration
  of \<open>while True\<close> (a \<open>Tick\<close> carrying the two clock readings the iteration takes,
  line 231 and line 296, and the outcome of \<open>DAN.pull\<close>) or a \<open>KeyboardInterrupt\<close>.
  The phase timer advances only inside the branch that records a usable sample; a fault
  on the very first pull reaches the handler at line 305 before \<open>data\<close> was ever
  assigned, so its \<open>print\<close> raises \<open>NameError\<close> and the script dies (\<open>Crashed\<close>).
\<close>

subsection \<open>Phases (lines 82-88)\<close>

definition phase_center :: string where
  "phase_center = [CHR 0xE4, CHR 0xBF, CHR 0x9D, CHR 0xE6, CHR 0x8C, CHR 0x81, CHR 0xE6,
     CHR 0xB0, CHR 0xB4, CHR 0xE5, CHR 0xB9, CHR 0xB3, CHR 0xEF, CHR 0xBC, CHR 0x88, CHR 0xE5,
     CHR 0x9F, CHR 0xBA, CHR 0xE6, CHR 0xBA, CHR 0x96, CHR 0xEF, CHR 0xBC, CHR 0x89]"
definition phase_right :: string where
  "phase_right = [CHR 0xE5, CHR 0x90, CHR 0x91, CHR 0xE5, CHR 0x8F, CHR 0xB3, CHR 0xE5,
     CHR 0x82, CHR 0xBE, CHR 0xE6, CHR 0x96, CHR 0x9C, CHR 0xE5, CHR 0x88, CHR 0xB0, CHR 0xE6,
     CHR 0xA5, CHR 0xB5, CHR 0xE9, CHR 0x99, CHR 0x90]"
definition phase_return :: string where
  "phase_return = [CHR 0xE5, CHR 0x9B, CHR 0x9E, CHR 0xE5, CHR 0x88, CHR 0xB0, CHR 0xE6,
     CHR 0xB0, CHR 0xB4, CHR 0xE5, CHR 0xB9, CHR 0xB3]"
definition phase_left :: string where
  "phase_left = [CHR 0xE5, CHR 0x90, CHR 0x91, CHR 0xE5, CHR 0xB7, CHR 0xA6, CHR 0xE5,
     CHR 0x82, CHR 0xBE, CHR 0xE6, CHR 0x96, CHR 0x9C, CHR 0xE5, CHR 0x88, CHR 0xB0, CHR 0xE6,
     CHR 0xA5, CHR 0xB5, CHR 0xE9, CHR 0x99, CHR 0x90]"

definition phases :: "(string \<times> real) list" where
  "phases = [(phase_center, 5), (phase_right, 8), (phase_return, 3), (phase_left, 8),
             (phase_return, 3)]"

subsection \<open>State and events\<close>

datatype session_status = Running | Complete | Interrupted | Crashed

record calib_state =
  phase_index :: nat
  phase_start_time :: real
  all_data :: "data_point list"
  current_session :: "data_point list"
  data_window :: "real list"
  first_data_received :: bool
  data_bound :: bool
  reports :: "(string \<times> phase_stats option) list"
  status :: session_status

definition calib_init :: "real \<Rightarrow> calib_state" where
  "calib_init t0 =
     \<lparr>phase_index = 0, phase_start_time = t0, all_data = [], current_session = [],
      data_window = [], first_data_received = False, data_bound = False, reports = [],
      status = Running\<rparr>"

datatype calib_event = Tick real real pull_result | Key_Interrupt

subsection \<open>One iteration\<close>

text \<open>\<open>deque(maxlen=10).append\<close> (lines 63 and 254): a full window drops its oldest value.\<close>

definition window_push :: "real list \<Rightarrow> real \<Rightarrow> real list" where
  "window_push w x = (if length w < 10 then w @ [x] else tl (w @ [x]))"

text \<open>The dict built at lines 237-251.\<close>

definition make_point :: "real \<Rightarrow> string \<Rightarrow> parsed \<Rightarrow> data_point" where
  "make_point t label p =
     \<lparr>pt_time = t, pt_value = ps_value p, pt_phase = label, pt_raw = raw_data_of (ps_data p),
      pt_alpha = ps_alpha p, pt_beta = ps_beta p, pt_gamma = ps_gamma p,
      pt_direction = direction_of (ps_data p)\<rparr>"

text \<open>
  Lines 231-298: record the point in \<open>all_data\<close>, \<open>current_session\<close> and the window;
  when the phase's time is up, print its statistics, reset the session buffer and move to
  the next phase, restarting the timer, or stop after the last one.
\<close>

definition record_sample :: "calib_state \<Rightarrow> real \<Rightarrow> real \<Rightarrow> parsed \<Rightarrow> calib_state" where
  "record_sample s now restart p =
     (let (label, duration) = phases ! phase_index s;
          pt = make_point now label p;
          s1 = s\<lparr>all_data := all_data s @ [pt], current_session := current_session s @ [pt],
                 data_window := window_push (data_window s) (ps_value p)\<rparr>
      in if duration \<le> now - phase_start_time s then
           (let s2 = s1\<lparr>reports := reports s1 @ [(label, print_statistics (current_session s1))],
                        current_session := [], phase_index := Suc (phase_index s)\<rparr>
            in if length phases \<le> Suc (phase_index s) then s2\<lparr>status := Complete\<rparr>
               else s2\<lparr>phase_start_time := restart\<rparr>)
         else s1)"

text \<open>
  Lines 102-310.  A pull returning \<open>None\<close> changes nothing but the waiting flag; a sample
  that does not parse is dropped (\<open>continue\<close>), as is one whose parse raises (the
  handler at line 305); only a parsed sample reaches \<open>record_sample\<close>.
\<close>

fun calib_step :: "calib_state \<Rightarrow> calib_event \<Rightarrow> calib_state" where
  "calib_step s Key_Interrupt = (if status s = Running then s\<lparr>status := Interrupted\<rparr> else s)"
| "calib_step s (Tick now restart r) =
     (if status s \<noteq> Running then s
      else (case r of
              Pull_Raises \<Rightarrow> (if data_bound s then s else s\<lparr>status := Crashed\<rparr>)
            | Pulled data \<Rightarrow>
                (let s' = s\<lparr>data_bound := True,
                            first_data_received := (first_data_received s \<or> data \<noteq> PNone)\<rparr>
                 in if data = PNone then s'
                    else (case calib_parse data of
                            Inl _ \<Rightarrow> s'
                          | Inr None \<Rightarrow> s'
                          | Inr (Some p) \<Rightarrow> record_sample s' now restart p))))"

definition calib_run :: "calib_state \<Rightarrow> calib_event list \<Rightarrow> calib_state" where
  "calib_run s evs = foldl calib_step s evs"

lemmas session_defs [model_defs] = phase_center_def phase_right_def phase_return_def
  phase_left_def phases_def calib_init_def window_push_def make_point_def record_sample_def
  calib_run_def

subsection \<open>The session invariant\<close>

definition phase_labels :: "string list" where
  "phase_labels = map fst phases"

definition calib_inv :: "calib_state \<Rightarrow> bool" where
  "calib_inv s \<longleftrightarrow>
     phase_index s \<le> length phases \<and>
     (status s = Running \<longrightarrow> phase_index s < length phases) \<and>
     (phase_index s = length phases \<longleftrightarrow> status s = Complete) \<and>
     data_window s = last_n 10 (map pt_value (all_data s)) \<and>
     map fst (reports s) = take (phase_index s) phase_labels \<and>
     (\<exists>pre. all_data s = pre @ current_session s) \<and>
     (\<forall>pt\<in>set (current_session s). pt_phase pt = phase_labels ! phase_index s) \<and>
     (\<forall>pt\<in>set (all_data s). pt_phase pt \<in> set phase_labels \<and> is_seq (pt_raw pt))"

lemma length_phases [simp]: "length phases = 5"
  by (simp add: phases_def)

lemma last_n_push:
  "window_push (last_n 10 xs) x = last_n 10 (xs @ [x])"
  by (simp add: window_push_def last_n_snoc)

lemma calib_run_Nil [simp]: "calib_run s [] = s"
  by (simp add: calib_run_def)

lemma calib_run_Cons [simp]: "calib_run s (e # es) = calib_run (calib_step s e) es"
  by (simp add: calib_run_def)

lemma calib_run_append: "calib_run s (es @ fs) = calib_run (calib_run s es) fs"
  by (simp add: calib_run_def)

lemma calib_init_inv: "calib_inv (calib_init t0)"
  by (simp add: calib_inv_def calib_init_def)

lemma calib_inv_flags [simp]:
  "calib_inv (s\<lparr>data_bound := b, first_data_received := f\<rparr>) = calib_inv s"
  by (simp add: calib_inv_def)

lemma phases_nth_fst: "i < length phases \<Longrightarrow> fst (phases ! i) = phase_labels ! i"
  by (simp add: phase_labels_def)

lemma calib_inv_stop:
  "calib_inv s \<Longrightarrow> status s = Running \<Longrightarrow> st \<noteq> Complete \<Longrightarrow> calib_inv (s\<lparr>status := st\<rparr>)"
  by (simp add: calib_inv_def)

lemma calib_inv_bound [simp]: "calib_inv (s\<lparr>data_bound := b\<rparr>) = calib_inv s"
  by (simp add: calib_inv_def)

lemma record_sample_inv:
  assumes inv: "calib_inv s" and run: "status s = Running"
  shows "calib_inv (record_sample s now restart p)"
proof -
  let ?i = "phase_index s"
  obtain label duration where ph: "phases ! ?i = (label, duration)" by (cases "phases ! ?i")
  from inv run have i: "?i < 5" by (simp add: calib_inv_def)
  then have lab: "label = phase_labels ! ?i" using ph phases_nth_fst [of ?i] by simp
  then have lab_in: "label \<in> set phase_labels" using i by (simp add: phase_labels_def)
  let ?pt = "make_point now label p"
  let ?all = "all_data s @ [?pt]"
  have ptp: "pt_phase ?pt = label" by (simp add: make_point_def)
  have ptr: "is_seq (pt_raw ?pt)" by (simp add: make_point_def raw_data_of_seq)
  have win: "window_push (data_window s) (ps_value p) = last_n 10 (map pt_value ?all)"
    using inv by (simp add: calib_inv_def last_n_push make_point_def)
  from inv obtain pre where pre: "all_data s = pre @ current_session s" by (auto simp: calib_inv_def)
  have reps: "map fst (reports s) = take ?i phase_labels"
    and sess: "\<forall>q\<in>set (current_session s). pt_phase q = label"
    and alls: "\<forall>q\<in>set ?all. pt_phase q \<in> set phase_labels \<and> is_seq (pt_raw q)"
    using inv lab lab_in ptp ptr by (auto simp: calib_inv_def)
  show ?thesis
  proof (cases "duration \<le> now - phase_start_time s")
    case True
    let ?r = "reports s @ [(label, print_statistics (current_session s @ [?pt]))]"
    have tk: "map fst ?r = take (Suc ?i) phase_labels"
      using reps i lab by (simp add: phase_labels_def take_Suc_conv_app_nth)
    show ?thesis
    proof (cases "Suc ?i = 5")
      case last: True
      with True ph have "record_sample s now restart p =
          s\<lparr>all_data := ?all, current_session := [], data_window := last_n 10 (map pt_value ?all),
            reports := ?r, phase_index := Suc ?i, status := Complete\<rparr>"
        by (simp add: record_sample_def Let_def win)
      with last tk alls show ?thesis by (simp add: calib_inv_def)
    next
      case False
      with True ph i have "record_sample s now restart p =
          s\<lparr>all_data := ?all, current_session := [], data_window := last_n 10 (map pt_value ?all),
            reports := ?r, phase_index := Suc ?i, phase_start_time := restart\<rparr>"
        by (simp add: record_sample_def Let_def win)
      with False i run tk alls show ?thesis by (simp add: calib_inv_def)
    qed
  next
    case False
    with ph have "record_sample s now restart p =
        s\<lparr>all_data := ?all, current_session := current_session s @ [?pt],
          data_window := last_n 10 (map pt_value ?all)\<rparr>"
      by (simp add: record_sample_def Let_def win)
    moreover have "?all = pre @ (current_session s @ [?pt])" using pre by simp
    ultimately show ?thesis using inv i sess ptp lab alls reps
      by (auto simp: calib_inv_def)
  qed
qed

lemma calib_step_inv: "calib_inv s \<Longrightarrow> calib_inv (calib_step s e)"
proof (cases e)
  case (Tick now restart r)
  assume inv: "calib_inv s"
  show ?thesis
  proof (cases "status s = Running")
    case True
    with inv Tick show ?thesis
      by (auto simp: Let_def calib_inv_stop intro: record_sample_inv
               split: pull_result.splits sum.splits option.splits)
  next
    case False
    with Tick inv show ?thesis by simp
  qed
qed (auto simp: calib_inv_stop)

lemma calib_run_inv: "calib_inv s \<Longrightarrow> calib_inv (calib_run s evs)"
  by (induction evs arbitrary: s) (simp_all add: calib_step_inv)

lemma waiting_keeps_init:
  "\<forall>e\<in>set evs. \<exists>a b. e = Tick a b (Pulled PNone) \<Longrightarrow>
   calib_run (calib_init t0) evs = (if evs = [] then calib_init t0 else (calib_init t0)\<lparr>data_bound := True\<rparr>)"
proof (induction evs rule: rev_induct)
  case Nil
  then show ?case by simp
next
  case (snoc e evs)
  then obtain a b where "e = Tick a b (Pulled PNone)" by auto
  with snoc show ?case by (simp add: calib_run_append calib_init_def)
qed

text \<open>A pull has returned (a value or \<open>None\<close>) somewhere in the events.\<close>

definition pulled_some :: "calib_event list \<Rightarrow> bool" where
  "pulled_some evs \<longleftrightarrow> (\<exists>e\<in>set evs. case e of Tick _ _ (Pulled _) \<Rightarrow> True | _ \<Rightarrow> False)"

lemma record_sample_bound: "data_bound (record_sample s now restart p) = data_bound s"
  by (simp add: record_sample_def Let_def split: prod.splits)

lemma calib_step_running_before: "status (calib_step s e) = Running \<Longrightarrow> status s = Running"
  by (cases e) (auto split: if_splits)

lemma calib_step_bound:
  "status s = Running \<Longrightarrow>
   data_bound (calib_step s e) = (data_bound s \<or> (case e of Tick _ _ (Pulled _) \<Rightarrow> True | _ \<Rightarrow> False))"
  by (cases e) (auto simp: Let_def record_sample_bound split: pull_result.splits sum.splits option.splits)

lemma calib_run_bound:
  "status (calib_run s evs) = Running \<Longrightarrow> data_bound (calib_run s evs) = (data_bound s \<or> pulled_some evs)"
proof (induction evs rule: rev_induct)
  case Nil
  then show ?case by (simp add: pulled_some_def)
next
  case (snoc e evs)
  then have "status (calib_run s evs) = Running"
    by (simp add: calib_run_append calib_step_running_before)
  with snoc show ?case by (auto simp: calib_run_append calib_step_bound pulled_some_def)
qed

subsection \<open>Properties of the session\<close>

text \<open>
  Claim C21 (invariant): every run of the calibration loop from its start keeps the session invariant: the phase index stays within the five phases, the loop runs only inside them and completes exactly after the last, the printed reports name the finished phases in order, the current buffer is the tail of all data and holds only points of the current phase, every point carries a phase label, and the moving window holds the last ten recorded values.
\<close>

theorem calib_session_invariant: "calib_inv (calib_run (calib_init t0) evs)"
  by (rule calib_run_inv [OF calib_init_inv])

text \<open>
  When the calibration loop completes, it has printed the statistics of all five phases, in the fixed order of the phase list.
\<close>

theorem complete_reports_all_phases:
  assumes "status (calib_run (calib_init t0) evs) = Complete"
  shows "map fst (reports (calib_run (calib_init t0) evs)) = phase_labels"
proof -
  let ?s = "calib_run (calib_init t0) evs"
  have inv: "calib_inv ?s" by (rule calib_run_inv [OF calib_init_inv])
  then have "phase_index ?s = 5"
    using assms by (cases "phase_index ?s = 5") (auto simp: calib_inv_def)
  with inv show ?thesis by (simp add: calib_inv_def phase_labels_def)
qed

theorem complete_reports_all_phases_witness:
  "status (calib_run (calib_init 0) [Tick 5 5 (Pulled (PList [PList [PFloat 0, PFloat 0, PFloat 1]])), Tick 13 13 (Pulled (PList [PList [PFloat 0, PFloat 0, PFloat 1]])), Tick 16 16 (Pulled (PList [PList [PFloat 0, PFloat 0, PFloat 1]])), Tick 24 24 (Pulled (PList [PList [PFloat 0, PFloat 0, PFloat 1]])), Tick 27 27 (Pulled (PList [PList [PFloat 0, PFloat 0, PFloat 1]]))]) = Complete \<and>
   map fst (reports (calib_run (calib_init 0) [Tick 5 5 (Pulled (PList [PList [PFloat 0, PFloat 0, PFloat 1]])), Tick 13 13 (Pulled (PList [PList [PFloat 0, PFloat 0, PFloat 1]])), Tick 16 16 (Pulled (PList [PList [PFloat 0, PFloat 0, PFloat 1]])), Tick 24 24 (Pulled (PList [PList [PFloat 0, PFloat 0, PFloat 1]])), Tick 27 27 (Pulled (PList [PList [PFloat 0, PFloat 0, PFloat 1]]))])) = phase_labels"
  using complete_reports_all_phases [of 0 "[Tick 5 5 (Pulled (PList [PList [PFloat 0, PFloat 0, PFloat 1]])), Tick 13 13 (Pulled (PList [PList [PFloat 0, PFloat 0, PFloat 1]])), Tick 16 16 (Pulled (PList [PList [PFloat 0, PFloat 0, PFloat 1]])), Tick 24 24 (Pulled (PList [PList [PFloat 0, PFloat 0, PFloat 1]])), Tick 27 27 (Pulled (PList [PList [PFloat 0, PFloat 0, PFloat 1]]))]"]
  by (simp add: model_defs phase_labels_def)

text \<open>
  Claim C23 (safety): the calibration phase changes only in an iteration that records a usable sample: however much time has passed, missing samples, dropped samples and faults never advance it (the spec advances on elapsed time alone).
\<close>

theorem phase_advance_needs_sample:
  assumes "phase_index (calib_step s (Tick now restart r)) \<noteq> phase_index s"
  shows "\<exists>data p. r = Pulled data \<and> data \<noteq> PNone \<and> calib_parse data = Inr (Some p)"
  using assms
  by (auto simp: Let_def record_sample_def split: if_splits pull_result.splits sum.splits option.splits prod.splits)

theorem phase_advance_needs_sample_witness:
  "phase_index (calib_step (calib_init 0) (Tick 5 5 (Pulled (PList [PList [PFloat 0, PFloat 0, PFloat 1]])))) = 1"
  using phase_advance_needs_sample [of "calib_init 0" 5 5 "Pulled (PList [PList [PFloat 0, PFloat 0, PFloat 1]])"]
  by (simp add: model_defs)

text \<open>
  Claim C24 (liveness): in a running session, a usable sample arriving once the current phase's duration has elapsed moves the session to the next phase; five such samples complete it.
\<close>

theorem phase_advances:
  assumes "status s = Running" "data \<noteq> PNone" "calib_parse data = Inr (Some p)"
    and "snd (phases ! phase_index s) \<le> now - phase_start_time s"
  shows "phase_index (calib_step s (Tick now restart (Pulled data))) = Suc (phase_index s)"
  using assms by (auto simp: Let_def record_sample_def split: prod.splits)

theorem phase_advances_witness:
  "phase_index (calib_step (calib_init 0) (Tick 5 5 (Pulled (PList [PList [PFloat 0, PFloat 0, PFloat 1]])))) = 1"
  using phase_advances [of "calib_init 0" "PList [PList [PFloat 0, PFloat 0, PFloat 1]]" "Parsed 1 (Some 0) (Some 0) (Some 1) (PList [PFloat 0, PFloat 0, PFloat 1])" 5 5]
  by (simp add: model_defs)

text \<open>
  Claim C25 (error): in a running session a pull that raises is ignored once an earlier
  pull has returned (even \<open>None\<close>); before that, the handler prints the still unassigned
  variable \<open>data\<close> (line 309), raises \<open>NameError\<close>, and the script dies.
\<close>

theorem first_pull_fault_crashes:
  assumes "status (calib_run (calib_init t0) evs) = Running"
  shows "calib_run (calib_init t0) (evs @ [Tick now restart Pull_Raises]) =
           (if pulled_some evs then calib_run (calib_init t0) evs
            else (calib_run (calib_init t0) evs)\<lparr>status := Crashed\<rparr>)"
  using assms calib_run_bound [OF assms] by (simp add: calib_run_append calib_init_def)

theorem first_pull_fault_crashes_witness:
  "calib_run (calib_init 0) [Tick 1 1 (Pulled PNone), Tick 2 2 Pull_Raises] =
     calib_run (calib_init 0) [Tick 1 1 (Pulled PNone)] \<and>
   status (calib_run (calib_init 0) [Tick 1 1 Pull_Raises]) = Crashed"
  using first_pull_fault_crashes [of 0 "[Tick 1 1 (Pulled PNone)]" 2 2]
    first_pull_fault_crashes [of 0 "[]" 1 1]
  by (simp_all add: calib_init_def pulled_some_def)

text \<open>
  Claim C39 (functional): the baseline phase's timer starts before the first sample arrives: if the first usable sample comes five or more seconds after start, the baseline phase is closed with that one sample as its whole data.
\<close>

theorem late_first_sample_closes_baseline:
  assumes "\<forall>e\<in>set evs. \<exists>a b. e = Tick a b (Pulled PNone)"
    and "data \<noteq> PNone" "calib_parse data = Inr (Some p)" "t0 + 5 \<le> now"
  shows "reports (calib_run (calib_init t0) (evs @ [Tick now restart (Pulled data)])) =
           [(phase_center, print_statistics [make_point now phase_center p])]"
proof -
  let ?s = "calib_run (calib_init t0) evs"
  have w: "?s = (if evs = [] then calib_init t0 else (calib_init t0)\<lparr>data_bound := True\<rparr>)"
    by (rule waiting_keeps_init [OF assms(1)])
  have st: "status ?s = Running" "phase_index ?s = 0" "phase_start_time ?s = t0"
    "current_session ?s = []" "reports ?s = []"
    unfolding w by (simp_all add: calib_init_def)
  have "calib_run ?s [Tick now restart (Pulled data)] = record_sample (?s\<lparr>data_bound := True,
          first_data_received := True\<rparr>) now restart p"
    using st assms(2,3) by (simp add: Let_def)
  also have "reports \<dots> = [(phase_center, print_statistics [make_point now phase_center p])]"
    using st assms(4) by (simp add: record_sample_def Let_def phases_def)
  finally show ?thesis by (simp add: calib_run_append)
qed

theorem late_first_sample_closes_baseline_witness:
  "reports (calib_run (calib_init 0) [Tick 1 1 (Pulled PNone), Tick 6 6 (Pulled (PList [PList [PFloat 0, PFloat 0, PFloat 1]]))]) =
     [(phase_center, print_statistics [make_point 6 phase_center (Parsed 1 (Some 0) (Some 0) (Some 1) (PList [PFloat 0, PFloat 0, PFloat 1]))])]"
  using late_first_sample_closes_baseline [of "[Tick 1 1 (Pulled PNone)]" "PList [PList [PFloat 0, PFloat 0, PFloat 1]]"
      "Parsed 1 (Some 0) (Some 0) (Some 1) (PList [PFloat 0, PFloat 0, PFloat 1])" 0 6 6]
  by (simp add: model_defs)

end
