(* ===== verification/Calibration_Analysis.thy ===== *)
theory Calibration_Analysis
  imports Calibration_Session
begin

text \<open>
  The report test_tilt_data.py prints after its loop (lines 315-493): the recorded points
  grouped by phase label in first-seen order (the dict \<open>phases_data\<close>, lines 322-327),
  the statistics of each group and of all data, a guess of the data's kind (lines
  346-386), and the key analysis of lines 394-461 that suggests the controller's
  baseline, scale factor and dead zone and checks the direction of the tilt axis.  The
  analysis of an older phase naming (lines 479-493) is modelled too.
\<close>

subsection \<open>Grouping by phase (lines 322-327)\<close>

fun group_insert ::
  "(string \<times> data_point list) list \<Rightarrow> data_point \<Rightarrow> (string \<times> data_point list) list" where
  "group_insert [] pt = [(pt_phase pt, [pt])]"
| "group_insert ((k, ps) # rest) pt =
     (if k = pt_phase pt then (k, ps @ [pt]) # rest else (k, ps) # group_insert rest pt)"

definition group_by_phase :: "data_point list \<Rightarrow> (string \<times> data_point list) list" where
  "group_by_phase all = foldl group_insert [] all"

subsection \<open>Kind of data (lines 346-386)\<close>

text \<open>
  The first branch tests \<open>'raw_data' in all_data[0]\<close>, which holds for every point built
  at lines 242-251, so the compass and accelerometer guesses of lines 387-392 cannot be
  taken; a point always has the field here.
\<close>

datatype data_kind = Direction_Strings | Gyroscope_Triples | List_Format | Single_Value

definition classify_data :: "data_point list \<Rightarrow> data_kind" where
  "classify_data all =
     (let d0 = hd all in
      if pt_direction d0 \<noteq> None then Direction_Strings
      else (case pt_raw d0 of
              PList xs \<Rightarrow> (if 3 \<le> length xs then Gyroscope_Triples else List_Format)
            | _ \<Rightarrow> Single_Value))"

subsection \<open>The key analysis (lines 394-461)\<close>

text \<open>\<open>max(xs) if xs else 0\<close> and its kin (lines 411-421).\<close>

definition max_or_zero :: "real list \<Rightarrow> real" where
  "max_or_zero xs = (if xs = [] then 0 else Max (set xs))"

definition min_or_zero :: "real list \<Rightarrow> real" where
  "min_or_zero xs = (if xs = [] then 0 else Min (set xs))"

definition mean_or_zero :: "real list \<Rightarrow> real" where
  "mean_or_zero xs = (if xs = [] then 0 else py_mean xs)"

record key_analysis =
  center_avg :: real
  center_min :: real
  center_max :: real
  right_max :: real
  right_min :: real
  right_avg :: real
  left_max :: real
  left_min :: real
  left_avg :: real
  max_offset :: real
  suggested :: "(real \<times> real) option"
  right_positive :: bool

text \<open>
  Lines 410-461 on the value lists of the centre, right and left phases: the offsets of
  the four extremes from the centre mean, their largest magnitude, the suggested
  \<open>(scale_factor, dead_zone)\<close> when it is positive, and whether the right phase's mean
  lies above the centre.
\<close>

definition key_analysis_of :: "real list \<Rightarrow> real list \<Rightarrow> real list \<Rightarrow> key_analysis" where
  "key_analysis_of center right left =
     (let c = mean_or_zero center;
          rmax = max_or_zero right; rmin = min_or_zero right;
          lmax = max_or_zero left; lmin = min_or_zero left;
          mo = Max (set [\<bar>rmax - c\<bar>, \<bar>rmin - c\<bar>, \<bar>lmax - c\<bar>, \<bar>lmin - c\<bar>])
      in \<lparr>center_avg = c, center_min = min_or_zero center, center_max = max_or_zero center,
          right_max = rmax, right_min = rmin, right_avg = mean_or_zero right,
          left_max = lmax, left_min = lmin, left_avg = mean_or_zero left,
          max_offset = mo,
          suggested = (if 0 < mo then Some (10 / mo, mo * 0.1) else None),
          right_positive = (c < mean_or_zero right)\<rparr>)"

definition legacy_right :: string where
  "legacy_right = [CHR 0xE5, CHR 0x90, CHR 0x91, CHR 0xE5, CHR 0x8F, CHR 0xB3, CHR 0xE5,
     CHR 0x82, CHR 0xBE, CHR 0xE6, CHR 0x96, CHR 0x9C]"
definition legacy_left :: string where
  "legacy_left = [CHR 0xE5, CHR 0x90, CHR 0x91, CHR 0xE5, CHR 0xB7, CHR 0xA6, CHR 0xE5,
     CHR 0x82, CHR 0xBE, CHR 0xE6, CHR 0x96, CHR 0x9C]"

datatype analysis =
    Key_Analysis key_analysis
  | Legacy_Analysis real real bool
  | No_Analysis

definition calibration_analysis :: "(string \<times> data_point list) list \<Rightarrow> analysis" where
  "calibration_analysis g =
     (case (map_of g phase_right, map_of g phase_left) of
        (Some r, Some l) \<Rightarrow>
          Key_Analysis (key_analysis_of
            (case map_of g phase_center of Some c \<Rightarrow> map pt_value c | None \<Rightarrow> [])
            (map pt_value r) (map pt_value l))
      | _ \<Rightarrow>
          (case (map_of g legacy_right, map_of g legacy_left) of
             (Some r, Some l) \<Rightarrow>
               Legacy_Analysis (py_mean (map pt_value r)) (py_mean (map pt_value l))
                 (py_mean (map pt_value l) < py_mean (map pt_value r))
           | _ \<Rightarrow> No_Analysis))"

text \<open>
  The settings printed for Game.py (lines 436-452), as the controller configuration the
  printed text denotes: \<open>baseline\<close> and \<open>scale_factor\<close> with four decimals
  (\<open>:.4f\<close>, lines 437 and 451), \<open>dead_zone\<close> with two (\<open>:.2f\<close>, line 452); there is
  none when \<open>max_offset\<close> is 0 (line 448).
\<close>

definition suggested_config :: "key_analysis \<Rightarrow> tilt_config option" where
  "suggested_config a =
     (case suggested a of
        None \<Rightarrow> None
      | Some (sf, dz) \<Rightarrow> Some \<lparr>baseline = fmt_fixed 4 (center_avg a), dead_zone = fmt_fixed 2 dz,
                              scale_factor = fmt_fixed 4 sf\<rparr>)"

text \<open>
  The spec's direction check (section 4.2): offsets map positively to the right when the
  right phase's mean exceeds the left phase's.
\<close>

definition spec_right_over_left :: "real list \<Rightarrow> real list \<Rightarrow> bool" where
  "spec_right_over_left right left \<longleftrightarrow> py_mean left < py_mean right"

subsection \<open>The whole report (lines 315-493)\<close>

record final_report =
  fr_phase_stats :: "(string \<times> phase_stats option) list"
  fr_overall :: "phase_stats option"
  fr_kind :: data_kind
  fr_analysis :: analysis

definition make_final_report :: "data_point list \<Rightarrow> final_report option" where
  "make_final_report all =
     (if all = [] then None
      else (let g = group_by_phase all in
            Some \<lparr>fr_phase_stats = map (\<lambda>(k, ps). (k, print_statistics ps)) g,
                  fr_overall = print_statistics all,
                  fr_kind = classify_data all,
                  fr_analysis = calibration_analysis g\<rparr>))"

lemmas analysis_defs [model_defs] = group_by_phase_def classify_data_def max_or_zero_def
  min_or_zero_def mean_or_zero_def key_analysis_of_def legacy_right_def legacy_left_def
  calibration_analysis_def suggested_config_def make_final_report_def

subsection \<open>Facts about grouping and the analysis\<close>

lemma map_of_group_insert:
  "map_of (group_insert acc pt) k =
     (if k = pt_phase pt then Some (case map_of acc k of Some ps \<Rightarrow> ps @ [pt] | None \<Rightarrow> [pt])
      else map_of acc k)"
  by (induction acc pt rule: group_insert.induct) auto

lemma map_of_group_fold:
  "map_of (foldl group_insert acc ds) k =
     (case map_of acc k of
        Some ps \<Rightarrow> Some (ps @ filter (\<lambda>p. pt_phase p = k) ds)
      | None \<Rightarrow> (if \<exists>p\<in>set ds. pt_phase p = k then Some (filter (\<lambda>p. pt_phase p = k) ds) else None))"
proof (induction ds arbitrary: acc)
  case Nil
  then show ?case by (simp split: option.splits)
next
  case (Cons d ds)
  show ?case
    by (simp add: Cons.IH map_of_group_insert split: option.splits)
qed

lemma map_of_group_by_phase:
  "map_of (group_by_phase ds) k =
     (if \<exists>p\<in>set ds. pt_phase p = k then Some (filter (\<lambda>p. pt_phase p = k) ds) else None)"
  by (simp add: group_by_phase_def map_of_group_fold)

lemma keys_group_insert:
  "map fst (group_insert acc pt) =
     (if pt_phase pt \<in> set (map fst acc) then map fst acc else map fst acc @ [pt_phase pt])"
  by (induction acc pt rule: group_insert.induct) auto

lemma keys_group_fold:
  "distinct (map fst acc) \<Longrightarrow>
   distinct (map fst (foldl group_insert acc ds)) \<and>
   set (map fst (foldl group_insert acc ds)) = set (map fst acc) \<union> pt_phase ` set ds"
proof (induction ds arbitrary: acc)
  case Nil
  then show ?case by simp
next
  case (Cons d ds)
  have "distinct (map fst (group_insert acc d))"
    using Cons.prems by (simp add: keys_group_insert)
  moreover have "set (map fst (group_insert acc d)) = set (map fst acc) \<union> {pt_phase d}"
    by (auto simp: keys_group_insert simp del: set_map)
  ultimately show ?case using Cons.IH [of "group_insert acc d"] by auto
qed

lemma keys_group_by_phase:
  "distinct (map fst (group_by_phase ds)) \<and> set (map fst (group_by_phase ds)) = pt_phase ` set ds"
  using keys_group_fold [of "[]" ds] by (simp add: group_by_phase_def)

lemma key_analysis_max_offset:
  assumes "r \<noteq> []" and "l \<noteq> []"
  shows "max_offset (key_analysis_of center r l) =
     (let c = center_avg (key_analysis_of center r l) in
      Max (set [\<bar>Max (set r) - c\<bar>, \<bar>Min (set r) - c\<bar>, \<bar>Max (set l) - c\<bar>, \<bar>Min (set l) - c\<bar>]))"
  using assms by (simp only: key_analysis_of_def Let_def max_or_zero_def min_or_zero_def if_False
      key_analysis.simps)

lemma max_offset_is_max_deviation:
  assumes "r \<noteq> []" and "l \<noteq> []"
  shows "max_offset (key_analysis_of center r l) =
           Max ((\<lambda>v. \<bar>v - center_avg (key_analysis_of center r l)\<bar>) ` (set r \<union> set l))"
  using key_analysis_max_offset [OF assms] Max_four_dev [OF assms] by (simp add: Let_def)

lemma suggested_key_analysis:
  "suggested (key_analysis_of center r l) =
     (if 0 < max_offset (key_analysis_of center r l)
      then Some (10 / max_offset (key_analysis_of center r l), max_offset (key_analysis_of center r l) * 0.1)
      else None)"
  by (simp only: key_analysis_of_def Let_def key_analysis.simps)

lemma legacy_labels_not_phases: "legacy_right \<notin> set phase_labels"
  by (simp add: phase_labels_def model_defs)

lemma analysis_not_legacy:
  assumes "\<forall>pt\<in>set all. pt_phase pt \<in> set phase_labels"
  shows "\<not> (\<exists>a b c. calibration_analysis (group_by_phase all) = Legacy_Analysis a b c)"
proof -
  have "map_of (group_by_phase all) legacy_right = None"
    using assms legacy_labels_not_phases by (auto simp: map_of_group_by_phase)
  then show ?thesis by (simp add: calibration_analysis_def split: option.splits)
qed

lemma classify_not_single:
  assumes "all \<noteq> []" "\<forall>pt\<in>set all. is_seq (pt_raw pt)"
  shows "classify_data all \<noteq> Single_Value"
proof -
  have "hd all \<in> set all" using assms(1) by simp
  with assms(2) have "is_seq (pt_raw (hd all))" by blast
  then obtain xs where "pt_raw (hd all) = PList xs"
    by (cases "pt_raw (hd all)") (simp_all add: is_seq_def)
  then show ?thesis by (simp add: classify_data_def Let_def)
qed

lemma card_phase_labels: "card (set phase_labels) = 4"
  by (simp add: phase_labels_def model_defs card_insert_if)

lemma group_count_le_4:
  assumes "\<forall>pt\<in>set all. pt_phase pt \<in> set phase_labels"
  shows "length (group_by_phase all) \<le> 4"
proof -
  have k: "distinct (map fst (group_by_phase all))" "set (map fst (group_by_phase all)) = pt_phase ` set all"
    using keys_group_by_phase by blast+
  then have "length (group_by_phase all) = card (pt_phase ` set all)"
    by (metis distinct_card length_map)
  also have "\<dots> \<le> card (set phase_labels)"
    by (rule card_mono) (use assms in auto)
  finally show ?thesis by (simp add: card_phase_labels)
qed

subsection \<open>Properties of the analysis\<close>

text \<open>
  Claim C28 (equivalence): the offset the script computes from the four extremes of the right and left phases is the largest deviation of any of their samples from the baseline: every sample lies within it and some sample reaches it.
\<close>

theorem max_offset_attained:
  assumes "r \<noteq> []" and "l \<noteq> []"
  shows "(\<forall>v\<in>set r \<union> set l. \<bar>v - center_avg (key_analysis_of center r l)\<bar> \<le> max_offset (key_analysis_of center r l))
       \<and> (\<exists>v\<in>set r \<union> set l. \<bar>v - center_avg (key_analysis_of center r l)\<bar> = max_offset (key_analysis_of center r l))"
proof -
  let ?a = "key_analysis_of center r l"
  let ?f = "\<lambda>v. \<bar>v - center_avg ?a\<bar>"
  have mo: "max_offset ?a = Max (?f ` (set r \<union> set l))"
    using assms by (rule max_offset_is_max_deviation)
  have fin: "finite (?f ` (set r \<union> set l))" "?f ` (set r \<union> set l) \<noteq> {}"
    using assms by auto
  have "\<forall>v\<in>set r \<union> set l. ?f v \<le> max_offset ?a"
    unfolding mo using fin(1) by auto
  moreover have "max_offset ?a \<in> ?f ` (set r \<union> set l)"
    unfolding mo using fin by (rule Max_in)
  ultimately show ?thesis by force
qed

theorem max_offset_attained_witness:
  "max_offset (key_analysis_of [0] [4, 6] [-6, -4]) = 6 \<and> center_avg (key_analysis_of [0] [4, 6] [-6, -4]) = 0"
  using max_offset_attained [of "[4, 6]" "[-6, -4]" "[0]"] by (simp add: model_defs Let_def)

text \<open>
  The division by \<open>max_offset\<close> is guarded: there is no suggested scale factor exactly when every sample of the right and left phases equals the baseline; otherwise the suggestion is defined.
\<close>

theorem suggestion_defined_iff:
  assumes "r \<noteq> []" and "l \<noteq> []"
  shows "suggested (key_analysis_of center r l) = None \<longleftrightarrow>
         (\<forall>v\<in>set r \<union> set l. v = center_avg (key_analysis_of center r l))"
proof -
  let ?a = "key_analysis_of center r l"
  let ?f = "\<lambda>v. \<bar>v - center_avg ?a\<bar>"
  have mo: "max_offset ?a = Max (?f ` (set r \<union> set l))"
    using assms by (rule max_offset_is_max_deviation)
  have fin: "finite (?f ` (set r \<union> set l))" "?f ` (set r \<union> set l) \<noteq> {}"
    using assms by auto
  have "suggested ?a = None \<longleftrightarrow> \<not> 0 < max_offset ?a"
    by (simp only: suggested_key_analysis) simp
  also have "\<dots> \<longleftrightarrow> max_offset ?a \<le> 0" by (rule not_less)
  also have "\<dots> \<longleftrightarrow> (\<forall>y\<in>?f ` (set r \<union> set l). y \<le> 0)"
    unfolding mo using fin by (rule Max_le_iff)
  also have "\<dots> \<longleftrightarrow> (\<forall>v\<in>set r \<union> set l. v = center_avg ?a)"
    by auto
  finally show ?thesis .
qed

theorem suggestion_defined_iff_witness:
  "suggested (key_analysis_of [1] [1] [1]) = None \<and> suggested (key_analysis_of [0] [2] [-1]) = Some (5, 0.2)"
  using suggestion_defined_iff [of "[1]" "[1]" "[1]"] suggestion_defined_iff [of "[2]" "[-1]" "[0]"]
  by (simp add: model_defs Let_def)

text \<open>
  Claim C29 (divergence): the report's direction check compares the right phase's mean with
  the baseline (line 456), not with the left phase's mean as the spec says; for any
  non-empty right and left phases it disagrees with the spec exactly when the right mean
  exceeds the left mean but not the baseline, or the baseline but not the left mean.
\<close>

theorem direction_check_against_center:
  assumes "r \<noteq> []" "l \<noteq> []"
  shows "right_positive (key_analysis_of c r l) \<noteq> spec_right_over_left r l \<longleftrightarrow>
           (py_mean l < py_mean r \<and> py_mean r \<le> mean_or_zero c) \<or>
           (mean_or_zero c < py_mean r \<and> py_mean r \<le> py_mean l)"
  using assms by (auto simp: key_analysis_of_def Let_def mean_or_zero_def spec_right_over_left_def)

theorem direction_check_against_center_witness:
  "py_mean [-5] < py_mean [-1] \<and> py_mean [-1] \<le> mean_or_zero [0] \<and>
   \<not> right_positive (key_analysis_of [0] [-1] [-5]) \<and> spec_right_over_left [-1] [-5]"
  using direction_check_against_center [of "[-1]" "[-5]" "[0]"]
  by (simp add: model_defs spec_right_over_left_def)

end
