(* ===== verification/SA_Device.thy ===== *)
theory SA_Device
  imports Py_Values
begin

text \<open>
  The IoTtalk device description: the module SA.py (the configuration constants of
  lines 4-16 and the two callbacks \<open>Dummy_Control\<close> and \<open>on_register\<close>, lines 18-36)
  and the registration profile Game.py hands to \<open>DAN\<close> (lines 9-18).  The MQTT
  credentials of SA.py are not part of the model.  A callback's effect is the list of
  lines it prints, each line a constructor of \<open>sa_line\<close> holding the value it
  formats, and the exception that ends it, if any; \<open>Dummy_Control\<close> formats its
  number with \<open>:.2f\<close>, which \<open>sa_line\<close> keeps as the real number formatted.
\<close>

record sa_config =
  server_url :: string
  mqtt_broker :: "string option"
  mqtt_port :: int
  mqtt_encryption :: bool
  device_model :: string
  idf_list :: "string list"
  odf_list :: "string list"
  device_id :: "string option"
  device_name :: "string option"
  exec_interval :: real

definition sa_settings :: sa_config where
  "sa_settings =
     \<lparr>server_url = ''https://class.iottalk.tw'', mqtt_broker = Some ''iot.iottalk.tw'',
      mqtt_port = 8883, mqtt_encryption = True, device_model = ''Dummy_Device'',
      idf_list = [], odf_list = [''Dummy_Control''], device_id = None, device_name = None,
      exec_interval = 0.1\<rparr>"

text \<open>Game.py's own settings: \<open>ServerURL\<close>, \<open>Reg_addr\<close> and \<open>DAN.profile\<close>.\<close>

record dan_profile =
  d_name :: string
  dm_name :: string
  is_sim :: bool
  df_list :: "string list"

definition game_server_url :: string where
  "game_server_url = ''https://class.iottalk.tw''"

definition game_profile :: dan_profile where
  "game_profile = \<lparr>d_name = ''Sky_Fighter'', dm_name = ''Dummy_Device'', is_sim = False,
                   df_list = [''Dummy_Control'']\<rparr>"

text \<open>The feature Game.py pulls (line 34).\<close>

definition game_pull_feature :: string where
  "game_pull_feature = ''Dummy_Control''"

subsection \<open>The callbacks\<close>

datatype sa_line =
    Line_Data_Number real
  | Line_Data_Repr pyval
  | Line_Name_En pyval
  | Line_Rule
  | Line_Success
  | Line_Server pyval
  | Line_Name_Zh pyval

text \<open>
  \<open>format(v, '.2f')\<close>: numbers (bools are ints) convert to a double, an int too large
  for one raising \<open>OverflowError\<close>; \<open>str\<close> has no \<open>f\<close> format code
  (\<open>ValueError\<close>); every other value has no numeric format at all (\<open>TypeError\<close>).
\<close>

fun format_2f :: "pyval \<Rightarrow> py_error + real" where
  "format_2f (PFloat r) = Inr r"
| "format_2f (PInt i) = (if float_int_limit \<le> \<bar>i\<bar> then Inl OverflowError else Inr (real_of_int i))"
| "format_2f (PBool b) = Inr (if b then 1 else 0)"
| "format_2f (PStr s) = Inl ValueError"
| "format_2f PNone = Inl TypeError"
| "format_2f (PList xs) = Inl TypeError"
| "format_2f (PDict kvs) = Inl TypeError"

text \<open>\<open>Dummy_Control(data)\<close> (lines 18-28): the first element of a non-empty list, or the data.\<close>

definition dummy_control :: "pyval \<Rightarrow> sa_line list \<times> py_error option" where
  "dummy_control data =
     (case data of
        PList (x # _) \<Rightarrow>
          (case format_2f x of Inl e \<Rightarrow> ([], Some e) | Inr r \<Rightarrow> ([Line_Data_Number r], None))
      | _ \<Rightarrow> ([Line_Data_Repr data], None))"

text \<open>Python's \<open>r[k]\<close> on a dict decoded from JSON: the last binding of \<open>k\<close> wins.\<close>

definition py_dict_get :: "(string \<times> pyval) list \<Rightarrow> string \<Rightarrow> pyval option" where
  "py_dict_get kvs k = map_of (rev kvs) k"

text \<open>
  \<open>on_register(r)\<close> (lines 30-36): six prints; \<open>r['d_name']\<close> is read on the first
  and \<open>r['server']\<close> on the fourth, so a missing key stops the callback with
  \<open>KeyError\<close> after the lines before it.
\<close>

definition on_register :: "(string \<times> pyval) list \<Rightarrow> sa_line list \<times> py_error option" where
  "on_register r =
     (case py_dict_get r ''d_name'' of
        None \<Rightarrow> ([], Some KeyError)
      | Some n \<Rightarrow>
          (case py_dict_get r ''server'' of
             None \<Rightarrow> ([Line_Name_En n, Line_Rule, Line_Success], Some KeyError)
           | Some s \<Rightarrow> ([Line_Name_En n, Line_Rule, Line_Success, Line_Server s, Line_Name_Zh n, Line_Rule],
                        None)))"

lemmas sa_defs [model_defs] = sa_settings_def game_server_url_def game_profile_def
  game_pull_feature_def dummy_control_def py_dict_get_def on_register_def

subsection \<open>Facts about the device description\<close>

text \<open>
  The two files agree: Game.py registers the device model SA.py describes, on the same
  server, with the one output feature SA.py lists, and pulls exactly that feature.
\<close>

lemma device_settings_agree:
  "dm_name game_profile = device_model sa_settings \<and> game_server_url = server_url sa_settings \<and>
   df_list game_profile = odf_list sa_settings \<and> set (odf_list sa_settings) = {game_pull_feature}"
  by (simp add: sa_defs)

text \<open>
  \<open>Dummy_Control\<close> prints the first element of a list payload only when it is a number:
  a direction label raises \<open>ValueError\<close>, a nested triple or \<open>None\<close> raises
  \<open>TypeError\<close>, an oversized int \<open>OverflowError\<close>.
\<close>

lemma format_2f_error_kinds:
  "format_2f v = Inl e \<Longrightarrow>
     (e = ValueError \<longleftrightarrow> (\<exists>s. v = PStr s)) \<and> (e = OverflowError \<longleftrightarrow> (\<exists>i. v = PInt i)) \<and>
     e \<in> {ValueError, TypeError, OverflowError}"
  by (cases v) (auto split: if_splits)

lemma format_2f_float: "py_float v = Inr r \<Longrightarrow> (\<nexists>s. v = PStr s) \<Longrightarrow> format_2f v = Inr r"
  by (cases v) (auto split: if_splits)

lemma dummy_control_label_raises:
  "dummy_control (PList (PStr s # xs)) = ([], Some ValueError)"
  by (simp add: dummy_control_def)

lemma dummy_control_nested_raises:
  "dummy_control (PList (PList ys # xs)) = ([], Some TypeError)"
  by (simp add: dummy_control_def)

lemma on_register_ok:
  "snd (on_register r) = None \<longleftrightarrow> py_dict_get r ''d_name'' \<noteq> None \<and> py_dict_get r ''server'' \<noteq> None"
  by (simp add: on_register_def split: option.splits)

end
