(* ===== verification/Motion.thy ===== *)
theory Motion
  imports Prelude
begin

text \<open>
  The consumer side of the control value in Game.py: \<open>Player.update\<close> (lines 186-214),
  which moves the ship's \<open>Rect\<close> by a speed derived from \<open>current_tilt\<close>, banks it,
  keeps it on the screen with \<open>clamp_ip\<close> and resizes the hit box to the rotated
  image, and the ship preview of \<open>main_menu\<close> (lines 348-360), which moves a float
  position by the same law.  pygame's \<open>Rect\<close> holds C ints: assigning a float to
  \<open>rect.x\<close> truncates it toward zero (\<open>pg_IntFromObj\<close>), which \<open>c_int_of\<close> writes
  out, and \<open>clamp_ip\<close> is pygame's algorithm, with C's integer halving.  The size of
  the rotated image (\<open>pygame.transform.rotate\<close> in \<open>draw_ship\<close>, lines 182-185) is a
  parameter \<open>rot_size\<close> of the model: a function from the bank angle to the width and
  height of the rotated bounding box.
\<close>

definition WIDTH :: int where "WIDTH = 800"
definition HEIGHT :: int where "HEIGHT = 600"

text \<open>The neon palette (lines 104-109), colours as RGB triples.\<close>

type_synonym rgb = "int \<times> int \<times> int"

definition c_bg :: rgb where "c_bg = (10, 10, 20)"
definition c_neon_cyan :: rgb where "c_neon_cyan = (0, 255, 255)"
definition c_neon_pink :: rgb where "c_neon_pink = (255, 0, 255)"
definition c_neon_green :: rgb where "c_neon_green = (57, 255, 20)"
definition c_neon_yellow :: rgb where "c_neon_yellow = (255, 240, 31)"
definition c_white :: rgb where "c_white = (255, 255, 255)"

text \<open>pygame's conversion of a Python float to a C int: truncation toward zero.\<close>

definition c_int_of :: "real \<Rightarrow> int" where
  "c_int_of r = (if 0 \<le> r then \<lfloor>r\<rfloor> else \<lceil>r\<rceil>)"

record rect =
  rx :: int
  ry :: int
  rw :: int
  rh :: int

text \<open>pygame's \<open>Rect.clamp_ip\<close>, one axis: centre when too large, else shift inside.\<close>

definition clamp_axis :: "int \<Rightarrow> int \<Rightarrow> int \<Rightarrow> int \<Rightarrow> int" where
  "clamp_axis x w ax aw =
     (if aw \<le> w then ax + aw div 2 - w div 2
      else if x < ax then ax
      else if ax + aw < x + w then ax + aw - w
      else x)"

definition clamp_ip :: "rect \<Rightarrow> rect \<Rightarrow> rect" where
  "clamp_ip r a = r\<lparr>rx := clamp_axis (rx r) (rw r) (rx a) (rw a),
                    ry := clamp_axis (ry r) (rh r) (ry a) (rh a)\<rparr>"

definition screen_rect :: rect where
  "screen_rect = \<lparr>rx = 0, ry = 0, rw = WIDTH, rh = HEIGHT\<rparr>"

text \<open>The motion law shared by the ship and the preview (lines 188-194, 349-354).\<close>

definition tilt_threshold :: real where "tilt_threshold = 0.3"

definition normalized_tilt :: "real \<Rightarrow> real" where
  "normalized_tilt tm = min ((tm - tilt_threshold) / (8 - tilt_threshold)) 1"

record player =
  p_rect :: rect
  bank_angle :: int

definition player_speed :: int where "player_speed = 7"

text \<open>\<open>Player.__init__\<close> (lines 158-165): a 50x60 image centred at \<open>(WIDTH // 2, HEIGHT - 80)\<close>.\<close>

definition player_init :: player where
  "player_init = \<lparr>p_rect = \<lparr>rx = WIDTH div 2 - 25, ry = HEIGHT - 80 - 30, rw = 50, rh = 60\<rparr>,
                  bank_angle = 0\<rparr>"

text \<open>
  Lines 187-207: move and bank, or let the bank angle return toward 0.  The method reads
  the global \<open>current_tilt\<close> up to three times, at lines 189, 196 and 199; the listener
  thread may write it in between, so the three readings are separate arguments
  \<open>(t1, t2, t3)\<close>.  A reading the branch taken does not reach is ignored.
\<close>

type_synonym tilt_reads = "tilt \<times> tilt \<times> tilt"

definition player_move3 :: "tilt_reads \<Rightarrow> player \<Rightarrow> player" where
  "player_move3 rd p =
     (let (t1, t2, t3) = rd; tm = \<bar>t1\<bar>; r = p_rect p; b = bank_angle p in
      if tm > tilt_threshold then
        (let move_speed = normalized_tilt tm * real_of_int player_speed in
         if t2 < 0 then
           p\<lparr>p_rect := r\<lparr>rx := c_int_of (real_of_int (rx r) - move_speed)\<rparr>,
             bank_angle := max (b - 2) (-25)\<rparr>
         else if t3 > 0 then
           p\<lparr>p_rect := r\<lparr>rx := c_int_of (real_of_int (rx r) + move_speed)\<rparr>,
             bank_angle := min (b + 2) 25\<rparr>
         else p)
      else if b > 0 then p\<lparr>bank_angle := b - 2\<rparr>
      else if b < 0 then p\<lparr>bank_angle := b + 2\<rparr>
      else p)"

text \<open>The method when \<open>current_tilt\<close> does not change while it runs: three equal readings.\<close>

definition player_move :: "tilt \<Rightarrow> player \<Rightarrow> player" where
  "player_move current_tilt p = player_move3 (current_tilt, current_tilt, current_tilt) p"

text \<open>
  The whole of \<open>Player.update\<close>: move, \<open>clamp_ip\<close> to the screen (line 210), then
  \<open>self.rect.size = rect.size\<close> (line 214), which keeps the top-left corner.
\<close>

definition player_update3 :: "(int \<Rightarrow> int \<times> int) \<Rightarrow> tilt_reads \<Rightarrow> player \<Rightarrow> player" where
  "player_update3 rot_size rd p =
     (let p1 = player_move3 rd p;
          r = clamp_ip (p_rect p1) screen_rect;
          sz = rot_size (bank_angle p1) in
      p1\<lparr>p_rect := r\<lparr>rw := fst sz, rh := snd sz\<rparr>\<rparr>)"

definition player_update :: "(int \<Rightarrow> int \<times> int) \<Rightarrow> tilt \<Rightarrow> player \<Rightarrow> player" where
  "player_update rot_size current_tilt p =
     player_update3 rot_size (current_tilt, current_tilt, current_tilt) p"

definition player_run :: "(int \<Rightarrow> int \<times> int) \<Rightarrow> tilt list \<Rightarrow> player \<Rightarrow> player" where
  "player_run rot_size ts p = foldl (\<lambda>q t. player_update rot_size t q) p ts"

text \<open>
  The preview of \<open>main_menu\<close> (lines 337, 348-360): a float position moved with speed 6 and
  clamped by \<open>max(30, min(WIDTH - 30, preview_x))\<close>; no \<open>Rect\<close> is involved.
\<close>

definition preview_step :: "tilt \<Rightarrow> real \<Rightarrow> real" where
  "preview_step current_tilt preview_x =
     (let tm = \<bar>current_tilt\<bar>;
          x = (if tm > tilt_threshold then
                 (let move_speed = normalized_tilt tm * 6 in
                  if current_tilt < 0 then preview_x - move_speed
                  else if current_tilt > 0 then preview_x + move_speed
                  else preview_x)
               else preview_x) in
      py_clamp 30 (real_of_int WIDTH - 30) x)"

text \<open>
  \<open>Player.draw_ship\<close> (lines 166-185) rotates the 50x60 image by \<open>-angle * 2\<close>
  degrees; the hit box takes the size of the rotated image (line 214).  pygame's
  \<open>transform.rotate\<close> turns by quarter turns when the angle is a multiple of 90 and
  otherwise returns the bounding box of the rotated corners, truncated to C ints
  (\<open>pi / 180\<close> stands for the double constant pygame multiplies by).
\<close>

definition max4 :: "real \<Rightarrow> real \<Rightarrow> real \<Rightarrow> real \<Rightarrow> real" where
  "max4 a b c d = max (max (max a b) c) d"

definition pg_rotate_size :: "int \<Rightarrow> int \<Rightarrow> int \<Rightarrow> int \<times> int" where
  "pg_rotate_size w h angle =
     (if angle mod 90 = 0 then (if even (angle div 90) then (w, h) else (h, w))
      else
        (let radangle = real_of_int angle * pi / 180;
             sangle = sin radangle; cangle = cos radangle;
             cx = cangle * real_of_int w; cy = cangle * real_of_int h;
             sx = sangle * real_of_int w; sy = sangle * real_of_int h in
         (c_int_of (max4 \<bar>cx + sy\<bar> \<bar>cx - sy\<bar> \<bar>- cx + sy\<bar> \<bar>- cx - sy\<bar>),
          c_int_of (max4 \<bar>sx + cy\<bar> \<bar>sx - cy\<bar> \<bar>- sx + cy\<bar> \<bar>- sx - cy\<bar>))))"

definition ship_rot_size :: "int \<Rightarrow> int \<times> int" where
  "ship_rot_size angle = pg_rotate_size 50 60 (- angle * 2)"

lemmas motion_defs [model_defs] = WIDTH_def HEIGHT_def c_int_of_def clamp_axis_def clamp_ip_def
  screen_rect_def tilt_threshold_def normalized_tilt_def player_speed_def player_init_def
  player_move3_def player_move_def player_update3_def player_update_def player_run_def preview_step_def max4_def pg_rotate_size_def
  ship_rot_size_def c_bg_def c_neon_cyan_def c_neon_pink_def c_neon_green_def c_neon_yellow_def c_white_def

definition on_screen :: "rect \<Rightarrow> bool" where
  "on_screen r = (0 \<le> rx r \<and> rx r < WIDTH \<and> 0 \<le> ry r \<and> ry r < HEIGHT \<and>
                  0 < rw r \<and> rw r \<le> WIDTH \<and> 0 < rh r \<and> rh r \<le> HEIGHT)"

subsection \<open>Facts about the motion\<close>

text \<open>Equal readings make \<open>Player.update\<close> the single-reading method.\<close>

lemma player_update_eq:
  "player_update rot_size t p =
     (let p1 = player_move t p;
          r = clamp_ip (p_rect p1) screen_rect;
          sz = rot_size (bank_angle p1) in
      p1\<lparr>p_rect := r\<lparr>rw := fst sz, rh := snd sz\<rparr>\<rparr>)"
  by (simp add: player_update_def player_update3_def player_move_def)

lemma c_int_of_nonneg: "0 \<le> r \<Longrightarrow> c_int_of r = \<lfloor>r\<rfloor>"
  by (simp add: c_int_of_def)

lemma clamp_axis_inside:
  assumes "0 \<le> w" "w \<le> aw"
  shows "ax \<le> clamp_axis x w ax aw \<and> clamp_axis x w ax aw + w \<le> ax + aw"
  using assms by (auto simp: clamp_axis_def)

lemma clamp_axis_id:
  "\<lbrakk>ax \<le> x; x + w \<le> ax + aw; w < aw\<rbrakk> \<Longrightarrow> clamp_axis x w ax aw = x"
  by (simp add: clamp_axis_def)

lemma player_move_rect:
  "ry (p_rect (player_move t p)) = ry (p_rect p) \<and> rw (p_rect (player_move t p)) = rw (p_rect p) \<and>
   rh (p_rect (player_move t p)) = rh (p_rect p)"
  by (simp add: player_move_def player_move3_def Let_def)

lemma player_update_rect:
  "p_rect (player_update rs t p) =
     \<lparr>rx = clamp_axis (rx (p_rect (player_move t p))) (rw (p_rect p)) 0 WIDTH,
      ry = clamp_axis (ry (p_rect p)) (rh (p_rect p)) 0 HEIGHT,
      rw = fst (rs (bank_angle (player_move t p))), rh = snd (rs (bank_angle (player_move t p)))\<rparr>"
  using player_move_rect [of t p]
  by (simp add: player_update_eq clamp_ip_def screen_rect_def Let_def)

lemma player_run_Cons [simp]:
  "player_run rs (t # ts) p = player_run rs ts (player_update rs t p)"
  by (simp add: player_run_def)

lemma player_run_Nil [simp]: "player_run rs [] p = p"
  by (simp add: player_run_def)

lemma player_move_bank_odd: "odd (bank_angle p) \<Longrightarrow> odd (bank_angle (player_move t p))"
  by (auto simp: player_move_def player_move3_def Let_def max_def min_def)

lemma player_update_bank: "bank_angle (player_update rs t p) = bank_angle (player_move t p)"
  by (simp add: player_update_eq Let_def)

lemma player_update_on_screen:
  assumes "\<forall>a. 0 < fst (rs a) \<and> fst (rs a) \<le> WIDTH \<and> 0 < snd (rs a) \<and> snd (rs a) \<le> HEIGHT"
    and "on_screen (p_rect p)"
  shows "on_screen (p_rect (player_update rs t p))"
proof -
  let ?x = "rx (p_rect (player_move t p))"
  have "0 \<le> clamp_axis ?x (rw (p_rect p)) 0 WIDTH \<and> clamp_axis ?x (rw (p_rect p)) 0 WIDTH + rw (p_rect p) \<le> WIDTH"
    using assms(2) clamp_axis_inside [of "rw (p_rect p)" WIDTH 0 ?x] by (simp add: on_screen_def)
  moreover have "0 \<le> clamp_axis (ry (p_rect p)) (rh (p_rect p)) 0 HEIGHT \<and>
      clamp_axis (ry (p_rect p)) (rh (p_rect p)) 0 HEIGHT + rh (p_rect p) \<le> HEIGHT"
    using assms(2) clamp_axis_inside [of "rh (p_rect p)" HEIGHT 0 "ry (p_rect p)"] by (simp add: on_screen_def)
  ultimately show ?thesis
    using assms by (simp add: player_update_rect on_screen_def)
qed

lemma player_update_bank_left:
  "t < - tilt_threshold \<Longrightarrow> bank_angle (player_update rs t p) = max (bank_angle p - 2) (-25)"
  by (simp add: player_update_bank player_move_def player_move3_def Let_def tilt_threshold_def)
lemma player_run_append: "player_run rs (xs @ ys) p = player_run rs ys (player_run rs xs p)"
  by (simp add: player_run_def)

lemma max4_abs: "max4 \<bar>a + b\<bar> \<bar>a - b\<bar> \<bar>- a + b\<bar> \<bar>- a - b\<bar> = \<bar>a\<bar> + \<bar>b\<bar>"
  by (simp add: max4_def abs_if max_def)

lemma abs_sin_cos_ge_one: "1 \<le> \<bar>sin x\<bar> + \<bar>cos (x::real)\<bar>"
proof -
  have s: "\<bar>sin x\<bar> * \<bar>sin x\<bar> \<le> \<bar>sin x\<bar> * 1" by (rule mult_left_mono) (simp_all add: abs_sin_le_one)
  have c: "\<bar>cos x\<bar> * \<bar>cos x\<bar> \<le> \<bar>cos x\<bar> * 1" by (rule mult_left_mono) (simp_all add: abs_cos_le_one)
  have "sin x * sin x + cos x * cos x = 1" using sin_cos_squared_add [of x] by (simp add: power2_eq_square)
  then have "\<bar>sin x\<bar> * \<bar>sin x\<bar> + \<bar>cos x\<bar> * \<bar>cos x\<bar> = 1" by (simp only: abs_mult_self_eq)
  with s c show ?thesis by linarith
qed

lemma weighted_sin_cos:
  fixes a b c s :: real
  assumes "0 \<le> a" "a \<le> b" and that: "1 \<le> \<bar>s\<bar> + \<bar>c\<bar>" "\<bar>s\<bar> \<le> 1" "\<bar>c\<bar> \<le> 1"
  shows "a \<le> a * \<bar>c\<bar> + b * \<bar>s\<bar> \<and> a * \<bar>c\<bar> + b * \<bar>s\<bar> \<le> a + b"
proof -
  have "a * (\<bar>s\<bar> + \<bar>c\<bar>) \<le> a * \<bar>c\<bar> + b * \<bar>s\<bar>"
    using assms mult_right_mono [of a b "\<bar>s\<bar>"] by (simp add: algebra_simps)
  moreover have "a \<le> a * (\<bar>s\<bar> + \<bar>c\<bar>)" using that assms mult_left_mono [of 1 _ a] by simp
  moreover have "a * \<bar>c\<bar> \<le> a" "b * \<bar>s\<bar> \<le> b"
    using that assms by (simp_all add: mult_left_le)
  ultimately show ?thesis by linarith
qed

lemma ship_rot_size_bounds:
  "0 < fst (ship_rot_size a) \<and> fst (ship_rot_size a) \<le> WIDTH \<and>
   0 < snd (ship_rot_size a) \<and> snd (ship_rot_size a) \<le> HEIGHT"
proof (cases "(- a * 2) mod 90 = 0")
  case True
  then show ?thesis by (simp add: ship_rot_size_def pg_rotate_size_def WIDTH_def HEIGHT_def)
next
  case False
  let ?x = "real_of_int (- a * 2) * pi / 180"
  have sc: "1 \<le> \<bar>sin ?x\<bar> + \<bar>cos ?x\<bar>" "1 \<le> \<bar>cos ?x\<bar> + \<bar>sin ?x\<bar>" "\<bar>sin ?x\<bar> \<le> 1" "\<bar>cos ?x\<bar> \<le> 1"
    using abs_sin_cos_ge_one [of ?x] abs_sin_le_one abs_cos_le_one by simp_all
  have w: "50 \<le> 50 * \<bar>cos ?x\<bar> + 60 * \<bar>sin ?x\<bar> \<and> 50 * \<bar>cos ?x\<bar> + 60 * \<bar>sin ?x\<bar> \<le> 110"
    using weighted_sin_cos [of 50 60 "sin ?x" "cos ?x"] sc by simp
  have h: "50 \<le> 50 * \<bar>sin ?x\<bar> + 60 * \<bar>cos ?x\<bar> \<and> 50 * \<bar>sin ?x\<bar> + 60 * \<bar>cos ?x\<bar> \<le> 110"
    using weighted_sin_cos [of 50 60 "cos ?x" "sin ?x"] sc by simp
  have eq: "ship_rot_size a =
      (c_int_of (\<bar>cos ?x * real_of_int 50\<bar> + \<bar>sin ?x * real_of_int 60\<bar>),
       c_int_of (\<bar>sin ?x * real_of_int 50\<bar> + \<bar>cos ?x * real_of_int 60\<bar>))"
    by (simp only: ship_rot_size_def pg_rotate_size_def Let_def if_not_P [OF False] max4_abs)
  have "\<bar>cos ?x * real_of_int 50\<bar> + \<bar>sin ?x * real_of_int 60\<bar> = 50 * \<bar>cos ?x\<bar> + 60 * \<bar>sin ?x\<bar>"
       "\<bar>sin ?x * real_of_int 50\<bar> + \<bar>cos ?x * real_of_int 60\<bar> = 50 * \<bar>sin ?x\<bar> + 60 * \<bar>cos ?x\<bar>"
    by (simp_all only: abs_mult of_int_numeral abs_numeral mult.commute)
  with eq have "ship_rot_size a = (c_int_of (50 * \<bar>cos ?x\<bar> + 60 * \<bar>sin ?x\<bar>), c_int_of (50 * \<bar>sin ?x\<bar> + 60 * \<bar>cos ?x\<bar>))"
    by simp
  with w h show ?thesis
    by (simp add: c_int_of_nonneg WIDTH_def HEIGHT_def le_floor_iff floor_le_iff)
qed

lemma player_run_on_screen_any:
  assumes "\<forall>a. 0 < fst (rs a) \<and> fst (rs a) \<le> WIDTH \<and> 0 < snd (rs a) \<and> snd (rs a) \<le> HEIGHT"
    and "on_screen (p_rect p)"
  shows "on_screen (p_rect (player_run rs ts p))"
  using assms(2)
proof (induction ts arbitrary: p)
  case Nil then show ?case by simp
next
  case (Cons t ts)
  then show ?case using player_update_on_screen [OF assms(1)] by simp
qed

subsection \<open>Properties of the motion\<close>

text \<open>
  Claim C12 (invariant): every run of \<open>Player.update\<close>, with the hit box resized to pygame's rotated ship image each frame, keeps the ship's top-left corner on the screen and its size positive and no larger than the screen.
\<close>

theorem player_run_on_screen:
  assumes "on_screen (p_rect p)"
  shows "on_screen (p_rect (player_run ship_rot_size ts p))"
  using player_run_on_screen_any [OF _ assms] ship_rot_size_bounds by blast

theorem player_run_on_screen_witness:
  "on_screen (p_rect player_init) \<and> on_screen (p_rect (player_run ship_rot_size [10, 10, -3] player_init))"
  using player_run_on_screen [of player_init "[10, 10, -3]"]
  by (simp add: on_screen_def player_init_def WIDTH_def HEIGHT_def)

text \<open>
  Claim C16 (divergence): A tilt of magnitude between 0.3 and 1.4 leaves the ship in place when it is to the right but moves it one pixel per frame when it is to the left: pygame truncates the fractional \<open>rect.x\<close> toward zero, so the motion is not symmetric in the sign of the tilt.
\<close>

theorem player_tilt_asymmetry:
  assumes "0.3 < t" "t < 1.4" "1 \<le> rx (p_rect p)" "rx (p_rect p) + rw (p_rect p) \<le> WIDTH"
    "rw (p_rect p) < WIDTH" "0 \<le> ry (p_rect p)" "ry (p_rect p) + rh (p_rect p) \<le> HEIGHT"
    "rh (p_rect p) < HEIGHT"
  shows "rx (p_rect (player_update rs t p)) = rx (p_rect p) \<and>
         rx (p_rect (player_update rs (-t) p)) = rx (p_rect p) - 1"
proof -
  let ?x = "rx (p_rect p)" and ?m = "normalized_tilt t * 7"
  have m: "0 < ?m" "?m < 1" using assms(1,2)
    by (simp_all add: normalized_tilt_def tilt_threshold_def)
  have r: "c_int_of (real_of_int ?x + ?m) = ?x"
    using m assms(3) by (simp add: c_int_of_nonneg floor_eq_iff)
  have l: "c_int_of (real_of_int ?x - ?m) = ?x - 1"
    using m assms(3) by (simp add: c_int_of_nonneg floor_eq_iff)
  have "rx (p_rect (player_move t p)) = ?x" "rx (p_rect (player_move (-t) p)) = ?x - 1"
    using assms(1) r l by (simp_all add: player_move_def player_move3_def tilt_threshold_def player_speed_def Let_def)
  then show ?thesis using assms
    by (simp add: player_update_rect clamp_axis_id)
qed

theorem player_tilt_asymmetry_witness:
  "rx (p_rect (player_update (\<lambda>_. (50, 60)) 1 player_init)) = 375 \<and>
   rx (p_rect (player_update (\<lambda>_. (50, 60)) (-1) player_init)) = 374"
  using player_tilt_asymmetry [of 1 player_init "\<lambda>_. (50, 60)"]
  by (simp add: player_init_def WIDTH_def HEIGHT_def)

text \<open>
  Claim C17 (divergence): Once the bank angle is odd (it becomes -25 or 25 after a full bank) it stays odd in every later frame, so the ship never returns level: with no tilt it alternates between 1 and -1.
\<close>

theorem bank_never_levels:
  assumes "odd (bank_angle p)"
  shows "bank_angle (player_run rs ts p) \<noteq> 0"
proof -
  have "odd (bank_angle (player_run rs ts p))"
    using assms
  proof (induction ts arbitrary: p)
    case Nil then show ?case by simp
  next
    case (Cons t ts)
    then show ?case by (simp add: player_update_bank player_move_bank_odd)
  qed
  then show ?thesis by auto
qed

theorem bank_never_levels_witness:
  "bank_angle (player_run (\<lambda>_. (50, 60)) (replicate 13 (-10)) player_init) = -25 \<and>
   bank_angle (player_run (\<lambda>_. (50, 60)) (replicate 13 (-10) @ [0, 0, 0]) player_init) \<noteq> 0"
  using bank_never_levels [of "player_run (\<lambda>_. (50, 60)) (replicate 13 (-10)) player_init" "\<lambda>_. (50, 60)" "[0, 0, 0]"]
  by (simp add: player_run_append numeral_eq_Suc player_update_bank_left tilt_threshold_def player_init_def)

text \<open>
  The menu preview stays within [30, WIDTH - 30] and is mirror-symmetric: the opposite tilt from the mirrored position gives the mirrored position.
\<close>

theorem preview_mirror:
  "preview_step (-t) (real_of_int WIDTH - x) = real_of_int WIDTH - preview_step t x \<and>
   30 \<le> preview_step t x \<and> preview_step t x \<le> real_of_int WIDTH - 30"
  by (auto simp: preview_step_def Let_def py_clamp_def WIDTH_def tilt_threshold_def)

end
