(* ===== verification/Drawing.thy ===== *)
theory Drawing
  imports Motion
begin

text \<open>
  The vocabulary of the display lists: a pygame drawing call (\<open>fill\<close>,
  \<open>pygame.draw.rect\<close>, \<open>line\<close>, \<open>circle\<close>, \<open>polygon\<close>, the blit of a rendered text
  or of a surface with its own drawing) as a value of \<open>draw_op\<close>, colours as
  pygame's 3- or 4-tuples, and the extent a call can paint, used to state where a
  screen draws.  The calls themselves are pygame's; the lists of calls a method issues
  are modelled in \<open>Sprites\<close> and \<open>Render\<close>.
\<close>

datatype color = RGB int int int | RGBA int int int int

definition rgb_color :: "rgb \<Rightarrow> color" where
  "rgb_color c = (case c of (r, g, b) \<Rightarrow> RGB r g b)"

datatype draw_op =
    Fill color
  | Draw_Rect color "real \<times> real \<times> real \<times> real" int
  | Draw_Line color "int \<times> int" "int \<times> int" int
  | Draw_Circle color "int \<times> int" int
  | Draw_Polygon color "(real \<times> real) list" int
  | Blit_Text string color "int \<times> int" "int \<times> int"
  | Blit_Layer "int \<times> int" "int \<times> int" "draw_op list"

type_synonym text_size = "int \<Rightarrow> string \<Rightarrow> int \<times> int"

text \<open>
  Where a drawing call can paint: a box \<open>(x, y, w, h)\<close> contains a call's extent.  A
  line's extent is taken with its width on every side, a layer's is its surface (its own
  calls are clipped to it); a fill paints its whole target and is contained in no box.
\<close>

definition box_in :: "real \<times> real \<times> real \<times> real \<Rightarrow> real \<times> real \<times> real \<times> real \<Rightarrow> bool" where
  "box_in b B =
     (case b of (x, y, w, h) \<Rightarrow> case B of (X, Y, W, H) \<Rightarrow> X \<le> x \<and> Y \<le> y \<and> x + w \<le> X + W \<and> y + h \<le> Y + H)"

fun op_inside :: "real \<times> real \<times> real \<times> real \<Rightarrow> draw_op \<Rightarrow> bool" where
  "op_inside B (Fill c) = False"
| "op_inside B (Draw_Rect c r br) = box_in r B"
| "op_inside B (Draw_Line c (x1, y1) (x2, y2) w) =
     box_in (real_of_int (min x1 x2 - w), real_of_int (min y1 y2 - w),
             real_of_int (\<bar>x1 - x2\<bar> + 2 * w), real_of_int (\<bar>y1 - y2\<bar> + 2 * w)) B"
| "op_inside B (Draw_Circle c (x, y) r) =
     box_in (real_of_int (x - r), real_of_int (y - r), real_of_int (2 * r), real_of_int (2 * r)) B"
| "op_inside B (Draw_Polygon c ps w) = list_all (\<lambda>(x, y). box_in (x, y, 0, 0) B) ps"
| "op_inside B (Blit_Text s c (w, h) (x, y)) = box_in (real_of_int x, real_of_int y, real_of_int w, real_of_int h) B"
| "op_inside B (Blit_Layer (w, h) (x, y) ops) = box_in (real_of_int x, real_of_int y, real_of_int w, real_of_int h) B"

lemmas drawing_defs [model_defs] = rgb_color_def box_in_def

end
