(* ===== verification/Sprites.thy ===== *)
theory Sprites
  imports Drawing
begin

text \<open>
  The sprites of Game.py other than the ship: \<open>Particle\<close> (lines 114-135), \<open>Star\<close>
  (137-152), \<open>Enemy\<close> (216-253) and \<open>Bullet\<close> (255-269).  Positions held in a pygame
  \<open>Rect\<close> are C ints (\<open>c_int_of\<close> truncates a float assigned to them); the star's
  position is a plain Python number.  Every call of \<open>random\<close> is an explicit argument
  of the operation that makes it, so that a run is determined by its inputs; the
  predicates \<open>valid_enemy_draw\<close> and friends state the ranges the calls return.  A
  sprite's \<open>kill()\<close> is the value \<open>None\<close>.  The images are display lists of
  \<open>Drawing\<close>: a particle's is its colour and alpha, a star is drawn as a circle, an
  enemy's hexagon is redrawn by every update and kept in the state, a bullet's bar is
  the same for every bullet.
\<close>

subsection \<open>pygame \<open>Rect\<close> helpers\<close>

text \<open>\<open>get_rect(center=(x, y))\<close> and the \<open>centerx\<close>/\<open>bottom\<close> setters, with C's halving.\<close>

definition rect_centered :: "int \<Rightarrow> int \<Rightarrow> int \<Rightarrow> int \<Rightarrow> rect" where
  "rect_centered w h cx cy = \<lparr>rx = cx - w div 2, ry = cy - h div 2, rw = w, rh = h\<rparr>"

definition centerx :: "rect \<Rightarrow> int" where "centerx r = rx r + rw r div 2"
definition centery :: "rect \<Rightarrow> int" where "centery r = ry r + rh r div 2"
definition bottom :: "rect \<Rightarrow> int" where "bottom r = ry r + rh r"

text \<open>
  \<open>Rect.colliderect\<close> (pygame's \<open>_pg_do_rects_intersect\<close>): a rectangle of width or
  height 0 collides with nothing; otherwise the spans overlap on both axes, a negative
  size spanning to the left or above.
\<close>

definition span_overlap :: "int \<Rightarrow> int \<Rightarrow> int \<Rightarrow> int \<Rightarrow> bool" where
  "span_overlap a aw b bw =
     (min a (a + aw) < max b (b + bw) \<and> max a (a + aw) > min b (b + bw))"

definition colliderect :: "rect \<Rightarrow> rect \<Rightarrow> bool" where
  "colliderect a b =
     (rw a \<noteq> 0 \<and> rh a \<noteq> 0 \<and> rw b \<noteq> 0 \<and> rh b \<noteq> 0 \<and>
      span_overlap (rx a) (rw a) (rx b) (rw b) \<and> span_overlap (ry a) (rh a) (ry b) (rh b))"

subsection \<open>Particle\<close>

record particle =
  pa_rect :: rect
  original_life :: int
  life :: int
  vx :: real
  vy :: real
  alpha :: int
  pa_color :: rgb

text \<open>
  \<open>Particle.__init__\<close>: a 4x4 image filled with \<open>color\<close>, centred at \<open>(x, y)\<close>, fully
  opaque; the image is kept as its colour and alpha.
\<close>

definition particle_new :: "int \<Rightarrow> int \<Rightarrow> rgb \<Rightarrow> real \<Rightarrow> real \<Rightarrow> int \<Rightarrow> particle" where
  "particle_new x y color speed_x speed_y l =
     \<lparr>pa_rect = rect_centered 4 4 x y, original_life = l, life = l, vx = speed_x, vy = speed_y,
      alpha = 255, pa_color = color\<rparr>"

text \<open>\<open>Particle.update\<close>: move, age, and either die or fade.\<close>

definition particle_update :: "particle \<Rightarrow> particle option" where
  "particle_update p =
     (let r = pa_rect p;
          r1 = r\<lparr>rx := c_int_of (real_of_int (rx r) + vx p)\<rparr>;
          r2 = r1\<lparr>ry := c_int_of (real_of_int (ry r1) + vy p)\<rparr>;
          l = life p - 1 in
      if l \<le> 0 then None
      else Some (p\<lparr>pa_rect := r2, life := l,
                   alpha := c_int_of (real_of_int l / real_of_int (original_life p) * 255)\<rparr>))"

subsection \<open>Star\<close>

record star =
  st_x :: int
  st_y :: real
  st_speed :: real
  st_size :: int
  st_color :: rgb

text \<open>
  \<open>Star.__init__\<close> with its draws: \<open>randint(0, WIDTH)\<close>, \<open>randint(0, HEIGHT)\<close>,
  \<open>uniform(0.5, 3.0)\<close>, \<open>random.choice\<close> of three colours; the size is \<open>int(speed)\<close>.
\<close>

definition star_colors :: "rgb list" where
  "star_colors = [c_white, c_neon_cyan, (100, 100, 255)]"

definition star_new :: "int \<Rightarrow> int \<Rightarrow> real \<Rightarrow> rgb \<Rightarrow> star" where
  "star_new x y speed color =
     \<lparr>st_x = x, st_y = real_of_int y, st_speed = speed, st_size = c_int_of speed, st_color = color\<rparr>"

definition valid_star_draw :: "int \<Rightarrow> int \<Rightarrow> real \<Rightarrow> rgb \<Rightarrow> bool" where
  "valid_star_draw x y speed color =
     (0 \<le> x \<and> x \<le> WIDTH \<and> 0 \<le> y \<and> y \<le> HEIGHT \<and> 0.5 \<le> speed \<and> speed \<le> 3 \<and>
      color \<in> set star_colors)"

text \<open>\<open>Star.update\<close>; \<open>new_x\<close> is the \<open>randint(0, WIDTH)\<close> drawn when the star wraps.\<close>

definition star_update :: "int \<Rightarrow> star \<Rightarrow> star" where
  "star_update new_x s =
     (let y = st_y s + st_speed s in
      if y > real_of_int HEIGHT then s\<lparr>st_y := 0, st_x := new_x\<rparr> else s\<lparr>st_y := y\<rparr>)"

text \<open>\<open>Star.draw\<close>: a circle at \<open>(int(x), int(y))\<close> of radius \<open>size\<close>.\<close>

definition star_draw :: "star \<Rightarrow> draw_op" where
  "star_draw s = Draw_Circle (rgb_color (st_color s)) (st_x s, c_int_of (st_y s)) (st_size s)"

subsection \<open>Enemy\<close>

record enemy =
  e_rect :: rect
  e_size :: int
  rotation :: int
  rot_speed :: int
  speedy :: int
  e_color :: rgb
  e_image :: "draw_op list"

text \<open>
  The draws of \<open>reset_pos\<close> (lines 227-230): \<open>randrange(WIDTH - width)\<close>,
  \<open>randrange(-150, -50)\<close> and \<open>randrange(3, 7)\<close>.
\<close>

type_synonym enemy_draw = "int \<times> int \<times> int"

definition valid_enemy_draw :: "int \<Rightarrow> enemy_draw \<Rightarrow> bool" where
  "valid_enemy_draw w d =
     (case d of (x, y, sp) \<Rightarrow> 0 \<le> x \<and> x < WIDTH - w \<and> -150 \<le> y \<and> y < -50 \<and> 3 \<le> sp \<and> sp < 7)"

definition reset_pos :: "enemy_draw \<Rightarrow> enemy \<Rightarrow> enemy" where
  "reset_pos d e =
     (case d of (x, y, sp) \<Rightarrow> e\<lparr>e_rect := (e_rect e)\<lparr>rx := x, ry := y\<rparr>, speedy := sp\<rparr>)"

text \<open>
  \<open>Enemy.__init__\<close>: \<open>randint(30, 45)\<close> for the size, a blank \<open>size x size\<close> image and
  rectangle at the origin, \<open>reset_pos\<close>, rotation 0, \<open>choice([-3, 3])\<close> for the spin
  and \<open>choice([C_NEON_PINK, C_NEON_YELLOW])\<close> for the colour.
\<close>

definition enemy_colors :: "rgb list" where
  "enemy_colors = [c_neon_pink, c_neon_yellow]"

definition enemy_new :: "int \<Rightarrow> int \<Rightarrow> rgb \<Rightarrow> enemy_draw \<Rightarrow> enemy" where
  "enemy_new sz spin color d =
     reset_pos d \<lparr>e_rect = \<lparr>rx = 0, ry = 0, rw = sz, rh = sz\<rparr>, e_size = sz, rotation = 0,
                  rot_speed = spin, speedy = 0, e_color = color, e_image = []\<rparr>"

definition valid_enemy_new :: "int \<Rightarrow> int \<Rightarrow> rgb \<Rightarrow> enemy_draw \<Rightarrow> bool" where
  "valid_enemy_new sz spin color d =
     (30 \<le> sz \<and> sz \<le> 45 \<and> spin \<in> {-3, 3} \<and> color \<in> set enemy_colors \<and> valid_enemy_draw sz d)"

text \<open>
  The image \<open>Enemy.update\<close> draws (lines 236-250): the cleared surface, a hexagon of
  radius \<open>size // 2 - 2\<close> around the centre turned by \<open>rotation\<close> degrees
  (\<open>math.radians\<close>, \<open>cos\<close>, \<open>sin\<close> over the reals), and a white dot.
\<close>

definition enemy_image :: "enemy \<Rightarrow> draw_op list" where
  "enemy_image e =
     (let center = e_size e div 2;
          radius = e_size e div 2 - 2;
          points = map (\<lambda>i. let ang_rad = real_of_int (rotation e + int i * 60) * pi / 180 in
                              (real_of_int center + real_of_int radius * cos ang_rad,
                               real_of_int center + real_of_int radius * sin ang_rad)) [0..<6] in
      [Fill (RGBA 0 0 0 0), Draw_Polygon (rgb_color (e_color e)) points 2,
       Draw_Circle (rgb_color c_white) (center, center) 4])"

text \<open>
  \<open>Enemy.update\<close>: fall, spin (Python's \<open>%\<close> is HOL's \<open>mod\<close> on \<open>int\<close>), redraw the
  image, and \<open>reset_pos\<close> with the draw \<open>d\<close> once the top is more than 10 pixels below
  the screen.
\<close>

definition enemy_update :: "enemy_draw \<Rightarrow> enemy \<Rightarrow> enemy" where
  "enemy_update d e =
     (let e1 = e\<lparr>e_rect := (e_rect e)\<lparr>ry := ry (e_rect e) + speedy e\<rparr>,
                 rotation := (rotation e + rot_speed e) mod 360\<rparr>;
          e2 = e1\<lparr>e_image := enemy_image e1\<rparr> in
      if ry (e_rect e2) > HEIGHT + 10 then reset_pos d e2 else e2)"

subsection \<open>Bullet\<close>

record bullet =
  b_rect :: rect
  b_speedy :: int

text \<open>
  \<open>Bullet.__init__\<close>: a 6x20 image (a green rounded bar with a white core, the same
  for every bullet) with its bottom at \<open>y\<close> and centred on \<open>x\<close>.
\<close>

definition bullet_image :: "draw_op list" where
  "bullet_image =
     [Draw_Rect (rgb_color c_neon_green) (0, 0, 6, 20) 3, Draw_Rect (rgb_color c_white) (2, 2, 2, 16) 1]"

definition bullet_new :: "int \<Rightarrow> int \<Rightarrow> bullet" where
  "bullet_new x y =
     \<lparr>b_rect = \<lparr>rx = x - 6 div 2, ry = y - 20, rw = 6, rh = 20\<rparr>, b_speedy = -12\<rparr>"

definition bullet_update :: "bullet \<Rightarrow> bullet option" where
  "bullet_update b =
     (let b1 = b\<lparr>b_rect := (b_rect b)\<lparr>ry := ry (b_rect b) + b_speedy b\<rparr>\<rparr> in
      if bottom (b_rect b1) < 0 then None else Some b1)"

text \<open>
  How many calls of \<open>Particle.update\<close> a particle takes until it is killed: the
  repeated update of \<open>all_sprites.update()\<close> (line 472) seen from one particle.  Its
  termination is the argument that the fading loop of a particle ends.
\<close>

function particle_lifetime :: "particle \<Rightarrow> nat" where
  "particle_lifetime p =
     (case particle_update p of None \<Rightarrow> 1 | Some q \<Rightarrow> Suc (particle_lifetime q))"
  by pat_completeness auto

termination
  by (relation "measure (\<lambda>p. nat (life p))")
     (auto simp: particle_update_def Let_def split: if_splits)

declare particle_lifetime.simps [simp del]

text \<open>
  The shape every live sprite has in a well-formed game: a particle between its birth
  and its death with a life of 20 or 30 and an alpha in range, a bullet of pygame size
  6x20 going up whose bottom is still on or below the top edge, a star on the screen
  with its speed in the drawn range.
\<close>

definition particle_wf :: "particle \<Rightarrow> bool" where
  "particle_wf p = (0 < life p \<and> life p \<le> original_life p \<and> original_life p \<in> {20, 30} \<and>
                    0 \<le> alpha p \<and> alpha p \<le> 255)"

definition bullet_wf :: "bullet \<Rightarrow> bool" where
  "bullet_wf b = (rw (b_rect b) = 6 \<and> rh (b_rect b) = 20 \<and> b_speedy b = -12 \<and> 0 \<le> bottom (b_rect b))"

definition star_wf :: "star \<Rightarrow> bool" where
  "star_wf s = (0 \<le> st_x s \<and> st_x s \<le> WIDTH \<and> 0 \<le> st_y s \<and> st_y s \<le> real_of_int HEIGHT \<and>
                0.5 \<le> st_speed s \<and> st_speed s \<le> 3 \<and> st_size s = c_int_of (st_speed s) \<and>
                st_color s \<in> set star_colors)"

text \<open>What every enemy satisfies when the draws are in their ranges.\<close>

definition enemy_inv :: "enemy \<Rightarrow> bool" where
  "enemy_inv e = (rw (e_rect e) = e_size e \<and> 0 \<le> rx (e_rect e) \<and> rx (e_rect e) < WIDTH - e_size e \<and>
                  ry (e_rect e) \<le> HEIGHT + 10 \<and> 0 \<le> rotation e \<and> rotation e < 360 \<and>
                  3 \<le> speedy e \<and> speedy e < 7 \<and> e_color e \<in> set enemy_colors)"

lemmas sprite_defs [model_defs] = rect_centered_def centerx_def centery_def bottom_def
  span_overlap_def colliderect_def particle_new_def particle_update_def star_colors_def star_new_def star_update_def
  star_draw_def reset_pos_def enemy_colors_def enemy_new_def enemy_image_def enemy_update_def bullet_image_def
  bullet_new_def bullet_update_def

subsection \<open>Facts about the sprites\<close>

lemma particle_update_Some:
  "particle_update p = Some q \<Longrightarrow> life q = life p - 1 \<and> 0 < life q \<and> original_life q = original_life p \<and>
     vx q = vx p \<and> vy q = vy p"
  by (auto simp: particle_update_def Let_def split: if_splits)

lemma particle_update_None: "particle_update p = None \<longleftrightarrow> life p \<le> 1"
  by (simp add: particle_update_def Let_def)

lemma particle_alpha_range:
  assumes "particle_update p = Some q" "life p \<le> original_life p"
  shows "0 \<le> alpha q \<and> alpha q \<le> 255"
proof -
  have l: "0 < life p - 1" "life p - 1 < original_life p" using assms
    by (auto simp: particle_update_def Let_def split: if_splits)
  let ?f = "real_of_int (life p - 1) / real_of_int (original_life p) * 255"
  have "0 \<le> ?f" using l by simp
  moreover have "?f \<le> 255"
  proof -
    have "real_of_int (life p - 1) / real_of_int (original_life p) \<le> 1" using l by simp
    then have "real_of_int (life p - 1) / real_of_int (original_life p) * 255 \<le> 1 * 255"
      by (rule mult_right_mono) simp
    then show ?thesis by simp
  qed
  moreover have "alpha q = c_int_of ?f" using assms by (auto simp: particle_update_def Let_def split: if_splits)
  ultimately show ?thesis by (simp add: c_int_of_nonneg le_floor_iff floor_le_iff)
qed

lemma particle_drift:
  assumes "1 \<le> rx (pa_rect p)"
  shows "(-1 < vx p \<and> vx p < 0 \<longrightarrow> c_int_of (real_of_int (rx (pa_rect p)) + vx p) = rx (pa_rect p) - 1) \<and>
         (0 \<le> vx p \<and> vx p < 1 \<longrightarrow> c_int_of (real_of_int (rx (pa_rect p)) + vx p) = rx (pa_rect p))"
  using assms by (auto simp: c_int_of_nonneg floor_eq_iff)

lemma star_update_y:
  assumes "0 \<le> st_y s" "st_y s \<le> real_of_int HEIGHT" "0 \<le> st_speed s"
  shows "0 \<le> st_y (star_update x s) \<and> st_y (star_update x s) \<le> real_of_int HEIGHT \<and>
         st_speed (star_update x s) = st_speed s"
  using assms by (simp add: star_update_def Let_def)

lemma reset_pos_inv:
  "valid_enemy_draw (e_size e) d \<Longrightarrow> rw (e_rect e) = e_size e \<Longrightarrow> 0 \<le> rotation e \<Longrightarrow> rotation e < 360 \<Longrightarrow>
   e_color e \<in> set enemy_colors \<Longrightarrow> enemy_inv (reset_pos d e)"
  by (auto simp: reset_pos_def valid_enemy_draw_def enemy_inv_def HEIGHT_def split: prod.splits)

lemma enemy_new_inv: "valid_enemy_new sz spin c d \<Longrightarrow> enemy_inv (enemy_new sz spin c d)"
  unfolding enemy_new_def valid_enemy_new_def by (rule reset_pos_inv) simp_all

lemma enemy_update_inv:
  assumes "enemy_inv e" "valid_enemy_draw (e_size e) d"
  shows "enemy_inv (enemy_update d e)"
proof (cases "ry (e_rect e) + speedy e > HEIGHT + 10")
  case True
  let ?e0 = "e\<lparr>e_rect := (e_rect e)\<lparr>ry := ry (e_rect e) + speedy e\<rparr>,
                rotation := (rotation e + rot_speed e) mod 360\<rparr>"
  let ?e1 = "?e0\<lparr>e_image := enemy_image ?e0\<rparr>"
  have "enemy_update d e = reset_pos d ?e1" using True by (simp add: enemy_update_def Let_def)
  moreover have "enemy_inv (reset_pos d ?e1)"
    using assms by (intro reset_pos_inv) (simp_all add: enemy_inv_def)
  ultimately show ?thesis by simp
next
  case False
  then show ?thesis using assms by (simp add: enemy_update_def Let_def enemy_inv_def)
qed

lemma bullet_update_Some:
  "bullet_update b = Some b' \<Longrightarrow> b_rect b' = (b_rect b)\<lparr>ry := ry (b_rect b) + b_speedy b\<rparr> \<and> b_speedy b' = b_speedy b"
  by (auto simp: bullet_update_def Let_def split: if_splits)

lemma particle_new_wf: "l \<in> {20, 30} \<Longrightarrow> particle_wf (particle_new x y c sx sy l)"
  by (auto simp: particle_wf_def particle_new_def)

lemma particle_update_wf: "particle_wf p \<Longrightarrow> particle_update p = Some q \<Longrightarrow> particle_wf q"
  using particle_update_Some [of p q] particle_alpha_range [of p q] by (auto simp: particle_wf_def)

lemma bullet_new_fields: "rw (b_rect (bullet_new x y)) = 6 \<and> rh (b_rect (bullet_new x y)) = 20 \<and> b_speedy (bullet_new x y) = -12"
  by (simp add: bullet_new_def)

lemma bullet_update_wf:
  "rw (b_rect b) = 6 \<Longrightarrow> rh (b_rect b) = 20 \<Longrightarrow> b_speedy b = -12 \<Longrightarrow> bullet_update b = Some b' \<Longrightarrow> bullet_wf b'"
  by (auto simp: bullet_update_def bullet_wf_def Let_def bottom_def split: if_splits)

lemma star_update_wf: "star_wf s \<Longrightarrow> 0 \<le> x \<Longrightarrow> x \<le> WIDTH \<Longrightarrow> star_wf (star_update x s)"
  by (auto simp: star_wf_def star_update_def Let_def)

subsection \<open>Properties of the sprites\<close>

text \<open>
  Claim C33 (termination): the update loop of a particle ends: a particle is killed by
  exactly the \<open>max 1 life\<close>-th call of \<open>Particle.update\<close> and survives every earlier one.
\<close>

theorem particle_lifetime_eq: "particle_lifetime p = max 1 (nat (life p))"
proof (induction p rule: particle_lifetime.induct)
  case (1 p)
  show ?case
  proof (cases "particle_update p")
    case None
    then have "life p \<le> 1" by (simp add: particle_update_None)
    with None show ?thesis by (simp add: particle_lifetime.simps)
  next
    case (Some q)
    then have "life q = life p - 1" "0 < life q" using particle_update_Some by blast+
    with Some "1.IH" show ?thesis by (simp add: particle_lifetime.simps)
  qed
qed

text \<open>
  Claim C34 (bounds): \<open>Star.draw\<close> of a well-formed star paints a circle centred on the
  screen with a radius of at most 3; the radius is 0, and pygame draws nothing, exactly
  when the star's speed is below 1.
\<close>

theorem star_draw_on_screen:
  assumes "star_wf s"
  shows "\<exists>c x y r. star_draw s = Draw_Circle c (x, y) r \<and> 0 \<le> x \<and> x \<le> WIDTH \<and> 0 \<le> y \<and> y \<le> HEIGHT \<and>
           0 \<le> r \<and> r \<le> 3 \<and> (r = 0 \<longleftrightarrow> st_speed s < 1)"
proof -
  have wf: "0 \<le> st_x s" "st_x s \<le> WIDTH" "0 \<le> st_y s" "st_y s \<le> real_of_int HEIGHT"
      "0.5 \<le> st_speed s" "st_speed s \<le> 3" "st_size s = c_int_of (st_speed s)"
    using assms by (simp_all add: star_wf_def)
  have y: "0 \<le> c_int_of (st_y s) \<and> c_int_of (st_y s) \<le> HEIGHT"
    using wf(3,4) by (simp add: c_int_of_def floor_le_iff)
  have r: "0 \<le> st_size s \<and> st_size s \<le> 3 \<and> (st_size s = 0 \<longleftrightarrow> st_speed s < 1)"
    using wf(5-7) by (auto simp: c_int_of_def floor_eq_iff le_floor_iff floor_le_iff)
  show ?thesis using wf(1,2) y r by (simp add: star_draw_def)
qed

theorem star_draw_on_screen_witness:
  "star_wf (star_new 10 20 0.7 c_white) \<and>
   (\<exists>c x y r. star_draw (star_new 10 20 0.7 c_white) = Draw_Circle c (x, y) r \<and> 0 \<le> x \<and> x \<le> WIDTH \<and>
      0 \<le> y \<and> y \<le> HEIGHT \<and> 0 \<le> r \<and> r \<le> 3 \<and> (r = 0 \<longleftrightarrow> st_speed (star_new 10 20 0.7 c_white) < 1))"
proof -
  have h: "star_wf (star_new 10 20 0.7 c_white)"
    by (simp add: star_wf_def star_new_def star_colors_def WIDTH_def HEIGHT_def)
  show ?thesis using star_draw_on_screen [OF h] h by blast
qed

end
