(* ===== verification/Hud.thy ===== *)
theory Hud
  imports Py_Values Motion
begin

text \<open>
  The heads-up display of Game.py, \<open>draw_hud\<close> (lines 284-328), as the values it draws:
  the tilt gauge (the bar's rectangle and colour computed from the control value) and
  the score and clock texts, formatted with Python's \<open>{:05d}\<close> and \<open>{:02d}\<close>.  The
  drawing calls themselves are pygame I/O and are not modelled; \<open>hud_bar\<close> returns the
  rectangle passed to \<open>pygame.draw.rect\<close>.  For the clock we also give a reader
  \<open>read_clock\<close>, built on the decimal reader \<open>digits_val\<close> of \<open>Py_Values\<close>, to state
  that the text shows the elapsed time.
\<close>

subsection \<open>Python's integer formatting\<close>

text \<open>\<open>str(n)\<close> for \<open>n \<ge> 0\<close>: the decimal digits, most significant first.\<close>

definition digit_char :: "nat \<Rightarrow> char" where
  "digit_char d = ''0123456789'' ! d"

fun py_digits :: "nat \<Rightarrow> string" where
  "py_digits n =
     (if n < 10 then [digit_char n] else py_digits (n div 10) @ [digit_char (n mod 10)])"

declare py_digits.simps [simp del]

text \<open>
  \<open>format(n, '0wd')\<close>: the sign, then the digits padded with zeros so that sign and
  digits take at least \<open>w\<close> characters.
\<close>

definition py_format_0d :: "nat \<Rightarrow> int \<Rightarrow> string" where
  "py_format_0d w n =
     (let sign = (if n < 0 then ''-'' else []); ds = py_digits (nat \<bar>n\<bar>) in
      sign @ replicate (w - length sign - length ds) (CHR ''0'') @ ds)"

subsection \<open>\<open>draw_hud\<close>\<close>

definition dashboard_h :: int where "dashboard_h = 80"
definition gauge_w :: int where "gauge_w = 300"
definition gauge_h :: int where "gauge_h = 10"

text \<open>Lines 292, 299-302: the gauge's position.\<close>

definition hud_center_y :: int where "hud_center_y = HEIGHT - dashboard_h div 2"
definition gauge_x :: int where "gauge_x = WIDTH div 2 - gauge_w div 2"
definition gauge_y :: int where "gauge_y = hud_center_y + 15"

datatype hud_color = C_NEON_GREEN | C_NEON_PINK

definition rgb_of :: "hud_color \<Rightarrow> rgb" where
  "rgb_of c = (case c of C_NEON_GREEN \<Rightarrow> c_neon_green | C_NEON_PINK \<Rightarrow> c_neon_pink)"

text \<open>
  Lines 309-319: the bar grows from the centre marker, to the right for a positive
  control value and to the left otherwise; its colour depends on the unclamped value.
\<close>

definition hud_bar :: "real \<Rightarrow> (real \<times> real \<times> real \<times> real) \<times> hud_color" where
  "hud_bar tilt =
     (let tilt_clamped = py_clamp (-10) 10 tilt;
          fill_pct = tilt_clamped / 10;
          bar_len = \<bar>fill_pct\<bar> * real_of_int (gauge_w div 2);
          color = (if \<bar>tilt\<bar> < 3 then C_NEON_GREEN else C_NEON_PINK) in
      if fill_pct > 0 then
        ((real_of_int (WIDTH div 2), real_of_int gauge_y, bar_len, real_of_int gauge_h), color)
      else
        ((real_of_int (WIDTH div 2) - bar_len, real_of_int gauge_y, bar_len, real_of_int gauge_h), color))"

text \<open>Lines 296 and 324-328: the score and clock texts.\<close>

definition score_text :: "int \<Rightarrow> string" where
  "score_text score = py_format_0d 5 score"

definition clock_text :: "int \<Rightarrow> string" where
  "clock_text elapsed_time =
     (let minutes = elapsed_time div 60; seconds = elapsed_time mod 60 in
      py_format_0d 2 minutes @ '':'' @ py_format_0d 2 seconds)"

lemmas hud_defs [model_defs] = py_digits.simps digit_char_def py_format_0d_def dashboard_h_def gauge_w_def gauge_h_def
  hud_center_y_def gauge_x_def gauge_y_def rgb_of_def hud_bar_def score_text_def clock_text_def

text \<open>Reading a clock text back: minutes and seconds as unsigned decimals.\<close>

definition read_clock :: "string \<Rightarrow> int option" where
  "read_clock s =
     (let m = takeWhile (\<lambda>c. c \<noteq> CHR '':'') s; r = dropWhile (\<lambda>c. c \<noteq> CHR '':'') s in
      if m \<noteq> [] \<and> list_all is_digit m \<and> r \<noteq> [] \<and> tl r \<noteq> [] \<and> list_all is_digit (tl r)
      then Some (60 * int (digits_val m) + int (digits_val (tl r)))
      else None)"

subsection \<open>Facts about the formatting\<close>

lemma digit_cases: "(d::nat) < 10 \<Longrightarrow> d = 0 \<or> d = 1 \<or> d = 2 \<or> d = 3 \<or> d = 4 \<or> d = 5 \<or> d = 6 \<or> d = 7 \<or> d = 8 \<or> d = 9"
  by arith

lemma digit_char_of: "d < 10 \<Longrightarrow> of_char (digit_char d) = 48 + d"
  by (drule digit_cases) (auto simp: digit_char_def)

lemma digit_char_is_digit: "d < 10 \<Longrightarrow> is_digit (digit_char d)"
  by (simp add: is_digit_def digit_char_of)

lemma digit_char_not_colon: "d < 10 \<Longrightarrow> digit_char d \<noteq> CHR '':''"
proof
  assume "d < 10" "digit_char d = CHR '':''"
  then have "48 + d = of_char (CHR '':'')" using digit_char_of by metis
  with \<open>d < 10\<close> show False by simp
qed

lemma py_digits_ne [simp]: "py_digits n \<noteq> []"
  by (induction n rule: py_digits.induct) (simp add: py_digits.simps)

lemma py_digits_is_digit: "list_all is_digit (py_digits n)"
  by (induction n rule: py_digits.induct) (simp add: py_digits.simps digit_char_is_digit)

lemma py_digits_no_colon: "CHR '':'' \<notin> set (py_digits n)"
  by (induction n rule: py_digits.induct) (auto simp: py_digits.simps digit_char_not_colon dest: sym)

lemma digits_val_snoc: "digits_val (ds @ [c]) = 10 * digits_val ds + (of_char c - 48)"
  by (simp add: digits_val_def)

lemma digits_val_py_digits: "digits_val (py_digits n) = n"
  by (induction n rule: py_digits.induct) (simp add: py_digits.simps digits_val_snoc digit_char_of digits_val_def)

lemma digits_val_zeros: "digits_val (replicate k (CHR ''0'') @ ds) = digits_val ds"
  by (induction k) (simp_all add: digits_val_def)

lemma colon_not_digit: "\<not> is_digit (CHR '':'')"
  by (simp add: is_digit_def)

lemma zeros_is_digit: "list_all is_digit (replicate k (CHR ''0''))"
  by (simp add: is_digit_def list_all_iff)

lemma py_format_0d_nonneg:
  "0 \<le> n \<Longrightarrow> py_format_0d w n = replicate (w - length (py_digits (nat n))) (CHR ''0'') @ py_digits (nat n)"
  by (simp add: py_format_0d_def Let_def)

lemma py_format_0d_digits:
  assumes "0 \<le> n"
  shows "py_format_0d w n \<noteq> [] \<and> list_all is_digit (py_format_0d w n) \<and>
         digits_val (py_format_0d w n) = nat n"
  using assms by (simp add: py_format_0d_nonneg zeros_is_digit py_digits_is_digit
                   digits_val_zeros digits_val_py_digits)

lemma read_clock_append:
  assumes "m \<noteq> []" "list_all is_digit m" "s \<noteq> []" "list_all is_digit s"
  shows "read_clock (m @ CHR '':'' # s) = Some (60 * int (digits_val m) + int (digits_val s))"
proof -
  have nc: "\<forall>c\<in>set m. c \<noteq> CHR '':''" using assms(2) colon_not_digit by (auto simp: list_all_iff)
  then have "takeWhile (\<lambda>c. c \<noteq> CHR '':'') (m @ CHR '':'' # s) = m"
    by (simp add: takeWhile_append2)
  moreover have "dropWhile (\<lambda>c. c \<noteq> CHR '':'') (m @ CHR '':'' # s) = CHR '':'' # s"
    using nc by (simp add: dropWhile_append2)
  ultimately show ?thesis using assms by (simp add: read_clock_def Let_def)
qed

lemma clock_text_negative: "clock_text (-1) = ''-1:59''"
  by (simp add: clock_text_def py_format_0d_def py_digits.simps digit_char_def)

subsection \<open>Facts about the gauge\<close>

text \<open>The bar stays inside the gauge background and grows from the centre marker.\<close>

lemma hud_bar_in_gauge:
  assumes "hud_bar tilt = ((x, y, w, h), c)"
  shows "real_of_int gauge_x \<le> x \<and> x + w \<le> real_of_int (gauge_x + gauge_w) \<and> 0 \<le> w \<and>
         w = \<bar>py_clamp (-10) 10 tilt\<bar> * 15 \<and>
         (0 < tilt \<longrightarrow> x = real_of_int (WIDTH div 2)) \<and> (tilt \<le> 0 \<longrightarrow> x + w = real_of_int (WIDTH div 2))"
proof -
  have r: "-10 \<le> py_clamp (-10) 10 tilt \<and> py_clamp (-10) 10 tilt \<le> 10" by (rule py_clamp_range) simp
  have p: "0 < py_clamp (-10) 10 tilt \<longleftrightarrow> 0 < tilt" by (auto simp: py_clamp_def)
  show ?thesis using assms r p
    by (auto simp: hud_bar_def Let_def gauge_x_def gauge_w_def WIDTH_def split: if_splits)
qed

subsection \<open>Properties of the display\<close>

text \<open>
  Claim C32 (roundtrip): for every non-negative elapsed time the clock text drawn by
  \<open>draw_hud\<close> reads back as that time: minutes and seconds are zero-padded decimals
  separated by a colon, and \<open>60 * minutes + seconds\<close> is the elapsed time.
\<close>

theorem clock_text_roundtrip:
  assumes "0 \<le> elapsed_time"
  shows "read_clock (clock_text elapsed_time) = Some elapsed_time"
proof -
  define m where "m = elapsed_time div 60"
  define sec where "sec = elapsed_time mod 60"
  have m: "0 \<le> m" and s: "0 \<le> sec" using assms by (simp_all add: m_def sec_def)
  have ct: "clock_text elapsed_time = py_format_0d 2 m @ CHR '':'' # py_format_0d 2 sec"
    by (simp add: clock_text_def m_def sec_def)
  have "read_clock (clock_text elapsed_time) = Some (60 * int (nat m) + int (nat sec))"
  proof -
    note dm = py_format_0d_digits [OF m, of 2] and ds = py_format_0d_digits [OF s, of 2]
    have "read_clock (clock_text elapsed_time) = Some (60 * int (digits_val (py_format_0d 2 m)) +
                                                   int (digits_val (py_format_0d 2 sec)))"
      unfolding ct using dm ds by (intro read_clock_append) simp_all
    then show ?thesis using dm ds by simp
  qed
  also have "60 * int (nat m) + int (nat sec) = elapsed_time"
    using m s by (simp add: m_def sec_def)
  finally show ?thesis .
qed

theorem clock_text_roundtrip_witness:
  "clock_text 125 = ''02:05'' \<and> read_clock (clock_text 125) = Some 125"
  using clock_text_roundtrip [of 125]
  by (simp add: clock_text_def py_format_0d_def py_digits.simps digit_char_def)

end
