(* ===== verification/Game_Loop.thy ===== *)
theory Game_Loop
  imports Sprites Hud
begin

text \<open>
  The game proper, \<open>main\<close> of Game.py (lines 425-505): the setup of the sprite groups
  and one iteration of \<open>while running\<close> as the function \<open>game_frame\<close>.  The state is
  the record \<open>game\<close>: the ship, the groups \<open>mobs\<close>, \<open>bullets\<close> and \<open>particles\<close> as
  lists in insertion order, the stars, \<open>score\<close>, \<open>start_time\<close>, \<open>last_shot\<close> and
  \<open>running\<close>.  \<open>all_sprites\<close> is their union; since every sprite's \<open>update\<close> reads
  only its own fields, updating the lists one after the other is the same as updating
  \<open>all_sprites\<close> in its insertion order.  An iteration's inputs are the clock reading,
  whether a \<open>QUIT\<close> event arrived, and the values of the \<open>random\<close> calls, indexed
  by the sprite they are drawn for (\<open>frame_input\<close>); the control value read by
  \<open>Player.update\<close> is a separate argument, because it comes from the listener thread.
  \<open>groupcollide\<close> and \<open>spritecollide\<close> are pygame's algorithms over \<open>colliderect\<close>.
\<close>

record game =
  g_player :: player
  g_mobs :: "enemy list"
  g_bullets :: "bullet list"
  g_particles :: "particle list"
  g_stars :: "star list"
  score :: int
  start_time :: real
  last_shot :: real
  running :: bool

text \<open>
  Lines 426-445, with the draws of the six \<open>Enemy()\<close> and fifty \<open>Star()\<close> calls
  (size, spin and \<open>reset_pos\<close> draw; x, y and speed).
\<close>

definition game_init ::
  "real \<Rightarrow> (nat \<Rightarrow> int \<times> int \<times> rgb \<times> enemy_draw) \<Rightarrow> (nat \<Rightarrow> int \<times> int \<times> real \<times> rgb) \<Rightarrow> game" where
  "game_init t0 enemy_draws star_draws =
     \<lparr>g_player = player_init,
      g_mobs = map (\<lambda>i. case enemy_draws i of (sz, spin, c, d) \<Rightarrow> enemy_new sz spin c d) [0..<6],
      g_bullets = [], g_particles = [],
      g_stars = map (\<lambda>i. case star_draws i of (x, y, sp, c) \<Rightarrow> star_new x y sp c) [0..<50],
      score = 0, start_time = t0, last_shot = 0, running = True\<rparr>"

record frame_input =
  fi_now :: real
  fi_quit :: bool
  fi_engine :: "(real \<times> real) option"
  fi_star_x :: "nat \<Rightarrow> int"
  fi_reset :: "nat \<Rightarrow> enemy_draw"
  fi_spark :: "nat \<Rightarrow> nat \<Rightarrow> real \<times> real"
  fi_spawn :: "nat \<Rightarrow> int \<times> int \<times> rgb \<times> enemy_draw"

text \<open>
  \<open>pygame.sprite.groupcollide(mobs, bullets, True, True)\<close> (line 475): for each enemy
  in turn, the bullets still alive that collide with it are killed, and the enemy is
  killed (it is a hit) when there was at least one.  Returned: the surviving enemies,
  the hits in order, and the remaining bullets.
\<close>

fun group_collide :: "enemy list \<Rightarrow> bullet list \<Rightarrow> enemy list \<times> enemy list \<times> bullet list" where
  "group_collide [] bs = ([], [], bs)"
| "group_collide (m # ms) bs =
     (let crashed = filter (\<lambda>b. colliderect (e_rect m) (b_rect b)) bs in
      if crashed = [] then
        (case group_collide ms bs of (surv, hits, rest) \<Rightarrow> (m # surv, hits, rest))
      else
        (case group_collide ms (filter (\<lambda>b. \<not> colliderect (e_rect m) (b_rect b)) bs) of
           (surv, hits, rest) \<Rightarrow> (surv, m # hits, rest)))"

text \<open>\<open>pygame.sprite.spritecollide(player, mobs, False)\<close> as a truth value (line 490).\<close>

definition sprite_collides :: "rect \<Rightarrow> enemy list \<Rightarrow> bool" where
  "sprite_collides r ms = list_ex (\<lambda>m. colliderect r (e_rect m)) ms"

text \<open>Lines 476-483: fifteen sparks of life 30 in the colour of the \<open>i\<close>-th hit, at its centre.\<close>

definition explosion :: "(nat \<Rightarrow> nat \<Rightarrow> real \<times> real) \<Rightarrow> nat \<Rightarrow> enemy \<Rightarrow> particle list" where
  "explosion spark i hit =
     map (\<lambda>j. particle_new (centerx (e_rect hit)) (centery (e_rect hit)) (e_color hit)
                (fst (spark i j)) (snd (spark i j)) 30) [0..<15]"

text \<open>
  One iteration of \<open>while running\<close> (lines 448-505, drawing apart): quit events,
  auto-fire, the engine particle, the updates, the bullet hits with their score,
  explosions and replacement enemies, and the crash test.
\<close>

definition game_frame3 ::
  "(int \<Rightarrow> int \<times> int) \<Rightarrow> frame_input \<Rightarrow> tilt_reads \<Rightarrow> game \<Rightarrow> game" where
  "game_frame3 rot_size f rd g =
     (let now = fi_now f;
          run0 = running g \<and> \<not> fi_quit f;
          pr = p_rect (g_player g);
          shoot = now - last_shot g > 0.2;
          bs0 = g_bullets g @ (if shoot then [bullet_new (centerx pr) (ry pr)] else []);
          last = (if shoot then now else last_shot g);
          ps0 = g_particles g @
                  (case fi_engine f of None \<Rightarrow> []
                   | Some (sx, sy) \<Rightarrow> [particle_new (centerx pr) (bottom pr - 5) c_neon_cyan sx sy 20]);
          stars = map (\<lambda>(i, s). star_update (fi_star_x f i) s) (enumerate 0 (g_stars g));
          pl = player_update3 rot_size rd (g_player g);
          ms1 = map (\<lambda>(i, m). enemy_update (fi_reset f i) m) (enumerate 0 (g_mobs g));
          bs1 = List.map_filter bullet_update bs0;
          ps1 = List.map_filter particle_update ps0;
          (surv, hits, bs2) = group_collide ms1 bs1;
          sparks = concat (map (\<lambda>(i, h). explosion (fi_spark f) i h) (enumerate 0 hits));
          spawned = map (\<lambda>i. case fi_spawn f i of (sz, spin, c, d) \<Rightarrow> enemy_new sz spin c d)
                      [0..<length hits];
          ms2 = surv @ spawned in
      g\<lparr>g_player := pl, g_mobs := ms2, g_bullets := bs2, g_particles := ps1 @ sparks,
        g_stars := stars, score := score g + 100 * int (length hits), last_shot := last,
        running := (run0 \<and> \<not> sprite_collides (p_rect pl) ms2)\<rparr>)"

text \<open>A frame during which \<open>current_tilt\<close> does not change: three equal readings.\<close>

definition game_frame ::
  "(int \<Rightarrow> int \<times> int) \<Rightarrow> frame_input \<Rightarrow> tilt \<Rightarrow> game \<Rightarrow> game" where
  "game_frame rot_size f current_tilt g = game_frame3 rot_size f (current_tilt, current_tilt, current_tilt) g"

text \<open>
  The loop: frames are taken while \<open>running\<close> holds; afterwards the game-over screen
  is shown and the state no longer changes.  Each frame comes with the control value
  its \<open>Player.update\<close> reads.
\<close>

definition game_run :: "(int \<Rightarrow> int \<times> int) \<Rightarrow> (frame_input \<times> tilt) list \<Rightarrow> game \<Rightarrow> game" where
  "game_run rot_size fs g =
     foldl (\<lambda>g (f, t). if running g then game_frame rot_size f t g else g) g fs"

definition game_run3 :: "(int \<Rightarrow> int \<times> int) \<Rightarrow> (frame_input \<times> tilt_reads) list \<Rightarrow> game \<Rightarrow> game" where
  "game_run3 rot_size fs g =
     foldl (\<lambda>g (f, rd). if running g then game_frame3 rot_size f rd g else g) g fs"

text \<open>
  What the HUD of a frame shows (lines 504-505): the score, \<open>int(now - start_time)\<close>
  as a clock, and the gauge for the control value read at drawing time.
\<close>

definition frame_hud :: "frame_input \<Rightarrow> tilt \<Rightarrow> game \<Rightarrow> string \<times> string \<times> ((real \<times> real \<times> real \<times> real) \<times> hud_color)" where
  "frame_hud f current_tilt g =
     (score_text (score g), clock_text (c_int_of (fi_now f - start_time g)), hud_bar current_tilt)"

text \<open>
  A well-formed game state: the ship on the screen with its bank angle in range, and
  every enemy, bullet, particle and star of the shape \<open>Sprites\<close> describes.  A frame's
  draws are valid when the \<open>random\<close> calls return values in their ranges.
\<close>

definition game_wf :: "game \<Rightarrow> bool" where
  "game_wf g =
     (on_screen (p_rect (g_player g)) \<and> -25 \<le> bank_angle (g_player g) \<and> bank_angle (g_player g) \<le> 25 \<and>
      list_all enemy_inv (g_mobs g) \<and> list_all bullet_wf (g_bullets g) \<and>
      list_all particle_wf (g_particles g) \<and> list_all star_wf (g_stars g))"

definition valid_frame :: "frame_input \<Rightarrow> game \<Rightarrow> bool" where
  "valid_frame f g =
     (list_all (\<lambda>i. valid_enemy_draw (e_size (g_mobs g ! i)) (fi_reset f i)) [0..<length (g_mobs g)] \<and>
      list_all (\<lambda>i. case fi_spawn f i of (sz, spin, c, d) \<Rightarrow> valid_enemy_new sz spin c d) [0..<length (g_mobs g)] \<and>
      list_all (\<lambda>i. 0 \<le> fi_star_x f i \<and> fi_star_x f i \<le> WIDTH) [0..<length (g_stars g)])"

lemmas game_defs [model_defs] = game_init_def sprite_collides_def explosion_def game_frame3_def game_frame_def
  game_run_def game_run3_def frame_hud_def

subsection \<open>Facts about the game loop\<close>

lemma game_frame_eq:
  "game_frame rot_size f current_tilt g =
     (let now = fi_now f;
          run0 = running g \<and> \<not> fi_quit f;
          pr = p_rect (g_player g);
          shoot = now - last_shot g > 0.2;
          bs0 = g_bullets g @ (if shoot then [bullet_new (centerx pr) (ry pr)] else []);
          last = (if shoot then now else last_shot g);
          ps0 = g_particles g @
                  (case fi_engine f of None \<Rightarrow> []
                   | Some (sx, sy) \<Rightarrow> [particle_new (centerx pr) (bottom pr - 5) c_neon_cyan sx sy 20]);
          stars = map (\<lambda>(i, s). star_update (fi_star_x f i) s) (enumerate 0 (g_stars g));
          pl = player_update rot_size current_tilt (g_player g);
          ms1 = map (\<lambda>(i, m). enemy_update (fi_reset f i) m) (enumerate 0 (g_mobs g));
          bs1 = List.map_filter bullet_update bs0;
          ps1 = List.map_filter particle_update ps0;
          (surv, hits, bs2) = group_collide ms1 bs1;
          sparks = concat (map (\<lambda>(i, h). explosion (fi_spark f) i h) (enumerate 0 hits));
          spawned = map (\<lambda>i. case fi_spawn f i of (sz, spin, c, d) \<Rightarrow> enemy_new sz spin c d)
                      [0..<length hits];
          ms2 = surv @ spawned in
      g\<lparr>g_player := pl, g_mobs := ms2, g_bullets := bs2, g_particles := ps1 @ sparks,
        g_stars := stars, score := score g + 100 * int (length hits), last_shot := last,
        running := (run0 \<and> \<not> sprite_collides (p_rect pl) ms2)\<rparr>)"
  by (simp add: game_frame_def game_frame3_def player_update_def)

lemma game_run_reads:
  "game_run rot_size fs g = game_run3 rot_size (map (\<lambda>(f, t). (f, (t, t, t))) fs) g"
  by (induction fs arbitrary: g) (auto simp: game_run_def game_run3_def game_frame_def)

lemma group_collide_length:
  "group_collide ms bs = (surv, hits, rest) \<Longrightarrow> length surv + length hits = length ms"
  by (induction ms bs arbitrary: surv hits rest rule: group_collide.induct)
     (auto simp: Let_def split: if_splits prod.splits)

lemma group_collide_subset:
  "set (fst (group_collide ms bs)) \<union> set (fst (snd (group_collide ms bs))) \<subseteq> set ms"
  by (induction ms bs rule: group_collide.induct) (auto simp: Let_def split: prod.splits)

lemma set_map_filter: "y \<in> set (List.map_filter f xs) \<longleftrightarrow> (\<exists>x\<in>set xs. f x = Some y)"
  by (induction xs) (auto simp: map_filter_simps split: option.splits)

lemma group_collide_rest:
  "set (snd (snd (group_collide ms bs))) \<subseteq> set bs"
  by (induction ms bs rule: group_collide.induct) (auto simp: Let_def split: prod.splits)

lemma player_move3_bank_range:
  "-25 \<le> bank_angle p \<Longrightarrow> bank_angle p \<le> 25 \<Longrightarrow>
   -25 \<le> bank_angle (player_move3 rd p) \<and> bank_angle (player_move3 rd p) \<le> 25"
  by (auto simp: player_move3_def Let_def split: prod.splits)

lemma player_move_bank_range:
  "-25 \<le> bank_angle p \<Longrightarrow> bank_angle p \<le> 25 \<Longrightarrow>
   -25 \<le> bank_angle (player_move t p) \<and> bank_angle (player_move t p) \<le> 25"
  unfolding player_move_def by (rule player_move3_bank_range)

lemma game_frame_parts:
  assumes "group_collide (map (\<lambda>(i, m). enemy_update (fi_reset f i) m) (enumerate 0 (g_mobs g)))
             (List.map_filter bullet_update (g_bullets g @
                (if fi_now f - last_shot g > 0.2
                 then [bullet_new (centerx (p_rect (g_player g))) (ry (p_rect (g_player g)))] else [])))
           = (surv, hits, rest)"
  shows "g_player (game_frame rs f t g) = player_update rs t (g_player g) \<and>
    g_mobs (game_frame rs f t g) =
      surv @ map (\<lambda>i. case fi_spawn f i of (sz, spin, c, d) \<Rightarrow> enemy_new sz spin c d) [0..<length hits] \<and>
    g_bullets (game_frame rs f t g) = rest \<and>
    g_particles (game_frame rs f t g) =
      List.map_filter particle_update (g_particles g @
        (case fi_engine f of None \<Rightarrow> []
         | Some (sx, sy) \<Rightarrow> [particle_new (centerx (p_rect (g_player g))) (bottom (p_rect (g_player g)) - 5) c_neon_cyan sx sy 20]))
      @ concat (map (\<lambda>(i, h). explosion (fi_spark f) i h) (enumerate 0 hits)) \<and>
    g_stars (game_frame rs f t g) = map (\<lambda>(i, s). star_update (fi_star_x f i) s) (enumerate 0 (g_stars g)) \<and>
    score (game_frame rs f t g) = score g + 100 * int (length hits)"
  using assms by (simp add: game_frame_eq Let_def)

lemma enumerate_map_all:
  assumes "\<And>i. i < length xs \<Longrightarrow> P (h i (xs ! i))"
  shows "list_all P (map (\<lambda>(i, x). h i x) (enumerate 0 xs))"
  using assms by (auto simp: list_all_iff in_set_enumerate_eq)

lemma game_frame_counts:
  "length (g_mobs (game_frame rs f t g)) = length (g_mobs g) \<and>
   (\<exists>n. score (game_frame rs f t g) = score g + 100 * int n)"
proof -
  let ?ms1 = "map (\<lambda>(i, m). enemy_update (fi_reset f i) m) (enumerate 0 (g_mobs g))"
  let ?bs1 = "List.map_filter bullet_update (g_bullets g @
                (if fi_now f - last_shot g > 0.2 then [bullet_new (centerx (p_rect (g_player g))) (ry (p_rect (g_player g)))] else []))"
  obtain surv hits rest where gc: "group_collide ?ms1 ?bs1 = (surv, hits, rest)"
    by (cases "group_collide ?ms1 ?bs1") auto
  have "length surv + length hits = length (g_mobs g)"
    using group_collide_length [OF gc] by simp
  then show ?thesis using game_frame_parts [OF gc, of rs t] by auto
qed

lemma game_init_wf:
  assumes "\<forall>i<6. case ed i of (sz, spin, c, d) \<Rightarrow> valid_enemy_new sz spin c d"
    and "\<forall>i<50. case sd i of (x, y, sp, c) \<Rightarrow> valid_star_draw x y sp c"
  shows "game_wf (game_init t0 ed sd)"
proof -
  have "on_screen (p_rect player_init)" by (simp add: on_screen_def player_init_def WIDTH_def HEIGHT_def)
  moreover have "list_all enemy_inv (g_mobs (game_init t0 ed sd))"
    using assms(1) by (auto simp: game_init_def list_all_iff enemy_new_inv split: prod.splits)
  moreover have "list_all star_wf (g_stars (game_init t0 ed sd))"
    using assms(2) by (auto simp: game_init_def list_all_iff star_wf_def star_new_def valid_star_draw_def
      split: prod.splits)
  ultimately show ?thesis by (simp add: game_wf_def game_init_def player_init_def)
qed

lemma game_run_Cons [simp]:
  "game_run rs ((f, t) # fs) g = game_run rs fs (if running g then game_frame rs f t g else g)"
  by (simp add: game_run_def)

lemma game_run_Nil [simp]: "game_run rs [] g = g"
  by (simp add: game_run_def)

lemma game_run_stopped: "\<not> running g \<Longrightarrow> game_run rs fs g = g"
  by (induction fs) (auto simp: game_run_def)

lemma game_step_counts:
  "length (g_mobs (if running g then game_frame rs f t g else g)) = length (g_mobs g) \<and>
   (\<exists>n. score (if running g then game_frame rs f t g else g) = score g + 100 * int n)"
proof (cases "running g")
  case True then show ?thesis using game_frame_counts [of rs f t g] by simp
next
  case False then show ?thesis by (simp add: exI [of _ 0])
qed

lemma game_run_counts:
  "length (g_mobs (game_run rs fs g)) = length (g_mobs g) \<and>
   (\<exists>n. score (game_run rs fs g) = score g + 100 * int n)"
proof (induction fs arbitrary: g)
  case Nil then show ?case by (simp add: exI [of _ 0])
next
  case (Cons ft fs)
  obtain f t where ft: "ft = (f, t)" by (cases ft)
  define g' where "g' = (if running g then game_frame rs f t g else g)"
  obtain n where n: "length (g_mobs g') = length (g_mobs g)" "score g' = score g + 100 * int n"
    using game_step_counts [of g rs f t] unfolding g'_def by blast
  obtain k where k: "length (g_mobs (game_run rs fs g')) = length (g_mobs g')"
      "score (game_run rs fs g') = score g' + 100 * int k"
    using Cons.IH [of g'] by blast
  have "score (game_run rs fs g') = score g + 100 * int (n + k)"
    using n k by (simp add: algebra_simps)
  moreover have "length (g_mobs (game_run rs fs g')) = length (g_mobs g)" using n k by simp
  moreover have "game_run rs (ft # fs) g = game_run rs fs g'" by (simp add: ft g'_def)
  ultimately show ?case by (intro conjI exI [of _ "n + k"]) simp_all
qed

text \<open>
  A frame computes: the bullet fired this frame from the ship at its start position
  rises into an enemy above it, which is destroyed and replaced, and scores 100.
\<close>

lemma game_frame_hit_example:
  "score (game_frame (\<lambda>_. (50, 60))
     \<lparr>fi_now = 1, fi_quit = False, fi_engine = None, fi_star_x = (\<lambda>_. 0),
      fi_reset = (\<lambda>_. (0, -100, 3)), fi_spark = (\<lambda>_ _. (0, 0)), fi_spawn = (\<lambda>_. (30, 3, c_neon_pink, (10, -100, 4)))\<rparr>
     0
     \<lparr>g_player = player_init,
      g_mobs = [\<lparr>e_rect = \<lparr>rx = 380, ry = 440, rw = 30, rh = 30\<rparr>, e_size = 30, rotation = 0, rot_speed = 3, speedy = 3,
                  e_color = c_neon_pink, e_image = []\<rparr>],
      g_bullets = [], g_particles = [], g_stars = [], score = 0, start_time = 0, last_shot = 0, running = True\<rparr>)
   = 100"
  by (simp add: game_frame_eq Let_def enumerate_eq_zip enemy_update_def reset_pos_def bullet_new_def
      bullet_update_def group_collide.simps colliderect_def span_overlap_def player_init_def centerx_def
      bottom_def WIDTH_def HEIGHT_def)

subsection \<open>Properties of the game loop\<close>

text \<open>
  Claim C11 (invariant): in every run of the game loop from its setup there are exactly
  six enemies (each hit enemy is replaced by a new one) and the score is a non-negative
  multiple of 100.
\<close>

theorem game_run_from_init:
  "length (g_mobs (game_run rs fs (game_init t0 ed sd))) = 6 \<and>
   0 \<le> score (game_run rs fs (game_init t0 ed sd)) \<and> 100 dvd score (game_run rs fs (game_init t0 ed sd))"
proof -
  obtain n where "length (g_mobs (game_run rs fs (game_init t0 ed sd))) = length (g_mobs (game_init t0 ed sd))"
    "score (game_run rs fs (game_init t0 ed sd)) = score (game_init t0 ed sd) + 100 * int n"
    using game_run_counts by blast
  moreover have "length (g_mobs (game_init t0 ed sd)) = 6" "score (game_init t0 ed sd) = 0"
    by (simp_all add: game_init_def)
  ultimately show ?thesis by simp
qed

text \<open>
  Claim C10 (type): every frame of the game loop, with the ship's hit box resized to the
  rotated image and the random draws in their ranges, keeps the game state well formed:
  the ship on the screen and banked at most 25 degrees, every enemy, bullet, particle
  and star of its shape.
\<close>

theorem game_frame_wf:
  assumes wf: "game_wf g" and v: "valid_frame f g"
  shows "game_wf (game_frame ship_rot_size f t g)"
proof -
  let ?pr = "p_rect (g_player g)"
  let ?ms1 = "map (\<lambda>(i, m). enemy_update (fi_reset f i) m) (enumerate 0 (g_mobs g))"
  let ?bs0 = "g_bullets g @ (if fi_now f - last_shot g > 0.2 then [bullet_new (centerx ?pr) (ry ?pr)] else [])"
  let ?ps0 = "g_particles g @ (case fi_engine f of None \<Rightarrow> []
               | Some (sx, sy) \<Rightarrow> [particle_new (centerx ?pr) (bottom ?pr - 5) c_neon_cyan sx sy 20])"
  obtain surv hits rest where gc: "group_collide ?ms1 (List.map_filter bullet_update ?bs0) = (surv, hits, rest)"
    by (cases "group_collide ?ms1 (List.map_filter bullet_update ?bs0)") auto
  note parts = game_frame_parts [OF gc, of ship_rot_size t]
  have ms1: "list_all enemy_inv ?ms1"
  proof (rule enumerate_map_all)
    fix i assume "i < length (g_mobs g)"
    with wf v show "enemy_inv (enemy_update (fi_reset f i) (g_mobs g ! i))"
      by (intro enemy_update_inv) (auto simp: game_wf_def valid_frame_def list_all_iff)
  qed
  have "set surv \<subseteq> set ?ms1" using group_collide_subset [of ?ms1 "List.map_filter bullet_update ?bs0"] gc by simp
  moreover have hl: "length hits \<le> length (g_mobs g)" using group_collide_length [OF gc] by simp
  have spawn: "list_all enemy_inv
      (map (\<lambda>i. case fi_spawn f i of (sz, spin, c, d) \<Rightarrow> enemy_new sz spin c d) [0..<length hits])"
  proof -
    { fix i assume i: "i < length hits"
      obtain sz spin c d where s: "fi_spawn f i = (sz, spin, c, d)" by (cases "fi_spawn f i") auto
      have "i \<in> {0..<length (g_mobs g)}" using i hl by simp
      then have "case fi_spawn f i of (sz, spin, c, d) \<Rightarrow> valid_enemy_new sz spin c d"
        using v by (simp add: valid_frame_def list_all_iff)
      then have "valid_enemy_new sz spin c d" using s by simp
      then have "enemy_inv (case fi_spawn f i of (sz, spin, c, d) \<Rightarrow> enemy_new sz spin c d)"
        using s by (simp add: enemy_new_inv) }
    then show ?thesis by (simp add: list_all_iff)
  qed
  ultimately have mobs: "list_all enemy_inv (g_mobs (game_frame ship_rot_size f t g))"
    using ms1 parts by (auto simp: list_all_iff)
  have b0: "\<forall>b\<in>set ?bs0. rw (b_rect b) = 6 \<and> rh (b_rect b) = 20 \<and> b_speedy b = -12"
    using wf bullet_new_fields by (auto simp: game_wf_def bullet_wf_def list_all_iff)
  have rest: "set rest \<subseteq> set (List.map_filter bullet_update ?bs0)"
    using group_collide_rest [of ?ms1 "List.map_filter bullet_update ?bs0"] gc by simp
  have bs1: "\<forall>x\<in>set (List.map_filter bullet_update ?bs0). bullet_wf x"
  proof
    fix x assume "x \<in> set (List.map_filter bullet_update ?bs0)"
    then obtain b where "b \<in> set ?bs0" "bullet_update b = Some x" by (auto simp: set_map_filter)
    with b0 show "bullet_wf x" by (blast intro: bullet_update_wf)
  qed
  have "g_bullets (game_frame ship_rot_size f t g) = rest" using parts by simp
  then have bullets: "list_all bullet_wf (g_bullets (game_frame ship_rot_size f t g))"
    using rest bs1 by (auto simp: list_all_iff)
  have p0: "\<forall>p\<in>set ?ps0. particle_wf p"
    using wf by (auto simp: game_wf_def list_all_iff particle_new_wf split: option.splits)
  have ps1: "\<forall>x\<in>set (List.map_filter particle_update ?ps0). particle_wf x"
  proof
    fix x assume "x \<in> set (List.map_filter particle_update ?ps0)"
    then obtain p where "p \<in> set ?ps0" "particle_update p = Some x" by (auto simp: set_map_filter)
    with p0 show "particle_wf x" by (blast intro: particle_update_wf)
  qed
  have sparks: "\<forall>x\<in>set (concat (map (\<lambda>(i, h). explosion (fi_spark f) i h) (enumerate 0 hits))). particle_wf x"
    by (auto simp: explosion_def particle_new_wf)
  have "g_particles (game_frame ship_rot_size f t g) = List.map_filter particle_update ?ps0 @
      concat (map (\<lambda>(i, h). explosion (fi_spark f) i h) (enumerate 0 hits))"
    using parts by blast
  then have particles: "list_all particle_wf (g_particles (game_frame ship_rot_size f t g))"
    using ps1 sparks by (simp only: list_all_iff set_append ball_Un)
  have stars_eq: "g_stars (game_frame ship_rot_size f t g) =
      map (\<lambda>(i, s). star_update (fi_star_x f i) s) (enumerate 0 (g_stars g))"
    using parts by blast
  have stars: "list_all star_wf (g_stars (game_frame ship_rot_size f t g))"
    unfolding stars_eq
  proof (rule enumerate_map_all)
    fix i assume "i < length (g_stars g)"
    with wf v show "star_wf (star_update (fi_star_x f i) (g_stars g ! i))"
      by (intro star_update_wf) (auto simp: game_wf_def valid_frame_def list_all_iff)
  qed
  have player: "on_screen (p_rect (g_player (game_frame ship_rot_size f t g))) \<and>
      -25 \<le> bank_angle (g_player (game_frame ship_rot_size f t g)) \<and>
      bank_angle (g_player (game_frame ship_rot_size f t g)) \<le> 25"
    using wf parts player_update_on_screen [OF allI [OF ship_rot_size_bounds]]
      player_move_bank_range [of "g_player g" t]
    by (simp add: game_wf_def player_update_bank)
  show ?thesis using player mobs bullets particles stars by (simp add: game_wf_def)
qed

theorem game_frame_wf_witness:
  "game_wf \<lparr>g_player = player_init,
      g_mobs = [\<lparr>e_rect = \<lparr>rx = 380, ry = 440, rw = 30, rh = 30\<rparr>, e_size = 30, rotation = 0, rot_speed = 3, speedy = 3,
                  e_color = c_neon_pink, e_image = []\<rparr>],
      g_bullets = [], g_particles = [], g_stars = [], score = 0, start_time = 0, last_shot = 0, running = True\<rparr> \<and>
   valid_frame
     \<lparr>fi_now = 1, fi_quit = False, fi_engine = Some (0.5, 3), fi_star_x = (\<lambda>_. 0),
      fi_reset = (\<lambda>_. (0, -100, 3)), fi_spark = (\<lambda>_ _. (1, -1)), fi_spawn = (\<lambda>_. (30, 3, c_neon_pink, (10, -100, 4)))\<rparr>
     \<lparr>g_player = player_init,
      g_mobs = [\<lparr>e_rect = \<lparr>rx = 380, ry = 440, rw = 30, rh = 30\<rparr>, e_size = 30, rotation = 0, rot_speed = 3, speedy = 3,
                  e_color = c_neon_pink, e_image = []\<rparr>],
      g_bullets = [], g_particles = [], g_stars = [], score = 0, start_time = 0, last_shot = 0, running = True\<rparr> \<and>
   game_wf (game_frame ship_rot_size
     \<lparr>fi_now = 1, fi_quit = False, fi_engine = Some (0.5, 3), fi_star_x = (\<lambda>_. 0),
      fi_reset = (\<lambda>_. (0, -100, 3)), fi_spark = (\<lambda>_ _. (1, -1)), fi_spawn = (\<lambda>_. (30, 3, c_neon_pink, (10, -100, 4)))\<rparr>
     2
     \<lparr>g_player = player_init,
      g_mobs = [\<lparr>e_rect = \<lparr>rx = 380, ry = 440, rw = 30, rh = 30\<rparr>, e_size = 30, rotation = 0, rot_speed = 3, speedy = 3,
                  e_color = c_neon_pink, e_image = []\<rparr>],
      g_bullets = [], g_particles = [], g_stars = [], score = 0, start_time = 0, last_shot = 0, running = True\<rparr>)"
  (is "game_wf ?g \<and> valid_frame ?f ?g \<and> _")
proof -
  have h1: "game_wf ?g" by code_simp
  have h2: "valid_frame ?f ?g" by code_simp
  show ?thesis using game_frame_wf [OF h1 h2, of 2] h1 h2 by simp
qed

end
