(* ===== verification/System.thy ===== *)
theory System
  imports Game_Loop Tilt_Controller
begin

text \<open>
  The two threads of Game.py together: \<open>main\<close> starts \<open>iottalk_listener\<close> as a daemon
  thread (lines 413-416) and then runs the game, whose frames read the global
  \<open>current_tilt\<close> that only the listener writes (line 20, spec section 5).  The
  interleaving is taken at the granularity of the accesses to that variable: a listener
  iteration is its pull followed by its writes (one or two, \<open>listener_writes\<close>), a game
  frame is its three readings in \<open>Player.update\<close> (lines 189, 196, 199) followed by the
  rest of the frame, which touches no shared state and is applied at once with the
  readings taken (\<open>game_frame3\<close>).  The scheduler may put any access of one thread
  between two of the other.  An event that is not enabled (a pull while writes are
  pending, a write with none pending, a fourth reading, a frame before its three
  readings) leaves the state unchanged.  The HUD's reading of line 505 only draws and
  is not part of the state.
\<close>

datatype sys_event = L_Pull pull_result | L_Write | G_Read | G_Frame frame_input

record sys_state =
  sys_listener :: listener_state
  sys_pending :: "tilt list"
  sys_reads :: "tilt list"
  sys_game :: game

definition sys_init :: "game \<Rightarrow> sys_state" where
  "sys_init g = \<lparr>sys_listener = listener_init, sys_pending = [], sys_reads = [], sys_game = g\<rparr>"

definition sys_step :: "(int \<Rightarrow> int \<times> int) \<Rightarrow> sys_state \<Rightarrow> sys_event \<Rightarrow> sys_state" where
  "sys_step rot_size s e =
     (case e of
        L_Pull r \<Rightarrow>
          (if sys_pending s = [] then
             s\<lparr>sys_listener := (sys_listener s)\<lparr>slept := slept (listener_step (sys_listener s) r)\<rparr>,
               sys_pending := listener_writes r\<rparr>
           else s)
      | L_Write \<Rightarrow>
          (case sys_pending s of
             [] \<Rightarrow> s
           | w # ws \<Rightarrow> s\<lparr>sys_listener := (sys_listener s)\<lparr>current_tilt := w\<rparr>, sys_pending := ws\<rparr>)
      | G_Read \<Rightarrow>
          (if length (sys_reads s) < 3
           then s\<lparr>sys_reads := sys_reads s @ [current_tilt (sys_listener s)]\<rparr> else s)
      | G_Frame f \<Rightarrow>
          (case sys_reads s of
             [t1, t2, t3] \<Rightarrow>
               s\<lparr>sys_game := (if running (sys_game s)
                              then game_frame3 rot_size f (t1, t2, t3) (sys_game s)
                              else sys_game s),
                 sys_reads := []\<rparr>
           | _ \<Rightarrow> s))"

definition sys_run :: "(int \<Rightarrow> int \<times> int) \<Rightarrow> sys_state \<Rightarrow> sys_event list \<Rightarrow> sys_state" where
  "sys_run rot_size s evs = foldl (sys_step rot_size) s evs"

lemmas system_defs [model_defs] = sys_init_def sys_step_def sys_run_def

text \<open>
  Observations of a run: the pulls that started a listener iteration, each completed
  frame with the three readings it used, and the listener as it will be once its pending
  writes have landed.
\<close>

fun sys_pulls :: "(int \<Rightarrow> int \<times> int) \<Rightarrow> sys_state \<Rightarrow> sys_event list \<Rightarrow> pull_result list" where
  "sys_pulls rs s [] = []"
| "sys_pulls rs s (e # es) =
     (case e of L_Pull r \<Rightarrow> (if sys_pending s = [] then [r] else []) | _ \<Rightarrow> []) @
     sys_pulls rs (sys_step rs s e) es"

fun sys_frames ::
  "(int \<Rightarrow> int \<times> int) \<Rightarrow> sys_state \<Rightarrow> sys_event list \<Rightarrow> (frame_input \<times> tilt_reads) list" where
  "sys_frames rs s [] = []"
| "sys_frames rs s (e # es) =
     (case e of
        G_Frame f \<Rightarrow> (case sys_reads s of [t1, t2, t3] \<Rightarrow> [(f, (t1, t2, t3))] | _ \<Rightarrow> [])
      | _ \<Rightarrow> []) @
     sys_frames rs (sys_step rs s e) es"

definition listener_flush :: "sys_state \<Rightarrow> listener_state" where
  "listener_flush s =
     (sys_listener s)\<lparr>current_tilt := last (current_tilt (sys_listener s) # sys_pending s)\<rparr>"

text \<open>
  What the other thread can see of the listener: outside \<open>[-10, 10]\<close> only the value
  line 89 stored, while the clamp of line 91 is still to come.
\<close>

definition sys_inv :: "sys_state \<Rightarrow> bool" where
  "sys_inv s \<longleftrightarrow>
     (let t = current_tilt (sys_listener s) in
      case sys_pending s of
        [] \<Rightarrow> \<bar>t\<bar> \<le> 10
      | [w] \<Rightarrow> \<bar>w\<bar> \<le> 10 \<and> (\<bar>t\<bar> \<le> 10 \<or> w = py_clamp (-10) 10 t)
      | [w1, w2] \<Rightarrow> \<bar>t\<bar> \<le> 10 \<and> w2 = py_clamp (-10) 10 w1
      | _ \<Rightarrow> False)"

subsection \<open>Facts about the interleaving\<close>

lemma sys_run_Cons [simp]: "sys_run rs s (e # evs) = sys_run rs (sys_step rs s e) evs"
  by (simp add: sys_run_def)

lemma sys_run_Nil [simp]: "sys_run rs s [] = s"
  by (simp add: sys_run_def)

lemma game_run3_Cons [simp]:
  "game_run3 rs ((f, rd) # fs) g = game_run3 rs fs (if running g then game_frame3 rs f rd g else g)"
  by (simp add: game_run3_def)

lemma game_run3_Nil [simp]: "game_run3 rs [] g = g"
  by (simp add: game_run3_def)

lemma game_run3_append: "game_run3 rs (fs @ gs) g = game_run3 rs gs (game_run3 rs fs g)"
  by (simp add: game_run3_def)

lemma listener_run_append: "listener_run l (rs @ qs) = listener_run (listener_run l rs) qs"
  by (simp add: listener_run_def)

lemma flush_step:
  "listener_flush (sys_step rs s e) =
     (case e of L_Pull r \<Rightarrow> if sys_pending s = [] then listener_step (listener_flush s) r else listener_flush s
      | _ \<Rightarrow> listener_flush s)"
proof (cases e)
  case (L_Pull r)
  then show ?thesis
    using listener_step_writes [of "sys_listener s" r]
    by (auto simp: sys_step_def listener_flush_def intro: listener_state.equality)
next
  case L_Write
  then show ?thesis by (auto simp: sys_step_def listener_flush_def split: list.splits)
qed (simp_all add: sys_step_def listener_flush_def split: list.splits)

lemma game_step:
  "sys_game (sys_step rs s e) =
     game_run3 rs (case e of G_Frame f \<Rightarrow> (case sys_reads s of [t1, t2, t3] \<Rightarrow> [(f, (t1, t2, t3))] | _ \<Rightarrow> [])
                   | _ \<Rightarrow> []) (sys_game s)"
  by (cases e) (simp_all add: sys_step_def split: list.splits)

lemma sys_step_inv: "sys_inv s \<Longrightarrow> sys_inv (sys_step rs s e)"
proof (cases e)
  case (L_Pull r)
  assume inv: "sys_inv s"
  show ?thesis
  proof (cases "sys_pending s = []")
    case True
    then have "\<bar>current_tilt (sys_listener s)\<bar> \<le> 10" using inv by (simp add: sys_inv_def)
    then show ?thesis
      using True L_Pull listener_writes_shape [of r] tilt_of_gamma_bounded
      by (auto simp: sys_step_def sys_inv_def py_clamp_sym_abs [of 10, simplified])
  qed (use inv L_Pull in \<open>simp add: sys_step_def\<close>)
next
  case L_Write
  assume "sys_inv s"
  then show ?thesis using L_Write
    by (auto simp: sys_step_def sys_inv_def Let_def py_clamp_sym_abs [of 10, simplified]
             split: list.splits)
qed (auto simp: sys_step_def sys_inv_def Let_def split: list.splits)

lemma sys_run_inv: "sys_inv s \<Longrightarrow> sys_inv (sys_run rs s evs)"
  by (induction evs arbitrary: s) (simp_all add: sys_step_inv)

lemma sys_init_inv: "sys_inv (sys_init g)"
  by (simp add: sys_inv_def sys_init_def listener_init_def)

lemma sys_state_reads_inv: "sys_inv (sys_run rs (sys_init g) evs)"
  by (rule sys_run_inv [OF sys_init_inv])

subsection \<open>Properties of the interleaving\<close>

text \<open>
  Claim C2 (refinement): every interleaving of the two threads at the level of their
  accesses to \<open>current_tilt\<close> decomposes: once its pending writes have landed, the
  listener is the listener loop run alone on the pulls it made (the frames never write
  \<open>current_tilt\<close>), and the game is the game loop run alone on its completed frames,
  each fed the three readings it took at its own places in the interleaving.
\<close>

theorem sys_run_decomposes:
  "listener_flush (sys_run rs s evs) = listener_run (listener_flush s) (sys_pulls rs s evs) \<and>
   sys_game (sys_run rs s evs) = game_run3 rs (sys_frames rs s evs) (sys_game s)"
proof (induction evs arbitrary: s)
  case Nil
  then show ?case by simp
next
  case (Cons e evs)
  have l: "listener_run (listener_flush s) (case e of L_Pull r \<Rightarrow> (if sys_pending s = [] then [r] else []) | _ \<Rightarrow> [])
           = listener_flush (sys_step rs s e)"
    by (cases e) (simp_all add: flush_step)
  have g: "game_run3 rs (case e of G_Frame f \<Rightarrow> (case sys_reads s of [t1, t2, t3] \<Rightarrow> [(f, (t1, t2, t3))] | _ \<Rightarrow> [])
             | _ \<Rightarrow> []) (sys_game s) = sys_game (sys_step rs s e)"
    by (simp add: game_step)
  show ?case
    using Cons.IH [of "sys_step rs s e"]
    by (simp add: listener_run_append game_run3_append l g)
qed

text \<open>
  Claim C4 (safety): the only value outside \<open>[-10, 10]\<close> another thread can ever read
  from \<open>current_tilt\<close> is the unclamped \<open>offset * scale_factor\<close> of line 89, visible
  exactly while the clamp of line 91 is the listener's one pending write; the spec
  demands a single indivisible assignment.
\<close>

theorem mid_write_only_unclamped:
  "\<bar>current_tilt (sys_listener (sys_run rs (sys_init g) evs))\<bar> \<le> 10 \<or>
   sys_pending (sys_run rs (sys_init g) evs) =
     [py_clamp (-10) 10 (current_tilt (sys_listener (sys_run rs (sys_init g) evs)))]"
  using sys_state_reads_inv [of rs g evs]
  by (auto simp: sys_inv_def Let_def split: list.splits)

theorem mid_write_only_unclamped_witness:
  "current_tilt (sys_listener (sys_run ship_rot_size (sys_init \<lparr>g_player = player_init, g_mobs = [], g_bullets = [], g_particles = [], g_stars = [], score = 0, start_time = 0, last_shot = 0, running = True\<rparr>) [L_Pull (Pulled (PList [PList [PFloat 0, PFloat 0, PFloat 49.12]])), L_Write])) = 38.5 \<and>
   sys_pending (sys_run ship_rot_size (sys_init \<lparr>g_player = player_init, g_mobs = [], g_bullets = [], g_particles = [], g_stars = [], score = 0, start_time = 0, last_shot = 0, running = True\<rparr>) [L_Pull (Pulled (PList [PList [PFloat 0, PFloat 0, PFloat 49.12]])), L_Write]) = [10] \<and>
   sys_reads (sys_run ship_rot_size (sys_init \<lparr>g_player = player_init, g_mobs = [], g_bullets = [], g_particles = [], g_stars = [], score = 0, start_time = 0, last_shot = 0, running = True\<rparr>) [L_Pull (Pulled (PList [PList [PFloat 0, PFloat 0, PFloat 49.12]])), L_Write, G_Read]) = [38.5]"
  using mid_write_only_unclamped [of ship_rot_size "\<lparr>g_player = player_init, g_mobs = [], g_bullets = [], g_particles = [], g_stars = [], score = 0, start_time = 0, last_shot = 0, running = True\<rparr>" "[L_Pull (Pulled (PList [PList [PFloat 0, PFloat 0, PFloat 49.12]])), L_Write]"]
  by (simp add: sys_step_def sys_init_def listener_init_def model_defs)

text \<open>
  Claim C22 (divergence): a frame whose readings of \<open>current_tilt\<close> change between
  lines 189 and 199, the first beyond the threshold and the later ones at \<open>0.0\<close> (the
  listener zeroed it in between), neither moves the ship nor lets its bank angle return:
  the player is unchanged, where a frame reading the first value throughout banks.  The
  spec calls the motion mapping a pure function of \<open>current_tilt\<close>.
\<close>

theorem torn_read_freezes_player:
  assumes "tilt_threshold < \<bar>t1\<bar>" "0 \<le> t2" "t3 \<le> 0"
  shows "player_move3 (t1, t2, t3) p = p \<and>
         (-25 < bank_angle p \<and> bank_angle p < 25 \<longrightarrow> bank_angle (player_move t1 p) \<noteq> bank_angle p)"
proof -
  have t: "0 < tilt_threshold" by (simp add: tilt_threshold_def)
  have "player_move3 (t1, t2, t3) p = p" using assms by (simp add: player_move3_def Let_def)
  moreover have "t1 \<noteq> 0" using assms(1) t by auto
  ultimately show ?thesis
    using assms(1) by (auto simp: player_move_def player_move3_def Let_def max_def min_def)
qed

theorem torn_read_freezes_player_witness:
  "sys_reads (sys_run ship_rot_size (sys_init \<lparr>g_player = player_init, g_mobs = [], g_bullets = [], g_particles = [], g_stars = [], score = 0, start_time = 0, last_shot = 0, running = True\<rparr>)
     [L_Pull (Pulled (PList [PList [PFloat 0, PFloat 0, PFloat 9.12]])), L_Write, L_Write, G_Read,
      L_Pull (Pulled (PList [PStr ''x''])), L_Write, G_Read, G_Read]) = [7.7, 0, 0] \<and>
   player_move3 (7.7, 0, 0) player_init = player_init \<and>
   bank_angle (player_move 7.7 player_init) = 2"
  using torn_read_freezes_player [of "7.7" 0 0 player_init]
  by (simp add: sys_step_def sys_init_def listener_init_def model_defs)

end
