(* ===== verification/Menu.thy ===== *)
theory Menu
  imports Sprites Hud
begin

text \<open>
  The title screen of Game.py, \<open>main_menu\<close> (lines 331-403), the text helper
  \<open>draw_neon_text\<close> (273-282) and the start of \<open>main\<close> (406-423).  A menu iteration
  updates the background stars and the preview position, computes what it draws (the
  connection status, the blinking instruction, the tilt marker and the preview ship's
  rectangle) and then looks at the pending events: \<open>QUIT\<close> returns \<open>False\<close>, the
  space key \<open>True\<close>, anything else continues.  The title's pulsing scale
  (\<open>math.sin(time.time() * 3)\<close>) and the pixels drawn are not modelled.
\<close>

text \<open>
  \<open>draw_neon_text\<close>: the text's rectangle is centred on \<open>center_pos\<close> (a float
  coordinate is truncated), a glow copy in the halved colour is blitted 2 pixels down
  and right first, then the text.  The rendered size \<open>(tw, th)\<close> depends on the font
  and is a parameter.  Result: the blits in order and the returned rectangle.
\<close>

definition neon_text ::
  "int \<times> int \<Rightarrow> rgb \<Rightarrow> real \<times> real \<Rightarrow> bool \<Rightarrow> (rgb \<times> int \<times> int) list \<times> rect" where
  "neon_text tsize color center_pos glow =
     (let (tw, th) = tsize; (r, g, b) = color;
          text_rect = \<lparr>rx = c_int_of (fst center_pos) - tw div 2, ry = c_int_of (snd center_pos) - th div 2,
                       rw = tw, rh = th\<rparr>;
          glow_blit = (if glow then [((r div 2, g div 2, b div 2), rx text_rect + 2, ry text_rect + 2)] else []) in
      (glow_blit @ [(color, rx text_rect, ry text_rect)], text_rect))"

record menu =
  mn_stars :: "star list"
  preview_x :: real

text \<open>Lines 332-338 with the forty \<open>Star()\<close> draws.\<close>

definition menu_init :: "(nat \<Rightarrow> int \<times> int \<times> real \<times> rgb) \<Rightarrow> menu" where
  "menu_init star_draws =
     \<lparr>mn_stars = map (\<lambda>i. case star_draws i of (x, y, sp, c) \<Rightarrow> star_new x y sp c) [0..<40],
      preview_x = real_of_int (WIDTH div 2)\<rparr>"

definition preview_y :: int where "preview_y = HEIGHT - 100"

datatype menu_event = Ev_Quit | Ev_Key_Space | Ev_Other

text \<open>What one iteration draws (lines 370-389).\<close>

record menu_view =
  mv_status :: "string \<times> hud_color"
  show_launch :: bool
  marker_x :: int
  preview_rect :: rect

definition menu_status :: "bool \<Rightarrow> string \<times> hud_color" where
  "menu_status iottalk_connected =
     (if iottalk_connected then (''SYSTEM ONLINE'', C_NEON_GREEN)
      else (''WAITING FOR LINK...'', C_NEON_PINK))"

definition tilt_marker :: "tilt \<Rightarrow> int" where
  "tilt_marker current_tilt = c_int_of (real_of_int (WIDTH div 2) + current_tilt * 10)"

definition menu_view_of :: "bool \<Rightarrow> real \<Rightarrow> tilt \<Rightarrow> menu \<Rightarrow> menu_view" where
  "menu_view_of iottalk_connected now current_tilt m =
     \<lparr>mv_status = menu_status iottalk_connected,
      show_launch = even (c_int_of (now * 2)),
      marker_x = tilt_marker current_tilt,
      preview_rect = \<lparr>rx = c_int_of (preview_x m) - 50 div 2, ry = preview_y - 60 div 2, rw = 50, rh = 60\<rparr>\<rparr>"

text \<open>Lines 396-400: the first \<open>QUIT\<close> or space key decides.\<close>

fun menu_events :: "menu_event list \<Rightarrow> bool option" where
  "menu_events [] = None"
| "menu_events (Ev_Quit # evs) = Some False"
| "menu_events (Ev_Key_Space # evs) = Some True"
| "menu_events (Ev_Other # evs) = menu_events evs"

text \<open>
  One iteration of \<open>while True\<close> (lines 341-403): the stars fall (with the draws of
  the ones that wrap), the preview moves, then the events are read.
\<close>

definition menu_step ::
  "(nat \<Rightarrow> int) \<Rightarrow> menu_event list \<Rightarrow> tilt \<Rightarrow> menu \<Rightarrow> menu \<times> bool option" where
  "menu_step star_x evs current_tilt m =
     (m\<lparr>mn_stars := map (\<lambda>(i, s). star_update (star_x i) s) (enumerate 0 (mn_stars m)),
        preview_x := preview_step current_tilt (preview_x m)\<rparr>,
      menu_events evs)"

text \<open>Finitely many iterations: \<open>None\<close> while the menu is still shown.\<close>

fun menu_run ::
  "((nat \<Rightarrow> int) \<times> menu_event list \<times> tilt) list \<Rightarrow> menu \<Rightarrow> menu \<times> bool option" where
  "menu_run [] m = (m, None)"
| "menu_run ((sx, evs, t) # fs) m =
     (case menu_step sx evs t m of
        (m', Some b) \<Rightarrow> (m', Some b)
      | (m', None) \<Rightarrow> menu_run fs m')"

text \<open>Line 421: \<open>main\<close> always passes \<open>iottalk_connected = True\<close>.\<close>

definition main_connected_flag :: bool where "main_connected_flag = True"

lemmas menu_defs [model_defs] = neon_text_def menu_init_def preview_y_def
  menu_status_def tilt_marker_def menu_view_of_def menu_step_def main_connected_flag_def

subsection \<open>Facts about the menu\<close>

text \<open>The tilt marker stays on its 200-pixel track (line 380) for every control value in range.\<close>

lemma tilt_marker_on_track:
  assumes "\<bar>t\<bar> \<le> 10"
  shows "WIDTH div 2 - 100 \<le> tilt_marker t \<and> tilt_marker t \<le> WIDTH div 2 + 100"
proof -
  have a: "-100 \<le> t * 10" "t * 10 \<le> 100" using assms by (simp_all add: abs_le_iff)
  then have f: "-100 \<le> \<lfloor>t * 10\<rfloor>" "\<lfloor>t * 10\<rfloor> \<le> 100" by (simp_all add: le_floor_iff floor_le_iff)
  have "tilt_marker t = 400 + \<lfloor>t * 10\<rfloor>" using a by (simp add: tilt_marker_def WIDTH_def c_int_of_def)
  moreover have "WIDTH div 2 = 400" by (simp add: WIDTH_def)
  ultimately show ?thesis using f by linarith
qed

text \<open>The status the menu shows never depends on the link: \<open>main\<close> passes \<open>True\<close>.\<close>

lemma main_menu_always_online:
  "mv_status (menu_view_of main_connected_flag now t m) = (''SYSTEM ONLINE'', C_NEON_GREEN)"
  by (simp add: menu_view_of_def main_connected_flag_def menu_status_def)

lemma menu_run_decides:
  "menu_run fs m = (m', Some b) \<Longrightarrow>
     \<exists>pre sx evs t post. fs = pre @ (sx, evs, t) # post \<and> menu_events evs = Some b \<and>
       (\<forall>(sx', evs', t') \<in> set pre. menu_events evs' = None)"
proof (induction fs m rule: menu_run.induct)
  case (2 sx evs t fs m)
  show ?case
  proof (cases "menu_events evs")
    case None
    define m1 where "m1 = fst (menu_step sx evs t m)"
    have step: "menu_step sx evs t m = (m1, None)" using None by (simp add: m1_def menu_step_def)
    have "menu_run fs m1 = (m', Some b)" using "2.prems" step by simp
    from "2.IH" [OF step [symmetric] refl this] obtain pre sx2 evs2 t2 post where
      "fs = pre @ (sx2, evs2, t2) # post" "menu_events evs2 = Some b"
      "\<forall>(sx', evs', t') \<in> set pre. menu_events evs' = None"
      by blast
    with None show ?thesis by (intro exI [of _ "(sx, evs, t) # pre"]) auto
  next
    case (Some c)
    with "2.prems" show ?thesis by (intro exI [of _ "[]"]) (auto simp: menu_step_def)
  qed
qed simp

end
