(* ===== verification/Render.thy ===== *)
theory Render
  imports Game_Loop Menu
begin

text \<open>
  What Game.py draws, as display lists: every pygame drawing call of a screen becomes a
  value of \<open>draw_op\<close>, in the order the code issues it.  Modelled here are the ship
  image of \<open>Player.draw_ship\<close> (lines 166-185), \<open>draw_hud\<close>
  (284-328), the screen of one \<open>main_menu\<close> iteration (341-393) and the game-over
  screen of \<open>main\<close> (509-514).  A rendered text is a \<open>Blit_Text\<close> of its string,
  colour, size and top-left corner; its size depends on the font file and is given by a
  parameter \<open>ts\<close> (font size and string to width and height).  A \<open>Surface\<close> drawn
  on and then blitted is a \<open>Blit_Layer\<close> holding its own display list.  The sprites of
  \<open>all_sprites.draw\<close> are not listed: the model's sprite groups do not keep
  \<open>all_sprites\<close>' insertion order across groups.
\<close>

text \<open>\<open>draw_neon_text(screen, text, Font(None, fsz), color, center_pos, glow)\<close>.\<close>

definition neon_ops :: "text_size \<Rightarrow> int \<Rightarrow> string \<Rightarrow> rgb \<Rightarrow> real \<times> real \<Rightarrow> bool \<Rightarrow> draw_op list" where
  "neon_ops ts fsz txt color center_pos glow =
     (case neon_text (ts fsz txt) color center_pos glow of
        (blits, r) \<Rightarrow> map (\<lambda>(c, x, y). Blit_Text txt (rgb_color c) (rw r, rh r) (x, y)) blits)"

text \<open>
  \<open>Player.draw_ship(angle)\<close>: the ship drawn on a fresh 50x60 surface, which is turned
  by \<open>-angle * 2\<close> degrees; the result's rectangle is centred on the ship's centre.
  Returned: the surface's display list, the rotation and the rectangle.
\<close>

definition ship_points :: "(real \<times> real) list" where
  "ship_points = [(25, 0), (50, 60), (25, 45), (0, 60)]"

definition ship_ops :: "draw_op list" where
  "ship_ops =
     [Draw_Polygon (rgb_color c_neon_cyan) ship_points 2,
      Draw_Polygon (RGB 0 100 100) ship_points 0,
      Draw_Circle (rgb_color c_neon_pink) (25, 50) 5]"

definition draw_ship :: "player \<Rightarrow> int \<Rightarrow> draw_op list \<times> int \<times> rect" where
  "draw_ship p angle =
     (ship_ops, - angle * 2,
      (case ship_rot_size angle of (w, h) \<Rightarrow> rect_centered w h (centerx (p_rect p)) (centery (p_rect p))))"

text \<open>\<open>draw_hud(screen, score, elapsed_time, tilt, font)\<close>, \<open>font\<close> of size 36;
  \<open>points\<close> is the parameter \<open>score\<close>.\<close>

definition draw_hud_ops :: "text_size \<Rightarrow> int \<Rightarrow> int \<Rightarrow> tilt \<Rightarrow> draw_op list" where
  "draw_hud_ops ts points elapsed_time tilt =
     (let cy = real_of_int hud_center_y; ((bx, by, bw, bh), bc) = hud_bar tilt in
      [Blit_Layer (WIDTH, dashboard_h) (0, HEIGHT - dashboard_h)
         [Fill (RGBA 0 10 20 230), Draw_Line (rgb_color c_neon_cyan) (0, 0) (WIDTH, 0) 2]] @
      neon_ops ts 36 ''SCORE'' c_neon_cyan (100, cy - 15) False @
      neon_ops ts 36 (score_text points) c_white (100, cy + 10) True @
      [Draw_Rect (RGB 50 50 50) (real_of_int gauge_x, real_of_int gauge_y, real_of_int gauge_w, real_of_int gauge_h) 5,
       Draw_Line (rgb_color c_white) (WIDTH div 2, gauge_y - 5) (WIDTH div 2, gauge_y + 15) 2,
       Draw_Rect (rgb_color (rgb_of bc)) (bx, by, bw, bh) 2] @
      neon_ops ts 20 ''GYRO STABILIZER'' c_neon_cyan (real_of_int (WIDTH div 2), cy - 10) False @
      neon_ops ts 36 ''TIME'' c_neon_cyan (real_of_int (WIDTH - 100), cy - 15) False @
      neon_ops ts 36 (clock_text elapsed_time) c_white (real_of_int (WIDTH - 100), cy + 10) True)"

text \<open>
  One screen of \<open>main_menu\<close> (lines 341-393), after the stars have moved and the preview
  position has been updated: background, stars, the title scaled by
  \<open>1.0 + 0.05 * sin(now_title * 3)\<close> (\<open>smoothscale\<close> to the truncated size), the
  status, the blinking instruction, the tilt track and marker, the preview ship (a
  \<open>Player()\<close> moved to the preview position and drawn with bank angle 0) and the
  hint.  \<open>now_title\<close> and \<open>now\<close> are the two \<open>time.time()\<close> readings.  The
  preview image is turned by 0 degrees, which \<open>pygame.transform.rotate\<close> makes an
  exact copy of the surface, so its display list is blitted as drawn.
\<close>

definition title_scale :: "real \<Rightarrow> real" where
  "title_scale now_title = 1 + 0.05 * sin (now_title * 3)"

text \<open>
  Lines 384-386: a fresh \<open>Player()\<close> whose \<open>rect.centerx\<close> (a float, truncated) and
  \<open>rect.centery\<close> are set to the preview position.
\<close>

definition preview_player :: "real \<Rightarrow> player" where
  "preview_player x =
     player_init\<lparr>p_rect := (p_rect player_init)\<lparr>rx := c_int_of x - rw (p_rect player_init) div 2,
                                               ry := preview_y - rh (p_rect player_init) div 2\<rparr>\<rparr>"

definition menu_ops :: "text_size \<Rightarrow> bool \<Rightarrow> real \<Rightarrow> real \<Rightarrow> tilt \<Rightarrow> menu \<Rightarrow> draw_op list" where
  "menu_ops ts iottalk_connected now_title now current_tilt m =
     (let (tw, th) = ts 100 ''SKY FIGHTER'';
          sc = title_scale now_title;
          gw = c_int_of (real_of_int tw * sc); gh = c_int_of (real_of_int th * sc);
          title_rect = rect_centered gw gh (WIDTH div 2) (HEIGHT div 3);
          status_col = (if iottalk_connected then C_NEON_GREEN else C_NEON_PINK);
          status_txt = (if iottalk_connected then ''SYSTEM ONLINE'' else ''WAITING FOR LINK...'');
          mx = real_of_int (WIDTH div 2) + current_tilt * 10;
          (ship_img, ship_angle, pr) = draw_ship (preview_player (preview_x m)) 0;
          (hw, hh) = ts 22 ''Try tilting your phone to control the plane!'' in
      [Fill (rgb_color c_bg)] @ map star_draw (mn_stars m) @
      [Blit_Text ''SKY FIGHTER'' (rgb_color c_neon_cyan) (gw, gh) (rx title_rect, ry title_rect)] @
      neon_ops ts 40 status_txt (rgb_of status_col) (real_of_int (WIDTH div 2), real_of_int (HEIGHT div 2)) True @
      (if c_int_of (now * 2) mod 2 = 0 then
         neon_ops ts 40 ''PRESS SPACE TO LAUNCH'' c_white (real_of_int (WIDTH div 2), real_of_int HEIGHT * 0.7) True
       else []) @
      [Draw_Rect (RGB 30 30 50) (real_of_int (WIDTH div 2 - 100), real_of_int (HEIGHT - 60), 200, 10) 0,
       Draw_Circle (rgb_color c_neon_yellow) (c_int_of mx, HEIGHT - 55) 8,
       Blit_Layer (rw pr, rh pr) (rx pr, ry pr) ship_img,
       Blit_Text ''Try tilting your phone to control the plane!'' (rgb_color c_neon_cyan) (hw, hh)
         (rx (rect_centered hw hh (WIDTH div 2) (preview_y + 40)), ry (rect_centered hw hh (WIDTH div 2) (preview_y + 40)))])"

text \<open>\<open>str(n)\<close> of an int and the game-over screen (lines 511-513).\<close>

definition py_str :: "int \<Rightarrow> string" where
  "py_str n = (if n < 0 then ''-'' else []) @ py_digits (nat \<bar>n\<bar>)"

definition game_over_ops :: "text_size \<Rightarrow> int \<Rightarrow> draw_op list" where
  "game_over_ops ts points =
     [Fill (RGB 0 0 0)] @
     neon_ops ts 80 ''MISSION FAILED'' c_neon_pink (real_of_int (WIDTH div 2), real_of_int (HEIGHT div 2 - 50)) True @
     neon_ops ts 36 (''FINAL SCORE: '' @ py_str points) c_white (real_of_int (WIDTH div 2), real_of_int (HEIGHT div 2 + 20)) True"

definition dashboard_box :: "real \<times> real \<times> real \<times> real" where
  "dashboard_box = (0, real_of_int (HEIGHT - dashboard_h), real_of_int WIDTH, real_of_int dashboard_h)"

lemmas render_defs [model_defs] = neon_ops_def ship_points_def ship_ops_def
  draw_ship_def draw_hud_ops_def title_scale_def preview_player_def menu_ops_def py_str_def game_over_ops_def

subsection \<open>Facts about the display lists\<close>



lemma ship_ops_inside: "list_all (op_inside (0, 0, 50, 60)) ship_ops"
  by (simp add: ship_ops_def ship_points_def box_in_def)

lemma neon_ops_inside:
  assumes "ts fsz str = (w, h)"
    and "X \<le> c_int_of cx - w div 2" "Y \<le> c_int_of cy - h div 2"
    and "c_int_of cx - w div 2 + w + (if glow then 2 else 0) \<le> X + W"
    and "c_int_of cy - h div 2 + h + (if glow then 2 else 0) \<le> Y + H"
  shows "list_all (op_inside (real_of_int X, real_of_int Y, real_of_int W, real_of_int H))
           (neon_ops ts fsz str color (cx, cy) glow)"
  using assms by (auto simp: neon_ops_def neon_text_def box_in_def Let_def split: prod.splits)


lemma neon_ops_shows:
  "\<exists>col sz pos. Blit_Text s col sz pos \<in> set (neon_ops ts fsz s color center glow)"
  by (intro exI [of _ "rgb_color color"] exI [of _ "ts fsz s"]
        exI [of _ "(c_int_of (fst center) - fst (ts fsz s) div 2, c_int_of (snd center) - snd (ts fsz s) div 2)"])
     (auto simp: neon_ops_def neon_text_def Let_def case_prod_beta)

lemma blit_in_append:
  "\<exists>col sz pos. Blit_Text s col sz pos \<in> set xs \<Longrightarrow> \<exists>col sz pos. Blit_Text s col sz pos \<in> set (ys @ xs @ zs)"
  by (metis Un_iff set_append)

lemma hud_bar_row: "hud_bar tilt = ((x, y, w, h), c) \<Longrightarrow> y = real_of_int gauge_y \<and> h = real_of_int gauge_h"
  by (auto simp: hud_bar_def Let_def split: if_splits)

lemma py_str_nonneg: "0 \<le> n \<Longrightarrow> py_str n = py_digits (nat n)"
  by (simp add: py_str_def)

lemma game_over_ops_shows:
  "(\<exists>col sz pos. Blit_Text ''MISSION FAILED'' col sz pos \<in> set (game_over_ops ts n)) \<and>
   (\<exists>col sz pos. Blit_Text (''FINAL SCORE: '' @ py_str n) col sz pos \<in> set (game_over_ops ts n))"
  unfolding game_over_ops_def
  using blit_in_append [OF neon_ops_shows, where ys = "[Fill (RGB 0 0 0)]"]
    blit_in_append [OF neon_ops_shows, where zs = "[]"]
  by (metis append.assoc append_Nil2)

text \<open>
  Claim C14 (bounds): whatever the score, the time and the control value, \<open>draw_hud\<close>
  paints only inside the 80-pixel dashboard at the bottom of the screen, as long as every
  rendered text is at most 196 pixels wide and 50 high.
\<close>

theorem hud_within_dashboard:
  assumes ts: "\<forall>fsz s. 0 \<le> fst (ts fsz s) \<and> fst (ts fsz s) \<le> 196 \<and> 0 \<le> snd (ts fsz s) \<and> snd (ts fsz s) \<le> 50"
  shows "list_all (op_inside dashboard_box) (draw_hud_ops ts points elapsed_time tilt)"
proof -
  obtain x0 y0 bw bh bc where bar: "hud_bar tilt = ((x0, y0, bw, bh), bc)" by (metis prod.exhaust)
  have x0: "real_of_int gauge_x \<le> x0 \<and> x0 + bw \<le> real_of_int (gauge_x + gauge_w) \<and> 0 \<le> bw"
    using hud_bar_in_gauge [OF bar] by simp
  have "y0 = real_of_int gauge_y \<and> bh = real_of_int gauge_h" using hud_bar_row [OF bar] .
  then have rects: "list_all (op_inside dashboard_box)
      [Draw_Rect (RGB 50 50 50) (real_of_int gauge_x, real_of_int gauge_y, real_of_int gauge_w, real_of_int gauge_h) 5,
       Draw_Line (rgb_color c_white) (WIDTH div 2, gauge_y - 5) (WIDTH div 2, gauge_y + 15) 2,
       Draw_Rect (rgb_color (rgb_of bc)) (x0, y0, bw, bh) 2]"
    using x0 by (simp add: dashboard_box_def box_in_def gauge_x_def gauge_y_def gauge_w_def gauge_h_def
      hud_center_y_def dashboard_h_def WIDTH_def HEIGHT_def)
  have texts: "list_all (op_inside dashboard_box) (neon_ops ts fsz s color (cx, cy) glow)"
    if "c_int_of cx = 100 \<or> c_int_of cx = 400 \<or> c_int_of cx = 700"
       "c_int_of cy = 545 \<or> c_int_of cy = 550 \<or> c_int_of cy = 570"
    for fsz s color cx cy glow
  proof -
    obtain w h where wh: "ts fsz s = (w, h)" by (metis prod.exhaust)
    then have "0 \<le> w \<and> w \<le> 196 \<and> 0 \<le> h \<and> h \<le> 50" using ts by (metis fst_conv snd_conv)
    moreover have db: "dashboard_box = (real_of_int 0, real_of_int 520, real_of_int 800, real_of_int 80)"
      by (simp add: dashboard_box_def dashboard_h_def WIDTH_def HEIGHT_def)
    ultimately show ?thesis
      unfolding db using int_half [of w] int_half [of h] that
      by (intro neon_ops_inside [where ts = ts and fsz = fsz and str = s, OF wh]) auto
  qed
  have cy: "real_of_int hud_center_y = 560" by (simp add: hud_center_y_def HEIGHT_def dashboard_h_def)
  have layer: "op_inside dashboard_box (Blit_Layer (WIDTH, dashboard_h) (0, HEIGHT - dashboard_h) ops)" for ops
    by (simp add: dashboard_box_def box_in_def)
  show ?thesis
    unfolding draw_hud_ops_def Let_def bar cy prod.case list_all_append
    using rects layer by (intro conjI texts) (simp_all add: c_int_of_def WIDTH_def)
qed

theorem hud_within_dashboard_witness:
  "(\<forall>fsz s. 0 \<le> fst ((\<lambda>_ _. (100, 20)) fsz s :: int \<times> int) \<and> fst ((\<lambda>_ _. (100, 20)) fsz s :: int \<times> int) \<le> 196 \<and>
      0 \<le> snd ((\<lambda>_ _. (100, 20)) fsz s :: int \<times> int) \<and> snd ((\<lambda>_ _. (100, 20)) fsz s :: int \<times> int) \<le> 50) \<and>
   list_all (op_inside dashboard_box) (draw_hud_ops (\<lambda>_ _. (100, 20)) 300 75 4.5)"
  using hud_within_dashboard [of "\<lambda>_ _. (100, 20)" 300 75 "4.5"] by simp


end
