(* ===== verification/Main_Program.thy ===== *)
theory Main_Program
  imports System Render
begin

text \<open>
  The program as a whole: \<open>main()\<close> of Game.py (lines 406-516) and the start of the
  listener thread (lines 23-30).  The listener first registers with IoTtalk through
  \<open>DAN.device_registration_with_retry\<close>, which is not in the repository; the spec
  (section 3) says it retries internally until it succeeds and otherwise never returns.
  It is modelled from the spec as a \<open>partial_function (option)\<close> over the outcomes of
  the successive attempts: \<open>None\<close> is the registration that never returns.  \<open>main\<close>
  starts that thread, shows the menu, and either quits or plays the game until it stops
  running, then shows the game-over screen.  A finite observation of \<open>main\<close> is
  \<open>main_prog\<close>: the menu frames seen so far, the draws of the game's setup and the game
  frames seen so far.
\<close>

partial_function (option) registration_with_retry :: "(nat \<Rightarrow> bool) \<Rightarrow> nat \<Rightarrow> nat option" where
  "registration_with_retry ok n = (if ok n then Some n else registration_with_retry ok (Suc n))"

declare registration_with_retry.simps [code]

text \<open>
  \<open>iottalk_listener\<close>: registration, then the polling loop on \<open>current_tilt\<close>, which
  still holds its initial value 0.0 (line 20) while the registration is pending.
  Returned: the attempt that succeeded and the state after the pulls.
\<close>

definition listener_thread :: "(nat \<Rightarrow> bool) \<Rightarrow> pull_result list \<Rightarrow> (nat \<times> listener_state) option" where
  "listener_thread ok rs =
     (case registration_with_retry ok 0 of
        None \<Rightarrow> None
      | Some k \<Rightarrow> Some (k, listener_run listener_init rs))"

datatype main_outcome =
    In_Menu menu
  | Quit_At_Menu
  | Playing game
  | Game_Over game "draw_op list"

text \<open>
  \<open>main\<close> after \<open>pygame.init()\<close> and the thread start: \<open>main_menu\<close> (line 421); on
  \<open>False\<close> \<open>pygame.quit()\<close> and return; otherwise the setup and the loop, and when it
  ends the game-over screen with the final score (lines 509-514).
\<close>

definition main_prog ::
  "text_size \<Rightarrow> ((nat \<Rightarrow> int) \<times> menu_event list \<times> tilt) list \<Rightarrow> (nat \<Rightarrow> int \<times> int \<times> real \<times> rgb) \<Rightarrow>
   real \<Rightarrow> (nat \<Rightarrow> int \<times> int \<times> rgb \<times> enemy_draw) \<Rightarrow> (nat \<Rightarrow> int \<times> int \<times> real \<times> rgb) \<Rightarrow>
   (frame_input \<times> tilt) list \<Rightarrow> main_outcome" where
  "main_prog ts mfs menu_stars t0 ed sd gfs =
     (case menu_run mfs (menu_init menu_stars) of
        (m, None) \<Rightarrow> In_Menu m
      | (m, Some False) \<Rightarrow> Quit_At_Menu
      | (m, Some True) \<Rightarrow>
          (let g = game_run ship_rot_size gfs (game_init t0 ed sd) in
           if running g then Playing g else Game_Over g (game_over_ops ts (score g))))"

lemmas main_defs [model_defs] = listener_thread_def main_prog_def

subsection \<open>Registration\<close>

lemma registration_result:
  assumes "registration_with_retry ok n = Some m"
  shows "n \<le> m \<and> ok m"
proof (rule registration_with_retry.raw_induct [where P = "\<lambda>ok n m. n \<le> m \<and> ok m", OF _ assms])
  fix f ok n y
  assume IH: "\<And>ok n y. f ok n = Some y \<Longrightarrow> n \<le> y \<and> ok y"
    and step: "(if ok n then Some n else f ok (Suc n)) = Some y"
  show "n \<le> y \<and> ok y"
  proof (cases "ok n")
    case True then show ?thesis using step by simp
  next
    case False then show ?thesis using step IH [of ok "Suc n" y] by simp
  qed
qed

lemma registration_never:
  "(\<forall>k\<ge>n. \<not> ok k) \<Longrightarrow> registration_with_retry ok n = None"
  using registration_result [of ok n] by (cases "registration_with_retry ok n") auto

text \<open>
  Claim C13 (liveness): the registration of the listener returns as soon as an attempt
  succeeds: if attempt \<open>k\<close> would succeed, the registration started at attempt \<open>n \<le> k\<close>
  returns the first successful attempt, at the latest \<open>k\<close>.
\<close>

theorem registration_returns:
  assumes ok: "ok k" and le: "n \<le> k"
  shows "\<exists>m. registration_with_retry ok n = Some m \<and> n \<le> m \<and> m \<le> k \<and> ok m \<and> (\<forall>j. n \<le> j \<and> j < m \<longrightarrow> \<not> ok j)"
  using le
proof (induction "k - n" arbitrary: n)
  case 0
  then have "n = k" by simp
  with ok have "registration_with_retry ok n = Some n" by (simp add: registration_with_retry.simps)
  with \<open>n = k\<close> ok show ?case by auto
next
  case (Suc d)
  show ?case
  proof (cases "ok n")
    case True then show ?thesis using Suc.prems by (auto simp: registration_with_retry.simps)
  next
    case False
    with ok have "n < k" using Suc.prems by (cases "n = k") auto
    moreover have "d = k - Suc n" using Suc.hyps(2) by arith
    ultimately obtain m where m: "registration_with_retry ok (Suc n) = Some m" "Suc n \<le> m" "m \<le> k" "ok m"
        "\<forall>j. Suc n \<le> j \<and> j < m \<longrightarrow> \<not> ok j"
      using Suc.hyps(1) [of "Suc n"] by (auto simp: Suc_le_eq)
    have "registration_with_retry ok n = Some m" using False m(1) by (simp add: registration_with_retry.simps [of ok n])
    moreover have "\<forall>j. n \<le> j \<and> j < m \<longrightarrow> \<not> ok j" using False m(5) by (metis le_antisym not_less_eq_eq)
    ultimately show ?thesis using m(2-4) by auto
  qed
qed

theorem registration_returns_witness:
  "(3::nat) \<le> 5 \<and> (0::nat) \<le> 5 \<and> registration_with_retry (\<lambda>i. 3 \<le> i) 0 = Some 3"
proof -
  obtain m where m: "registration_with_retry (\<lambda>i. 3 \<le> i) 0 = Some m" "3 \<le> m"
      "\<forall>j. 0 \<le> j \<and> j < m \<longrightarrow> \<not> 3 \<le> j"
    using registration_returns [of "\<lambda>i. 3 \<le> i" 5 0] by auto
  have "\<not> 3 < m" using m(3) by auto
  then have "m = 3" using m(2) by simp
  then show ?thesis using m(1) by simp
qed

subsection \<open>The program\<close>

text \<open>
  Closing the window during the game ends the loop like a crash does: the game-over
  screen is shown.
\<close>

lemma quit_during_game_shows_mission_failed:
  assumes "menu_run mfs (menu_init ms) = (m, Some True)" "fi_quit f"
  shows "main_prog ts mfs ms t0 ed sd ((f, t) # gfs) =
           Game_Over (game_frame ship_rot_size f t (game_init t0 ed sd))
             (game_over_ops ts (score (game_frame ship_rot_size f t (game_init t0 ed sd))))"
proof -
  have run: "running (game_init t0 ed sd)" by (simp add: game_init_def)
  have stop: "\<not> running (game_frame ship_rot_size f t (game_init t0 ed sd))"
    using assms(2) by (simp add: game_frame_eq Let_def case_prod_beta)
  show ?thesis using assms(1) run stop game_run_stopped by (simp add: main_prog_def Let_def)
qed

text \<open>
  Claim C3 (functional): when \<open>main\<close> reaches the game-over screen, the game has
  stopped with its six enemies and a score that is a non-negative multiple of 100, and
  the screen shows \<open>MISSION FAILED\<close> and \<open>FINAL SCORE:\<close> followed by the decimal
  digits of that score.
\<close>

theorem main_game_over_score:
  assumes "main_prog ts mfs ms t0 ed sd gfs = Game_Over g ops"
  shows "\<not> running g \<and> length (g_mobs g) = 6 \<and> 0 \<le> score g \<and> 100 dvd score g \<and>
         (\<exists>col sz pos. Blit_Text ''MISSION FAILED'' col sz pos \<in> set ops) \<and>
         (\<exists>col sz pos s. Blit_Text (''FINAL SCORE: '' @ s) col sz pos \<in> set ops \<and> digits_val s = nat (score g))"
proof -
  have g: "g = game_run ship_rot_size gfs (game_init t0 ed sd)" and ops: "ops = game_over_ops ts (score g)"
    and stop: "\<not> running g"
    using assms by (auto simp: main_prog_def Let_def split: prod.splits option.splits bool.splits if_splits)
  obtain n where "length (g_mobs g) = length (g_mobs (game_init t0 ed sd))"
      "score g = score (game_init t0 ed sd) + 100 * int n"
    using game_run_counts [of ship_rot_size gfs "game_init t0 ed sd"] g by blast
  then have counts: "length (g_mobs g) = 6" "score g = 100 * int n" by (simp_all add: game_init_def)
  then have "digits_val (py_str (score g)) = nat (score g)"
    by (simp add: py_str_nonneg digits_val_py_digits)
  then show ?thesis using stop counts game_over_ops_shows [of ts "score g"] unfolding ops by fastforce
qed

theorem main_game_over_score_witness:
  "main_prog (\<lambda>_ _. (100, 20)) [(\<lambda>_. 0, [Ev_Key_Space], 0)] (\<lambda>_. (0, 0, 1, c_white)) 0
      (\<lambda>_. (30, 3, c_neon_pink, (0, -100, 3))) (\<lambda>_. (0, 0, 1, c_white))
      [(\<lparr>fi_now = 1, fi_quit = True, fi_engine = None, fi_star_x = (\<lambda>_. 0), fi_reset = (\<lambda>_. (0, -100, 3)),
         fi_spark = (\<lambda>_ _. (0, 0)), fi_spawn = (\<lambda>_. (30, 3, c_neon_pink, (0, -100, 3)))\<rparr>, 0)] =
    Game_Over (game_frame ship_rot_size
        \<lparr>fi_now = 1, fi_quit = True, fi_engine = None, fi_star_x = (\<lambda>_. 0), fi_reset = (\<lambda>_. (0, -100, 3)),
         fi_spark = (\<lambda>_ _. (0, 0)), fi_spawn = (\<lambda>_. (30, 3, c_neon_pink, (0, -100, 3)))\<rparr> 0
        (game_init 0 (\<lambda>_. (30, 3, c_neon_pink, (0, -100, 3))) (\<lambda>_. (0, 0, 1, c_white))))
      (game_over_ops (\<lambda>_ _. (100, 20)) (score (game_frame ship_rot_size
        \<lparr>fi_now = 1, fi_quit = True, fi_engine = None, fi_star_x = (\<lambda>_. 0), fi_reset = (\<lambda>_. (0, -100, 3)),
         fi_spark = (\<lambda>_ _. (0, 0)), fi_spawn = (\<lambda>_. (30, 3, c_neon_pink, (0, -100, 3)))\<rparr> 0
        (game_init 0 (\<lambda>_. (30, 3, c_neon_pink, (0, -100, 3))) (\<lambda>_. (0, 0, 1, c_white)))))) \<and>
   100 dvd score (game_frame ship_rot_size
        \<lparr>fi_now = 1, fi_quit = True, fi_engine = None, fi_star_x = (\<lambda>_. 0), fi_reset = (\<lambda>_. (0, -100, 3)),
         fi_spark = (\<lambda>_ _. (0, 0)), fi_spawn = (\<lambda>_. (30, 3, c_neon_pink, (0, -100, 3)))\<rparr> 0
        (game_init 0 (\<lambda>_. (30, 3, c_neon_pink, (0, -100, 3))) (\<lambda>_. (0, 0, 1, c_white))))"
  (is "main_prog ?ts ?mfs ?ms 0 ?ed ?sd [(?f, 0)] = ?go \<and> _")
proof -
  have menu: "menu_run ?mfs (menu_init ?ms) = (fst (menu_step (\<lambda>_. 0) [Ev_Key_Space] 0 (menu_init ?ms)), Some True)"
    by (simp add: menu_step_def)
  have h: "main_prog ?ts ?mfs ?ms 0 ?ed ?sd [(?f, 0)] = ?go"
    by (rule quit_during_game_shows_mission_failed [OF menu]) simp
  show ?thesis using main_game_over_score [OF h] h by simp
qed

end
