(* ===== verification/Spec2Isabelle.thy ===== *)
theory Spec2Isabelle
  imports Calibration_Analysis SA_Device Main_Program
begin

text \<open>
  \<^bold>\<open>Sky Fighter: a verification development of the tilt-control pipeline.\<close>

  The repository (itsYoga/sky_fighter) is a pygame arcade game steered by the tilt of a
  phone.  Three Python files:
  \<^item> \<^verbatim>\<open>src/Game.py\<close>: the background thread \<open>iottalk_listener\<close> (lines 23-97) pulls
    gyroscope samples from IoTtalk and is the only writer of the global
    \<open>current_tilt\<close>; the game loop (\<open>Player.update\<close>, \<open>main_menu\<close>, \<open>draw_hud\<close>,
    \<open>main\<close>) only reads it;
  \<^item> \<^verbatim>\<open>src/test_tilt_data.py\<close>: a calibration script that records samples through five
    timed phases, prints per-phase statistics and suggests the controller's baseline, dead
    zone and scale factor;
  \<^item> \<^verbatim>\<open>src/SA.py\<close>: IoTtalk device configuration and two print-only callbacks.
  The network layer \<open>DAN\<close> is not in the repository; only the interface the code uses
  (\<open>DAN.pull\<close> returns a value, \<open>None\<close>, or raises) is modelled, from the spec.

  \<^bold>\<open>Theories.\<close>
  \<^item> \<open>Prelude\<close>: fact collections \<open>model_defs\<close> and \<open>range_facts\<close>, the clamp
    \<open>py_clamp\<close> (\<open>max(lo, min(hi, x))\<close>), sliding windows \<open>last_n\<close>, list bounds.
  \<^item> \<open>Py_Values\<close>: the decoded JSON values (\<open>pyval\<close>) and Python's \<open>float()\<close> on them
    (\<open>py_float\<close>, with \<open>ValueError\<close>, \<open>TypeError\<close>, \<open>OverflowError\<close> as values of
    \<open>py_error\<close>), including the decimal-literal reader \<open>parse_float\<close> with
    PEP 515 digit groups, and the fixed-point formatting \<open>fmt_fixed\<close> of \<open>{x:.kf}\<close>
    (round half to even).
  \<^item> \<open>Sample_Normalizer\<close>: the live controller's extraction \<open>listener_gamma\<close>
    (Game.py 36-60), the calibration tool's \<open>calib_parse\<close> (test_tilt_data.py 146-229)
    with its lexicon \<open>direction_map\<close>, and the spec's contract \<open>spec_normalize\<close>.
  \<^item> \<open>Tilt_Controller\<close>: the control law \<open>tilt_of_gamma\<close> over a \<open>tilt_config\<close>
    record, the loop iteration \<open>listener_step\<close> on a \<open>listener_state\<close> record
    (\<open>current_tilt\<close>, time slept), its runs \<open>listener_run\<close>, and the assignments
    to \<open>current_tilt\<close> one iteration makes (\<open>listener_writes\<close>: line 89 stores the
    unclamped value, line 91 the clamped one).
  \<^item> \<open>Calibration_Stats\<close>: the recorded sample \<open>data_point\<close> (test_tilt_data.py
    242-251) and \<open>print_statistics\<close> (65-79) with Python's \<open>statistics.mean\<close>,
    \<open>median\<close> and \<open>stdev\<close> (which raises \<open>StatisticsError\<close> below two values).
  \<^item> \<open>Calibration_Session\<close>: the main loop of the calibration script (lines 101-313)
    as the step function \<open>calib_step\<close> on a \<open>calib_state\<close> record (phase index, phase
    start, all data, the current phase's samples, the 10-sample window, the
    "first data received" flag and whether the local \<open>data\<close> was ever bound), over
    events \<open>Tick now pull\<close> (one iteration at time \<open>now\<close>) and \<open>Key_Interrupt\<close>; runs
    are \<open>calib_run\<close>, the phase table is \<open>phases\<close>.
  \<^item> \<open>Calibration_Analysis\<close>: the final report (lines 315-493): \<open>group_by_phase\<close>,
    the guess \<open>classify_data\<close>, the key analysis \<open>key_analysis_of\<close> (baseline,
    \<open>max_offset\<close>, suggested scale and dead zone, direction check), the legacy analysis,
    and \<open>suggested_config\<close>, the \<open>tilt_config\<close> the script tells the user to paste
    into Game.py, with the values rounded as printed; the spec's direction check
    \<open>spec_right_over_left\<close>.
  \<^item> \<open>Motion\<close>: the screen size and the neon palette, pygame's integer \<open>Rect\<close>
    (\<open>c_int_of\<close> truncation, \<open>clamp_ip\<close>), \<open>Player.update\<close> as
    \<open>player_move3\<close>/\<open>player_update3\<close> on a \<open>player\<close> record and the three
    readings of \<open>current_tilt\<close> it takes (lines 189, 196, 199), the same with one
    reading \<open>player_move\<close>/\<open>player_update\<close>, runs \<open>player_run\<close>, the
    size \<open>pg_rotate_size\<close> of an image turned by \<open>pygame.transform.rotate\<close> and its use
    \<open>ship_rot_size\<close> in \<open>Player.draw_ship\<close>, and the menu preview \<open>preview_step\<close>
    (Game.py 99-109, 156-214, 337-360).
  \<^item> \<open>Drawing\<close>: the display-list vocabulary: a pygame drawing call as a value of
    \<open>draw_op\<close>, and the extent \<open>op_inside\<close> a call can paint.
  \<^item> \<open>Hud\<close>: \<open>draw_hud\<close> (Game.py 284-328) as the values it draws: \<open>hud_bar\<close>, the
    score and clock texts with Python's zero-padded formatting \<open>py_format_0d\<close>, and a
    reader \<open>read_clock\<close> for the clock text.
  \<^item> \<open>Sprites\<close>: \<open>Particle\<close>, \<open>Star\<close>, \<open>Enemy\<close>, \<open>Bullet\<close> (Game.py 114-269), with
    every \<open>random\<close> call an argument and \<open>kill()\<close> the value \<open>None\<close>, their colours and
    images (\<open>star_draw\<close>, the enemy hexagon \<open>enemy_image\<close> redrawn by every update,
    \<open>bullet_image\<close>); their well-formedness predicates and the lifetime
    \<open>particle_lifetime\<close> of a particle.
  \<^item> \<open>Game_Loop\<close>: \<open>main\<close>'s setup \<open>game_init\<close> and one iteration \<open>game_frame3\<close> of
    \<open>while running\<close> on a \<open>game\<close> record (auto-fire, updates, \<open>groupcollide\<close> as
    \<open>group_collide\<close>, score, explosions in the colour of the hit enemy, respawn, crash
    test) with the three readings of \<open>current_tilt\<close> its \<open>Player.update\<close> takes, the
    frame \<open>game_frame\<close> with one reading, runs \<open>game_run3\<close> and \<open>game_run\<close>, the
    state invariant \<open>game_wf\<close> and the range of the random draws \<open>valid_frame\<close>.
  \<^item> \<open>Menu\<close>: \<open>main_menu\<close> (Game.py 331-403) as \<open>menu_step\<close> on a \<open>menu\<close> record
    (stars, preview position), what an iteration shows (\<open>menu_view_of\<close>), the event
    loop \<open>menu_events\<close> and runs \<open>menu_run\<close>; \<open>draw_neon_text\<close> as \<open>neon_text\<close>.
  \<^item> \<open>Render\<close>: the screens as display lists: \<open>neon_ops\<close>, \<open>draw_ship\<close>,
    \<open>draw_hud_ops\<close>, the menu screen \<open>menu_ops\<close> written from the drawing calls of
    lines 341-393 (with \<open>preview_player\<close> and the title's \<open>title_scale\<close>) and the
    game-over screen \<open>game_over_ops\<close>.
  \<^item> \<open>System\<close>: the listener thread and the game loop interleaved at the level of
    their accesses to \<open>current_tilt\<close>: \<open>sys_step\<close> over the events \<open>L_Pull\<close> (a
    listener iteration's pull), \<open>L_Write\<close> (each of its one or two assignments),
    \<open>G_Read\<close> (each of a frame's three readings) and \<open>G_Frame\<close> (the rest of the
    frame, applied with the readings taken); the observations \<open>sys_pulls\<close>,
    \<open>sys_frames\<close>, \<open>listener_flush\<close> and the invariant \<open>sys_inv\<close>.
  \<^item> \<open>Main_Program\<close>: the listener's registration \<open>registration_with_retry\<close> (a
    \<open>partial_function (option)\<close>, modelled from the spec) and thread
    \<open>listener_thread\<close>, and \<open>main\<close> as \<open>main_prog\<close>: menu, quit or game, game-over
    screen.
  \<^item> \<open>SA_Device\<close>: SA.py's constants and callbacks \<open>dummy_control\<close> and
    \<open>on_register\<close>, and Game.py's \<open>DAN.profile\<close>.
  \<^item> this theory: properties that span the calibration components and the printed
    configuration.

  \<^bold>\<open>Modelling choices.\<close>  Python floats are \<open>real\<close>: the properties are about the
  arithmetic of the program, not about IEEE rounding; \<open>inf\<close>/\<open>nan\<close> spellings accepted
  by \<open>float()\<close> denote no real number and are outside the model (read as
  \<open>ValueError\<close>; in the listener a \<open>nan\<close> would be clamped to 10).  Python ints are
  \<open>int\<close>, with CPython's int-to-float overflow bound written out.  Strings are UTF-8 byte
  strings.  The infinite polling loop is a step function; any finite prefix of it is a
  fold over the list of pull outcomes, so no fuel is needed.  Printing and sleeping are
  not modelled beyond the time slept per iteration.  pygame's rotation is computed over
  the reals with \<open>sin\<close> and \<open>cos\<close> as in its C source.

  \<^bold>\<open>What is proved.\<close>  The controller keeps \<open>current_tilt\<close> in \<open>[-10, 10]\<close> after
  every iteration (C1).  Every interleaving of the two threads, taken access by access,
  decomposes into the listener run alone on its pulls and the game run alone on its
  frames, each fed its own three readings (C2); the only out-of-range value another
  thread can read is the unclamped one of line 89, while its clamp is pending (C4, a
  38.5 is reachable), and a frame whose readings change from a tilt to 0.0 between line
  189 and line 196 neither moves the ship nor lets its bank return (C22).  When
  \<open>main\<close> reaches the game-over screen, the game has stopped with six enemies and a
  score that is a non-negative multiple of 100, shown as its decimal digits (C3).  The
  control law saturates at exactly \<open>\<plusminus>10\<close> (C5), is monotone (C6), and resets to 0 on
  unusable data (C8); it does not reset on a missing sample (C7) nor on an oversized
  integer (C9).  On the game side: every frame preserves the well-formedness
  \<open>game_wf\<close> of the game state when the random draws are in range (C10, a type
  invariant); every run from the start keeps six enemies and a score that is a multiple
  of 100 (C11); every run of \<open>Player.update\<close>, resized to the real rotated ship, keeps
  the ship's top-left corner on the screen and its size within it (C12); the listener's
  registration returns at the first successful attempt (C13, liveness); the HUD paints
  only inside its dashboard (C14); the menu's display list, written from its drawing
  calls, shows its abstract view (C15); pygame's truncation makes small tilts move the
  ship left but not right (C16); an odd bank angle never returns to 0, so the ship
  wobbles (C17); the HUD clock text reads back as the elapsed time (C32); a particle dies
  after exactly \<open>max 1 life\<close> updates (C33, termination); a star is drawn on the
  screen, and not at all when its speed is below 1 (C34).
  The calibration extraction refines the spec's normalizer (C18), ignores one level of
  nesting (C19), lets only \<open>OverflowError\<close> escape (C20), records unknown labels as
  0.0 (C35), and reads a triple exactly as C38 describes (first-axis fallback); the live
  extraction reads the first axis of a flat triple (C36) and ignores a bare scalar
  (C37).  The calibration session preserves an invariant on its state for every run
  (C21): the phase index only grows, the window is the last ten values, the reports
  cover exactly the phases passed.  A phase advances only when a sample arrives after its
  duration (C23, C24); a fault crashes the script with \<open>NameError\<close> exactly when no
  earlier pull has returned (C25); the baseline phase's timer runs while waiting for
  data (C39).  The printed statistics are consistent and the standard deviation line
  never raises (C27).  The key analysis's \<open>max_offset\<close> is the largest deviation
  (C28), and the direction check disagrees with the spec's exactly in the cases C29
  lists.  Across components: the printed configuration is the exact suggestion within
  the rounding of its format (C26; with a maximal offset of 3 the extreme sample then
  maps to 9.9999, not 10); the report never takes the legacy branch (C30) and has at
  most four phase groups (C31).  Further lemmas show that the statistics are
  order-independent, that a scale is suggested iff some sample deviates, that a complete
  session reports all five phases, that the game's constants leave a gap between 0 and
  1.001, that the menu preview is mirror-symmetric, and that closing the window
  mid-game still shows the game-over screen.

  \<^bold>\<open>Bounds and fuel.\<close>  No fuel is used: both loops are infinite in the source and
  are modelled as step functions whose finite prefixes are folds over event lists, so
  every theorem holds for runs of any length.  The particle's lifetime is a
  \<open>function\<close> whose termination is proved with the measure \<open>life\<close>.  The
  registration loop may never return, so it is a \<open>partial_function (option)\<close>, with
  \<open>None\<close> for the registration that retries forever; that it returns when an attempt
  succeeds is proved as such (C13).  The window
  length 10 and the phase durations 5, 8, 3, 8, 3 s are the constants of the script.

  \<^bold>\<open>Not modelled.\<close>  The pixels: pygame rasterises the display lists, and fonts
  decide the rendered size of a text, which is a parameter \<open>ts\<close> of the screens.  The
  drawing of one game frame (Game.py 492-505) is not listed, because
  \<open>all_sprites.draw\<close> blits in the insertion order of \<open>all_sprites\<close>, which the
  model's per-group sprite lists do not keep.  \<open>pygame.init\<close>, the window, the clock,
  \<open>display.flip\<close>, the sleeps and the banner prints are I/O.  The \<open>DAN\<close> library is
  outside the repository (its registration and pull interface are modelled from the
  spec; the spec says the registration retries internally until success and fails only
  by retrying forever, so the model has no exception path out of it: the handler that
  test_tilt_data.py puts around it (lines 49-54, print and exit) is then never taken, and
  Game.py calls it with none).  The menu's own readings of \<open>current_tilt\<close> (lines 350,
  355, 357, 381) and the HUD's (line 505) are not part of the thread model: the menu
  runs before the game, and the HUD only draws.  SA.py's MQTT credentials are left out.  Of the calibration report, the
  \<open>Counter\<close>-based printouts of direction frequencies are not modelled.  The random
  draws of the game are arguments drawn from separate streams; the real program draws
  them from one generator in program order, which changes which values occur together
  but not the set of possible runs the theorems quantify over.
\<close>

section \<open>Properties spanning components\<close>

text \<open>
  Claim C26 (bounds): the configuration the calibration report prints for Game.py is the
  suggestion of the analysis rounded as printed: it exists only for a positive maximal
  offset, and its baseline and scale factor lie within half a unit of the fourth decimal,
  its dead zone within half a unit of the second decimal, of the exact centre mean,
  \<open>10 / max_offset\<close> and \<open>max_offset * 0.1\<close>.
\<close>

theorem calibrated_config_rounding:
  assumes "suggested_config (key_analysis_of center r l) = Some cfg"
  shows "0 < max_offset (key_analysis_of center r l) \<and>
         \<bar>baseline cfg - center_avg (key_analysis_of center r l)\<bar> \<le> 1 / 20000 \<and>
         \<bar>scale_factor cfg - 10 / max_offset (key_analysis_of center r l)\<bar> \<le> 1 / 20000 \<and>
         \<bar>dead_zone cfg - max_offset (key_analysis_of center r l) * 0.1\<bar> \<le> 1 / 200"
proof -
  let ?a = "key_analysis_of center r l"
  let ?mo = "max_offset ?a"
  have pos: "0 < ?mo" and cfg: "cfg = \<lparr>baseline = fmt_fixed 4 (center_avg ?a),
      dead_zone = fmt_fixed 2 (?mo * 0.1), scale_factor = fmt_fixed 4 (10 / ?mo)\<rparr>"
    using assms by (auto simp: suggested_config_def suggested_key_analysis split: if_splits)
  have b4: "\<bar>fmt_fixed 4 x - x\<bar> \<le> 1 / 20000" for x
    using fmt_fixed_err [of 4 x] by simp
  have b2: "\<bar>fmt_fixed 2 x - x\<bar> \<le> 1 / 200" for x
    using fmt_fixed_err [of 2 x] by simp
  show ?thesis using pos b4 b2 by (simp add: cfg)
qed

theorem calibrated_config_rounding_witness:
  "suggested_config (key_analysis_of [0] [3] [-1]) =
     Some \<lparr>baseline = 0, dead_zone = 0.3, scale_factor = 3.3333\<rparr> \<and>
   max_offset (key_analysis_of [0] [3] [-1]) = 3"
  using calibrated_config_rounding [of "[0]" "[3]" "[-1]" "\<lparr>baseline = 0, dead_zone = 0.3, scale_factor = 3.3333\<rparr>"]
  by (simp add: model_defs Let_def)

text \<open>
  The rounding is visible at the controller: with a maximal offset of 3 the printed scale
  factor \<open>3.3333\<close> maps the most extreme sample to 9.9999, not to 10.
\<close>

lemma calibrated_config_not_full_scale:
  "suggested_config (key_analysis_of [0] [3] [-1]) =
     Some \<lparr>baseline = 0, dead_zone = 0.3, scale_factor = 3.3333\<rparr> \<and>
   tilt_of_gamma \<lparr>baseline = 0, dead_zone = 0.3, scale_factor = 3.3333\<rparr> 3 = 9.9999"
  by (simp add: model_defs Let_def)

text \<open>
  Claim C30 (safety): for any run of the calibration loop, the final report never takes the legacy analysis branch (the old phase names are never recorded) and never classifies the data as a single value (the raw data of a point is always a list).
\<close>

theorem session_report_not_legacy:
  assumes "make_final_report (all_data (calib_run (calib_init t0) evs)) = Some fr"
  shows "(\<forall>a b c. fr_analysis fr \<noteq> Legacy_Analysis a b c) \<and> fr_kind fr \<noteq> Single_Value"
proof -
  let ?all = "all_data (calib_run (calib_init t0) evs)"
  have inv: "\<forall>pt\<in>set ?all. pt_phase pt \<in> set phase_labels \<and> is_seq (pt_raw pt)"
    using calib_run_inv [OF calib_init_inv, of t0 evs] by (simp add: calib_inv_def)
  have ne: "?all \<noteq> []" and fr: "fr_analysis fr = calibration_analysis (group_by_phase ?all)"
    "fr_kind fr = classify_data ?all"
    using assms by (auto simp: make_final_report_def Let_def split: if_splits)
  have "\<not> (\<exists>a b c. calibration_analysis (group_by_phase ?all) = Legacy_Analysis a b c)"
    using inv by (intro analysis_not_legacy) blast
  moreover have "classify_data ?all \<noteq> Single_Value"
    using ne inv by (intro classify_not_single) blast+
  ultimately show ?thesis using fr by auto
qed

theorem session_report_not_legacy_witness:
  "fr_kind (the (make_final_report (all_data (calib_run (calib_init 0) [Tick 1 1 (Pulled (PList [PList [PFloat 0, PFloat 0, PFloat (-1)]])), Tick 2 2 (Pulled (PList [PList [PFloat 0, PFloat 0, PFloat 0]])), Tick 5 5 (Pulled (PList [PList [PFloat 0, PFloat 0, PFloat 1]])), Tick 6 6 (Pulled (PList [PList [PFloat 0, PFloat 0, PFloat 4]])), Tick 13 13 (Pulled (PList [PList [PFloat 0, PFloat 0, PFloat 6]])), Tick 16 16 (Pulled (PList [PList [PFloat 0, PFloat 0, PFloat 0]])), Tick 17 17 (Pulled (PList [PList [PFloat 0, PFloat 0, PFloat (-6)]])), Tick 24 24 (Pulled (PList [PList [PFloat 0, PFloat 0, PFloat (-4)]])), Tick 27 27 (Pulled (PList [PList [PFloat 0, PFloat 0, PFloat 0]]))])))) = Gyroscope_Triples"
  using session_report_not_legacy [of 0 "[Tick 1 1 (Pulled (PList [PList [PFloat 0, PFloat 0, PFloat (-1)]])), Tick 2 2 (Pulled (PList [PList [PFloat 0, PFloat 0, PFloat 0]])), Tick 5 5 (Pulled (PList [PList [PFloat 0, PFloat 0, PFloat 1]])), Tick 6 6 (Pulled (PList [PList [PFloat 0, PFloat 0, PFloat 4]])), Tick 13 13 (Pulled (PList [PList [PFloat 0, PFloat 0, PFloat 6]])), Tick 16 16 (Pulled (PList [PList [PFloat 0, PFloat 0, PFloat 0]])), Tick 17 17 (Pulled (PList [PList [PFloat 0, PFloat 0, PFloat (-6)]])), Tick 24 24 (Pulled (PList [PList [PFloat 0, PFloat 0, PFloat (-4)]])), Tick 27 27 (Pulled (PList [PList [PFloat 0, PFloat 0, PFloat 0]]))]" "the (make_final_report (all_data (calib_run (calib_init 0) [Tick 1 1 (Pulled (PList [PList [PFloat 0, PFloat 0, PFloat (-1)]])), Tick 2 2 (Pulled (PList [PList [PFloat 0, PFloat 0, PFloat 0]])), Tick 5 5 (Pulled (PList [PList [PFloat 0, PFloat 0, PFloat 1]])), Tick 6 6 (Pulled (PList [PList [PFloat 0, PFloat 0, PFloat 4]])), Tick 13 13 (Pulled (PList [PList [PFloat 0, PFloat 0, PFloat 6]])), Tick 16 16 (Pulled (PList [PList [PFloat 0, PFloat 0, PFloat 0]])), Tick 17 17 (Pulled (PList [PList [PFloat 0, PFloat 0, PFloat (-6)]])), Tick 24 24 (Pulled (PList [PList [PFloat 0, PFloat 0, PFloat (-4)]])), Tick 27 27 (Pulled (PList [PList [PFloat 0, PFloat 0, PFloat 0]]))])))"]
  by (simp add: model_defs Let_def)

text \<open>
  Claim C31 (bounds): for any run of the calibration loop, the final report prints statistics for at most four phase groups: the two return-to-centre phases share a label and are merged.
\<close>

theorem session_report_at_most_four:
  assumes "make_final_report (all_data (calib_run (calib_init t0) evs)) = Some fr"
  shows "length (fr_phase_stats fr) \<le> 4"
proof -
  let ?all = "all_data (calib_run (calib_init t0) evs)"
  have inv: "\<forall>pt\<in>set ?all. pt_phase pt \<in> set phase_labels"
    using calib_run_inv [OF calib_init_inv, of t0 evs] by (simp add: calib_inv_def)
  have "fr_phase_stats fr = map (\<lambda>(k, ps). (k, print_statistics ps)) (group_by_phase ?all)"
    using assms by (auto simp: make_final_report_def Let_def split: if_splits)
  then show ?thesis using group_count_le_4 [OF inv] by simp
qed

theorem session_report_at_most_four_witness:
  "length (fr_phase_stats (the (make_final_report (all_data (calib_run (calib_init 0) [Tick 1 1 (Pulled (PList [PList [PFloat 0, PFloat 0, PFloat (-1)]])), Tick 2 2 (Pulled (PList [PList [PFloat 0, PFloat 0, PFloat 0]])), Tick 5 5 (Pulled (PList [PList [PFloat 0, PFloat 0, PFloat 1]])), Tick 6 6 (Pulled (PList [PList [PFloat 0, PFloat 0, PFloat 4]])), Tick 13 13 (Pulled (PList [PList [PFloat 0, PFloat 0, PFloat 6]])), Tick 16 16 (Pulled (PList [PList [PFloat 0, PFloat 0, PFloat 0]])), Tick 17 17 (Pulled (PList [PList [PFloat 0, PFloat 0, PFloat (-6)]])), Tick 24 24 (Pulled (PList [PList [PFloat 0, PFloat 0, PFloat (-4)]])), Tick 27 27 (Pulled (PList [PList [PFloat 0, PFloat 0, PFloat 0]]))]))))) = 4"
  using session_report_at_most_four [of 0 "[Tick 1 1 (Pulled (PList [PList [PFloat 0, PFloat 0, PFloat (-1)]])), Tick 2 2 (Pulled (PList [PList [PFloat 0, PFloat 0, PFloat 0]])), Tick 5 5 (Pulled (PList [PList [PFloat 0, PFloat 0, PFloat 1]])), Tick 6 6 (Pulled (PList [PList [PFloat 0, PFloat 0, PFloat 4]])), Tick 13 13 (Pulled (PList [PList [PFloat 0, PFloat 0, PFloat 6]])), Tick 16 16 (Pulled (PList [PList [PFloat 0, PFloat 0, PFloat 0]])), Tick 17 17 (Pulled (PList [PList [PFloat 0, PFloat 0, PFloat (-6)]])), Tick 24 24 (Pulled (PList [PList [PFloat 0, PFloat 0, PFloat (-4)]])), Tick 27 27 (Pulled (PList [PList [PFloat 0, PFloat 0, PFloat 0]]))]" "the (make_final_report (all_data (calib_run (calib_init 0) [Tick 1 1 (Pulled (PList [PList [PFloat 0, PFloat 0, PFloat (-1)]])), Tick 2 2 (Pulled (PList [PList [PFloat 0, PFloat 0, PFloat 0]])), Tick 5 5 (Pulled (PList [PList [PFloat 0, PFloat 0, PFloat 1]])), Tick 6 6 (Pulled (PList [PList [PFloat 0, PFloat 0, PFloat 4]])), Tick 13 13 (Pulled (PList [PList [PFloat 0, PFloat 0, PFloat 6]])), Tick 16 16 (Pulled (PList [PList [PFloat 0, PFloat 0, PFloat 0]])), Tick 17 17 (Pulled (PList [PList [PFloat 0, PFloat 0, PFloat (-6)]])), Tick 24 24 (Pulled (PList [PList [PFloat 0, PFloat 0, PFloat (-4)]])), Tick 27 27 (Pulled (PList [PList [PFloat 0, PFloat 0, PFloat 0]]))])))"]
  by (simp add: model_defs Let_def)

end
